theory Spec2Isabelle
  imports Main
begin

section \<open>Kubernetes API objects\<close>

text \<open>
  The vendored API types, reduced to the fields that \<^verbatim>\<open>pkg/controller/argocd/role.go\<close>
  and the tests of the Deployments read or write. Go's struct embedding of \<^verbatim>\<open>metav1.ObjectMeta\<close> (which promotes
  \<^verbatim>\<open>role.Name\<close>, \<^verbatim>\<open>cr.Namespace\<close>, ...) is record extension. Label and annotation maps
  are association lists.
\<close>

record EnvVar =
  Name :: string
  Value :: string

record VolumeMount =
  Name :: string
  MountPath :: string

record ContainerPort =
  Name :: string
  ContainerPort :: int

record Container =
  Name :: string
  Image :: string
  Command :: "string list"
  Env :: "EnvVar list"
  Ports :: "ContainerPort list"
  VolumeMounts :: "VolumeMount list"
  ImagePullPolicy :: string

record PodSpec =
  InitContainers :: "Container list"
  Containers :: "Container list"
  ServiceAccountName :: string

record OwnerReference =
  ownerKind :: string
  ownerName :: string
  ownerController :: bool

text \<open>
  \<^verbatim>\<open>metav1.ObjectMeta\<close> is declared after the records above, so that an unqualified
  \<^verbatim>\<open>Name\<close> is the name of an object; the others are written \<^verbatim>\<open>Container.Name\<close>,
  \<^verbatim>\<open>EnvVar.Name\<close>, ...
\<close>

record ObjectMeta =
  Name :: string
  Namespace :: string
  Labels :: "(string \<times> string) list"
  Annotations :: "(string \<times> string) list"
  OwnerReferences :: "OwnerReference list"

record PolicyRule =
  Verbs :: "string list"
  APIGroups :: "string list"
  Resources :: "string list"

text \<open>\<^verbatim>\<open>v1.Role\<close> and \<^verbatim>\<open>v1.ClusterRole\<close> (package \<^verbatim>\<open>k8s.io/api/rbac/v1\<close>).\<close>

record Role = ObjectMeta +
  Rules :: "PolicyRule list"

record ClusterRole = ObjectMeta +
  Rules :: "PolicyRule list"

text \<open>
  \<^verbatim>\<open>appsv1.Deployment\<close>, with \<^verbatim>\<open>Spec.Template.Spec\<close> as its only content. Volumes, probes
  and resource requirements are left out.
\<close>

record Deployment = ObjectMeta +
  Spec :: PodSpec

text \<open>\<^verbatim>\<open>corev1.Namespace\<close>: only its metadata is used.\<close>

type_synonym NamespaceObject = ObjectMeta

text \<open>
  The custom resource \<^verbatim>\<open>argoprojv1a1.ArgoCD\<close>. role.go reads its name and namespace; the
  two fields of its \<^verbatim>\<open>Spec\<close> kept here are \<^verbatim>\<open>Spec.Server.Insecure\<close> and
  \<^verbatim>\<open>Spec.Repo.PluginContainers\<close>.
\<close>

record ArgoCD = ObjectMeta +
  Server_Insecure :: bool
  Repo_PluginContainers :: "Container list"

subsection \<open>Errors\<close>

text \<open>
  A Go \<^verbatim>\<open>error\<close> is either an API status error, which carries a reason, or a plain
  error made of a message (\<^verbatim>\<open>fmt.Errorf\<close>, \<^verbatim>\<open>errors.New\<close>).
\<close>

datatype StatusReason =
  StatusReasonNotFound | StatusReasonAlreadyExists | StatusReasonConflict
  | StatusReasonForbidden | StatusReasonInternalError

datatype error = StatusError StatusReason string | ErrorString string

fun Error :: "error \<Rightarrow> string" where
  "Error (StatusError _ msg) = msg"
| "Error (ErrorString msg) = msg"

fun IsNotFound :: "error \<Rightarrow> bool" where
  "IsNotFound (StatusError StatusReasonNotFound _) = True"
| "IsNotFound _ = False"

section \<open>The API client and the world it talks to\<close>

datatype call =
  ListNamespaces "(string \<times> string) list"
  | GetRole string string
  | CreateRole Role
  | UpdateRole Role
  | DeleteRole Role
  | GetClusterRole string
  | CreateClusterRole ClusterRole
  | UpdateClusterRole ClusterRole
  | DeleteClusterRole ClusterRole
  | GetDeployment string string
  | CreateDeployment Deployment
  | UpdateDeployment Deployment
  | DeleteDeployment Deployment

text \<open>
  The trace records, in order, every client call issued and every invocation of the
  reconciler hook (with the object handed to it).
\<close>

datatype event =
  Call call | HookRole Role | HookClusterRole ClusterRole | HookDeployment Deployment

record World =
  namespaces :: "NamespaceObject list"
  roles :: "string \<times> string \<Rightarrow> Role option"
  clusterRoles :: "string \<Rightarrow> ClusterRole option"
  deployments :: "string \<times> string \<Rightarrow> Deployment option"
  trace :: "event list"

text \<open>
  What role.go takes from outside itself: functions and constants of this package and of
  \<^verbatim>\<open>pkg/common\<close> that are declared in other files, the process environment
  (\<^verbatim>\<open>os.Getenv\<close>, the empty string for a variable that is not set), the controller-runtime
  utility \<^verbatim>\<open>controllerutil.SetControllerReference\<close>, and the failures of the API server.
  \<^verbatim>\<open>fault\<close> decides, from the events so far and the call being made, whether the server
  answers that call with an error; a call that fails leaves the stored objects as they
  are.

  A hook is a registered Go function: it receives a pointer and may mutate the object as
  well as fail, so it returns both, and what it does may depend on what happened before.
  \<^verbatim>\<open>SetControllerReference\<close> computes the owner references of the object from the owner
  and the object's metadata; it returns an error too, which role.go discards.
\<close>

record Environment =
  ArgoCDManagedByLabel :: string
  labelsForCluster :: "ArgoCD \<Rightarrow> (string \<times> string) list"
  annotationsForCluster :: "ArgoCD \<Rightarrow> (string \<times> string) list"
  hookRole :: "event list \<Rightarrow> ArgoCD \<Rightarrow> Role \<Rightarrow> Role \<times> error option"
  hookClusterRole :: "event list \<Rightarrow> ArgoCD \<Rightarrow> ClusterRole \<Rightarrow> ClusterRole \<times> error option"
  hookDeployment :: "event list \<Rightarrow> ArgoCD \<Rightarrow> Deployment \<Rightarrow> Deployment \<times> error option"
  Getenv :: "string \<Rightarrow> string"
  allowedNamespace :: "string \<Rightarrow> string \<Rightarrow> bool"
  SetControllerReference :: "ArgoCD \<Rightarrow> ObjectMeta \<Rightarrow> OwnerReference list \<times> error option"
  policyRuleForApplicationController :: "PolicyRule list"
  policyRuleForDexServer :: "PolicyRule list"
  policyRuleForServer :: "PolicyRule list"
  policyRuleForRedisHa :: "ArgoCD \<Rightarrow> PolicyRule list"
  policyRuleForServerClusterRole :: "PolicyRule list"
  fault :: "event list \<Rightarrow> call \<Rightarrow> error option"

definition record_event :: "event \<Rightarrow> World \<Rightarrow> World" where
  "record_event e w = w\<lparr>trace := trace w @ [e]\<rparr>"

definition matchesLabels :: "(string \<times> string) list \<Rightarrow> NamespaceObject \<Rightarrow> bool" where
  "matchesLabels sel ns = list_all (\<lambda>(k, v). map_of (Labels ns) k = Some v) sel"

text \<open>\<^verbatim>\<open>r.client.List(ctx, &namespaces, listOption)\<close>\<close>

definition client_List ::
  "Environment \<Rightarrow> (string \<times> string) list \<Rightarrow> World \<Rightarrow> (NamespaceObject list \<times> error option) \<times> World" where
  "client_List env sel w =
     (let w' = record_event (Call (ListNamespaces sel)) w in
      case fault env (trace w) (ListNamespaces sel) of
        Some e \<Rightarrow> (([], Some e), w')
      | None \<Rightarrow> ((filter (matchesLabels sel) (namespaces w), None), w'))"

text \<open>\<^verbatim>\<open>r.client.Get(ctx, types.NamespacedName{Name, Namespace}, &existingRole)\<close>\<close>

definition client_Get_Role ::
  "Environment \<Rightarrow> string \<times> string \<Rightarrow> World \<Rightarrow> (error + Role) \<times> World" where
  "client_Get_Role env key w =
     (let c = GetRole (fst key) (snd key); w' = record_event (Call c) w in
      case fault env (trace w) c of
        Some e \<Rightarrow> (Inl e, w')
      | None \<Rightarrow>
          (case roles w key of
             None \<Rightarrow> (Inl (StatusError StatusReasonNotFound (''roles '' @ snd key @ '' not found'')), w')
           | Some r \<Rightarrow> (Inr r, w')))"

definition client_Create_Role :: "Environment \<Rightarrow> Role \<Rightarrow> World \<Rightarrow> error option \<times> World" where
  "client_Create_Role env r w =
     (let c = CreateRole r; w' = record_event (Call c) w; key = (Namespace r, Name r) in
      case fault env (trace w) c of
        Some e \<Rightarrow> (Some e, w')
      | None \<Rightarrow>
          (case roles w key of
             Some _ \<Rightarrow> (Some (StatusError StatusReasonAlreadyExists (''roles '' @ Name r @ '' already exists'')), w')
           | None \<Rightarrow> (None, w'\<lparr>roles := (roles w)(key \<mapsto> r)\<rparr>)))"

definition client_Update_Role :: "Environment \<Rightarrow> Role \<Rightarrow> World \<Rightarrow> error option \<times> World" where
  "client_Update_Role env r w =
     (let c = UpdateRole r; w' = record_event (Call c) w; key = (Namespace r, Name r) in
      case fault env (trace w) c of
        Some e \<Rightarrow> (Some e, w')
      | None \<Rightarrow>
          (case roles w key of
             None \<Rightarrow> (Some (StatusError StatusReasonNotFound (''roles '' @ Name r @ '' not found'')), w')
           | Some _ \<Rightarrow> (None, w'\<lparr>roles := (roles w)(key \<mapsto> r)\<rparr>)))"

definition client_Delete_Role :: "Environment \<Rightarrow> Role \<Rightarrow> World \<Rightarrow> error option \<times> World" where
  "client_Delete_Role env r w =
     (let c = DeleteRole r; w' = record_event (Call c) w; key = (Namespace r, Name r) in
      case fault env (trace w) c of
        Some e \<Rightarrow> (Some e, w')
      | None \<Rightarrow>
          (case roles w key of
             None \<Rightarrow> (Some (StatusError StatusReasonNotFound (''roles '' @ Name r @ '' not found'')), w')
           | Some _ \<Rightarrow> (None, w'\<lparr>roles := (roles w)(key := None)\<rparr>)))"

text \<open>The same four calls on the cluster-scoped store, keyed by name alone.\<close>

definition client_Get_ClusterRole ::
  "Environment \<Rightarrow> string \<Rightarrow> World \<Rightarrow> (error + ClusterRole) \<times> World" where
  "client_Get_ClusterRole env key w =
     (let c = GetClusterRole key; w' = record_event (Call c) w in
      case fault env (trace w) c of
        Some e \<Rightarrow> (Inl e, w')
      | None \<Rightarrow>
          (case clusterRoles w key of
             None \<Rightarrow> (Inl (StatusError StatusReasonNotFound (''clusterroles '' @ key @ '' not found'')), w')
           | Some r \<Rightarrow> (Inr r, w')))"

definition client_Create_ClusterRole :: "Environment \<Rightarrow> ClusterRole \<Rightarrow> World \<Rightarrow> error option \<times> World" where
  "client_Create_ClusterRole env r w =
     (let c = CreateClusterRole r; w' = record_event (Call c) w in
      case fault env (trace w) c of
        Some e \<Rightarrow> (Some e, w')
      | None \<Rightarrow>
          (case clusterRoles w (Name r) of
             Some _ \<Rightarrow> (Some (StatusError StatusReasonAlreadyExists (''clusterroles '' @ Name r @ '' already exists'')), w')
           | None \<Rightarrow> (None, w'\<lparr>clusterRoles := (clusterRoles w)(Name r \<mapsto> r)\<rparr>)))"

definition client_Update_ClusterRole :: "Environment \<Rightarrow> ClusterRole \<Rightarrow> World \<Rightarrow> error option \<times> World" where
  "client_Update_ClusterRole env r w =
     (let c = UpdateClusterRole r; w' = record_event (Call c) w in
      case fault env (trace w) c of
        Some e \<Rightarrow> (Some e, w')
      | None \<Rightarrow>
          (case clusterRoles w (Name r) of
             None \<Rightarrow> (Some (StatusError StatusReasonNotFound (''clusterroles '' @ Name r @ '' not found'')), w')
           | Some _ \<Rightarrow> (None, w'\<lparr>clusterRoles := (clusterRoles w)(Name r \<mapsto> r)\<rparr>)))"

definition client_Delete_ClusterRole :: "Environment \<Rightarrow> ClusterRole \<Rightarrow> World \<Rightarrow> error option \<times> World" where
  "client_Delete_ClusterRole env r w =
     (let c = DeleteClusterRole r; w' = record_event (Call c) w in
      case fault env (trace w) c of
        Some e \<Rightarrow> (Some e, w')
      | None \<Rightarrow>
          (case clusterRoles w (Name r) of
             None \<Rightarrow> (Some (StatusError StatusReasonNotFound (''clusterroles '' @ Name r @ '' not found'')), w')
           | Some _ \<Rightarrow> (None, w'\<lparr>clusterRoles := (clusterRoles w)(Name r := None)\<rparr>)))"

section \<open>pkg/controller/argocd/role.go\<close>

definition applicationController :: string where
  "applicationController = ''argocd-application-controller''"

definition server :: string where
  "server = ''argocd-server''"

definition redisHa :: string where
  "redisHa = ''argocd-redis-ha''"

definition dexServer :: string where
  "dexServer = ''argocd-dex-server''"

definition generateResourceName :: "string \<Rightarrow> ArgoCD \<Rightarrow> string" where
  "generateResourceName argoComponentName cr = Name cr @ ''-'' @ argoComponentName"

definition GenerateUniqueResourceName :: "string \<Rightarrow> ArgoCD \<Rightarrow> string" where
  "GenerateUniqueResourceName argoComponentName cr =
     Name cr @ ''-'' @ Namespace cr @ ''-'' @ argoComponentName"

definition newRole :: "Environment \<Rightarrow> string \<Rightarrow> PolicyRule list \<Rightarrow> ArgoCD \<Rightarrow> Role" where
  "newRole env name rules cr =
     \<lparr>Name = generateResourceName name cr,
      Namespace = Namespace cr,
      Labels = labelsForCluster env cr,
      Annotations = [],
      OwnerReferences = [],
      Role.Rules = rules\<rparr>"

definition newClusterRole :: "Environment \<Rightarrow> string \<Rightarrow> PolicyRule list \<Rightarrow> ArgoCD \<Rightarrow> ClusterRole" where
  "newClusterRole env name rules cr =
     \<lparr>Name = GenerateUniqueResourceName name cr,
      Namespace = [],
      Labels = labelsForCluster env cr,
      Annotations = annotationsForCluster env cr,
      OwnerReferences = [],
      ClusterRole.Rules = rules\<rparr>"

text \<open>
  \<^verbatim>\<open>controllerutil.SetControllerReference(cr, obj, r.scheme)\<close> as role.go calls it: the
  owner references of the object are what the utility leaves there, and the returned
  error is dropped.
\<close>

definition setControllerReference ::
  "Environment \<Rightarrow> ArgoCD \<Rightarrow> 'a ObjectMeta_scheme \<Rightarrow> 'a ObjectMeta_scheme" where
  "setControllerReference env cr obj =
     obj\<lparr>OwnerReferences := fst (SetControllerReference env cr (ObjectMeta.truncate obj))\<rparr>"

text \<open>
  Modelled from the spec: \<^verbatim>\<open>isDexDisabled()\<close> is declared in another file of the
  package. The Dex feature is globally disabled by the environment flag
  \<^verbatim>\<open>DISABLE_DEX=true\<close>.
\<close>

definition isDexDisabled :: "Environment \<Rightarrow> bool" where
  "isDexDisabled env = (Getenv env ''DISABLE_DEX'' = ''true'')"

definition lookupError :: "string \<Rightarrow> string \<Rightarrow> error \<Rightarrow> error" where
  "lookupError what name err =
     ErrorString (''failed to reconcile the '' @ what @ '' for the service account associated with ''
                  @ name @ '' : '' @ Error err)"

text \<open>
  The body of the loop of \<^verbatim>\<open>reconcileRole\<close>, for one namespace. \<^verbatim>\<open>Inl e\<close> is
  \<^verbatim>\<open>return nil, e\<close>; \<^verbatim>\<open>Inr roles\<close> goes on to the next namespace with the slice as it
  then is. The slice holds pointers: the entry appended before \<^verbatim>\<open>SetControllerReference\<close>
  is the object that call then changes.
\<close>

definition reconcileRole_body ::
  "Environment \<Rightarrow> string \<Rightarrow> PolicyRule list \<Rightarrow> ArgoCD \<Rightarrow> NamespaceObject \<Rightarrow> Role list \<Rightarrow> World
     \<Rightarrow> (error + Role list) \<times> World" where
  "reconcileRole_body env name policyRules cr namespace rs w =
     (let role0 = newRole env name policyRules cr;
          (role1, herr) = hookRole env (trace w) cr role0;
          w1 = record_event (HookRole role0) w
      in case herr of
           Some e \<Rightarrow> (Inl e, w1)
         | None \<Rightarrow>
            (let role = role1\<lparr>Namespace := Name namespace\<rparr>;
                 (got, w2) = client_Get_Role env (Namespace role, Name role) w1
             in case got of
                  Inl err \<Rightarrow>
                    if \<not> IsNotFound err then (Inl (lookupError ''role'' name err), w2)
                    else if name = dexServer \<and> isDexDisabled env then (Inr (rs @ [role]), w2)
                    else
                      (let role' = setControllerReference env cr role;
                           (cerr, w3) = client_Create_Role env role' w2
                       in case cerr of
                            Some e \<Rightarrow> (Inl e, w3)
                          | None \<Rightarrow> (Inr (rs @ [role']), w3))
                | Inr existingRole \<Rightarrow>
                    if name = dexServer \<and> isDexDisabled env then
                      (let (derr, w3) = client_Delete_Role env existingRole w2
                       in case derr of
                            Some e \<Rightarrow> (Inl e, w3)
                          | None \<Rightarrow> (Inr rs, w3))
                    else
                      (let existingRole' = existingRole\<lparr>Role.Rules := Role.Rules role\<rparr>;
                           (uerr, w3) = client_Update_Role env existingRole' w2
                       in case uerr of
                            Some e \<Rightarrow> (Inl e, w3)
                          | None \<Rightarrow> (Inr (rs @ [existingRole']), w3))))"

fun reconcileRole_loop ::
  "Environment \<Rightarrow> string \<Rightarrow> PolicyRule list \<Rightarrow> ArgoCD \<Rightarrow> NamespaceObject list \<Rightarrow> Role list \<Rightarrow> World
     \<Rightarrow> (Role list \<times> error option) \<times> World" where
  "reconcileRole_loop env name policyRules cr [] rs w = ((rs, None), w)"
| "reconcileRole_loop env name policyRules cr (namespace # rest) rs w =
     (case reconcileRole_body env name policyRules cr namespace rs w of
        (Inl e, w') \<Rightarrow> (([], Some e), w')
      | (Inr rs', w') \<Rightarrow> reconcileRole_loop env name policyRules cr rest rs' w')"

text \<open>A nil slice is the empty list.\<close>

definition reconcileRole ::
  "Environment \<Rightarrow> string \<Rightarrow> PolicyRule list \<Rightarrow> ArgoCD \<Rightarrow> World \<Rightarrow> (Role list \<times> error option) \<times> World" where
  "reconcileRole env name policyRules cr w =
     (case client_List env [(ArgoCDManagedByLabel env, Namespace cr)] w of
        ((items, Some e), w') \<Rightarrow> (([], Some e), w')
      | ((items, None), w') \<Rightarrow> reconcileRole_loop env name policyRules cr items [] w')"

definition reconcileClusterRole ::
  "Environment \<Rightarrow> string \<Rightarrow> PolicyRule list \<Rightarrow> ArgoCD \<Rightarrow> World
     \<Rightarrow> (ClusterRole option \<times> error option) \<times> World" where
  "reconcileClusterRole env name policyRules cr w =
     (let allowed = allowedNamespace env (Namespace cr) (Getenv env ''ARGOCD_CLUSTER_CONFIG_NAMESPACES'');
          clusterRole0 = newClusterRole env name policyRules cr;
          (clusterRole, herr) = hookClusterRole env (trace w) cr clusterRole0;
          w1 = record_event (HookClusterRole clusterRole0) w
      in case herr of
           Some e \<Rightarrow> ((None, Some e), w1)
         | None \<Rightarrow>
            (let (got, w2) = client_Get_ClusterRole env (Name clusterRole) w1
             in case got of
                  Inl err \<Rightarrow>
                    if \<not> IsNotFound err then ((None, Some (lookupError ''cluster role'' name err)), w2)
                    else if \<not> allowed then ((None, None), w2)
                    else
                      (let clusterRole' = setControllerReference env cr clusterRole;
                           (cerr, w3) = client_Create_ClusterRole env clusterRole' w2
                       in ((Some clusterRole', cerr), w3))
                | Inr existingClusterRole \<Rightarrow>
                    if \<not> allowed then
                      (let (derr, w3) = client_Delete_ClusterRole env existingClusterRole w2
                       in ((None, derr), w3))
                    else
                      (let existingClusterRole' =
                             existingClusterRole\<lparr>ClusterRole.Rules := ClusterRole.Rules clusterRole\<rparr>;
                           (uerr, w3) = client_Update_ClusterRole env existingClusterRole' w2
                       in ((Some existingClusterRole', uerr), w3))))"

text \<open>
  \<^verbatim>\<open>reconcileRoles\<close> has the named results \<^verbatim>\<open>(role *v1.Role, err error)\<close>; \<^verbatim>\<open>role\<close> is never
  assigned, so \<^verbatim>\<open>return role, err\<close> returns nil for it.
\<close>

definition reconcileRoles ::
  "Environment \<Rightarrow> ArgoCD \<Rightarrow> World \<Rightarrow> (Role option \<times> error option) \<times> World" where
  "reconcileRoles env cr w =
     (let role = None in
      case reconcileRole env applicationController (policyRuleForApplicationController env) cr w of
        ((_, Some err), w1) \<Rightarrow> ((role, Some err), w1)
      | ((_, None), w1) \<Rightarrow>
     (case reconcileRole env dexServer (policyRuleForDexServer env) cr w1 of
        ((_, Some err), w2) \<Rightarrow> ((role, Some err), w2)
      | ((_, None), w2) \<Rightarrow>
     (case reconcileRole env server (policyRuleForServer env) cr w2 of
        ((_, Some err), w3) \<Rightarrow> ((role, Some err), w3)
      | ((_, None), w3) \<Rightarrow>
     (case reconcileRole env redisHa (policyRuleForRedisHa env cr) cr w3 of
        ((_, Some err), w4) \<Rightarrow> ((role, Some err), w4)
      | ((_, None), w4) \<Rightarrow>
     (case reconcileClusterRole env applicationController (policyRuleForApplicationController env) cr w4 of
        ((_, Some err), w5) \<Rightarrow> ((None, Some err), w5)
      | ((_, None), w5) \<Rightarrow>
     (case reconcileClusterRole env server (policyRuleForServerClusterRole env) cr w5 of
        ((_, Some err), w6) \<Rightarrow> ((None, Some err), w6)
      | ((_, None), w6) \<Rightarrow> ((None, None), w6)))))))"


section \<open>Reconciling the Deployments\<close>

text \<open>
  The file of the package that builds and reconciles the Deployments is not among the
  sources; its tests are. The definitions of this section follow the specification, and
  take from the tests the values they expect. What neither gives (image names, service
  addresses, the default pod of the repo-server) is a parameter.
\<close>

record Builders =
  getArgoContainerImage :: "ArgoCD \<Rightarrow> string"
  getDexContainerImage :: "ArgoCD \<Rightarrow> string"
  dexServerAddress :: "ArgoCD \<Rightarrow> string"
  repoServerAddress :: "ArgoCD \<Rightarrow> string"
  redisServerAddress :: "ArgoCD \<Rightarrow> string"
  repoServerDefaultPodSpec :: "ArgoCD \<Rightarrow> PodSpec"

text \<open>The client calls on the store of Deployments, keyed by namespace and name.\<close>

definition client_Get_Deployment ::
  "Environment \<Rightarrow> string \<times> string \<Rightarrow> World \<Rightarrow> (error + Deployment) \<times> World" where
  "client_Get_Deployment env key w =
     (let c = GetDeployment (fst key) (snd key); w' = record_event (Call c) w in
      case fault env (trace w) c of
        Some e \<Rightarrow> (Inl e, w')
      | None \<Rightarrow>
          (case deployments w key of
             None \<Rightarrow> (Inl (StatusError StatusReasonNotFound (''deployments '' @ snd key @ '' not found'')), w')
           | Some d \<Rightarrow> (Inr d, w')))"

definition client_Create_Deployment :: "Environment \<Rightarrow> Deployment \<Rightarrow> World \<Rightarrow> error option \<times> World" where
  "client_Create_Deployment env d w =
     (let c = CreateDeployment d; w' = record_event (Call c) w; key = (Namespace d, Name d) in
      case fault env (trace w) c of
        Some e \<Rightarrow> (Some e, w')
      | None \<Rightarrow>
          (case deployments w key of
             Some _ \<Rightarrow> (Some (StatusError StatusReasonAlreadyExists (''deployments '' @ Name d @ '' already exists'')), w')
           | None \<Rightarrow> (None, w'\<lparr>deployments := (deployments w)(key \<mapsto> d)\<rparr>)))"

definition client_Update_Deployment :: "Environment \<Rightarrow> Deployment \<Rightarrow> World \<Rightarrow> error option \<times> World" where
  "client_Update_Deployment env d w =
     (let c = UpdateDeployment d; w' = record_event (Call c) w; key = (Namespace d, Name d) in
      case fault env (trace w) c of
        Some e \<Rightarrow> (Some e, w')
      | None \<Rightarrow>
          (case deployments w key of
             None \<Rightarrow> (Some (StatusError StatusReasonNotFound (''deployments '' @ Name d @ '' not found'')), w')
           | Some _ \<Rightarrow> (None, w'\<lparr>deployments := (deployments w)(key \<mapsto> d)\<rparr>)))"

definition client_Delete_Deployment :: "Environment \<Rightarrow> Deployment \<Rightarrow> World \<Rightarrow> error option \<times> World" where
  "client_Delete_Deployment env d w =
     (let c = DeleteDeployment d; w' = record_event (Call c) w; key = (Namespace d, Name d) in
      case fault env (trace w) c of
        Some e \<Rightarrow> (Some e, w')
      | None \<Rightarrow>
          (case deployments w key of
             None \<Rightarrow> (Some (StatusError StatusReasonNotFound (''deployments '' @ Name d @ '' not found'')), w')
           | Some _ \<Rightarrow> (None, w'\<lparr>deployments := (deployments w)(key := None)\<rparr>)))"

subsection \<open>The proxy environment injector\<close>

text \<open>\<^verbatim>\<open>strings.ToLower\<close>, on the ASCII letters.\<close>

definition toLowerChar :: "char \<Rightarrow> char" where
  "toLowerChar c =
     (let n = (of_char c :: nat) in if 65 \<le> n \<and> n \<le> 90 then char_of (n + 32) else c)"

definition ToLower :: "string \<Rightarrow> string" where
  "ToLower s = map toLowerChar s"

definition proxyKeys :: "string list" where
  "proxyKeys = [''HTTP_PROXY'', ''HTTPS_PROXY'', ''no_proxy'']"

text \<open>
  Modelled from the spec: \<^verbatim>\<open>proxyEnvVars\<close> is declared in the missing file. Given the
  existing list and the process values of \<^verbatim>\<open>HTTP_PROXY\<close>, \<^verbatim>\<open>HTTPS_PROXY\<close> and
  \<^verbatim>\<open>no_proxy\<close>, it appends each proxy variable that has a non-empty process value and is
  not already present among the existing entries under any case variant. The loop below
  goes through the three names in that order, appending to the result.
\<close>

fun appendProxyVars :: "Environment \<Rightarrow> EnvVar list \<Rightarrow> string list \<Rightarrow> EnvVar list \<Rightarrow> EnvVar list" where
  "appendProxyVars env vars [] result = result"
| "appendProxyVars env vars (p # ps) result =
     (if Getenv env p \<noteq> [] \<and> \<not> list_ex (\<lambda>v. ToLower (EnvVar.Name v) = ToLower p) vars
      then appendProxyVars env vars ps (result @ [\<lparr>EnvVar.Name = p, Value = Getenv env p\<rparr>])
      else appendProxyVars env vars ps result)"

definition proxyEnvVars :: "Environment \<Rightarrow> EnvVar list \<Rightarrow> EnvVar list" where
  "proxyEnvVars env vars = appendProxyVars env vars proxyKeys vars"

subsection \<open>The desired Deployments\<close>

text \<open>
  Modelled from the spec: the builder of an empty Deployment is declared in the missing
  file. A Deployment is named after the instance and the component, as the tests look it up
  (\<^verbatim>\<open>a.Name + "-dex-server"\<close>), and lives in the namespace of the custom resource.
\<close>

definition newDeploymentWithSuffix :: "Environment \<Rightarrow> string \<Rightarrow> PodSpec \<Rightarrow> ArgoCD \<Rightarrow> Deployment" where
  "newDeploymentWithSuffix env suffix spec cr =
     \<lparr>Name = Name cr @ ''-'' @ suffix,
      Namespace = Namespace cr,
      Labels = labelsForCluster env cr,
      Annotations = [],
      OwnerReferences = [],
      Spec = spec\<rparr>"

text \<open>
  Modelled from the spec: the pod of the Dex Deployment, with the values that
  \<^verbatim>\<open>TestReconcileArgoCD_reconcileDexDeployment\<close> expects; every container and init
  container carries the proxy variables.
\<close>

definition dexPodSpec :: "Environment \<Rightarrow> Builders \<Rightarrow> ArgoCD \<Rightarrow> PodSpec" where
  "dexPodSpec env b cr =
     \<lparr>InitContainers =
        [\<lparr>Container.Name = ''copyutil'',
          Image = getArgoContainerImage b cr,
          Command = [''cp'', ''-n'', ''/usr/local/bin/argocd'', ''/shared/argocd-dex''],
          Env = proxyEnvVars env [],
          Ports = [],
          VolumeMounts = [\<lparr>VolumeMount.Name = ''static-files'', MountPath = ''/shared''\<rparr>],
          ImagePullPolicy = ''Always''\<rparr>],
      Containers =
        [\<lparr>Container.Name = ''dex'',
          Image = getDexContainerImage b cr,
          Command = [''/shared/argocd-dex'', ''rundex''],
          Env = proxyEnvVars env [],
          Ports = [\<lparr>ContainerPort.Name = ''http'', ContainerPort = 5556\<rparr>,
                   \<lparr>ContainerPort.Name = ''grpc'', ContainerPort = 5557\<rparr>],
          VolumeMounts = [\<lparr>VolumeMount.Name = ''static-files'', MountPath = ''/shared''\<rparr>],
          ImagePullPolicy = ''Always''\<rparr>],
      ServiceAccountName = generateResourceName dexServer cr\<rparr>"

text \<open>
  Modelled from the spec: the command of the server container. It includes
  \<^verbatim>\<open>--insecure\<close> when the toggle of the custom resource is set; the order is the one of the
  lists that the tests of the server Deployment expect.
\<close>

definition getArgoServerCommand :: "Builders \<Rightarrow> ArgoCD \<Rightarrow> string list" where
  "getArgoServerCommand b cr =
     [''argocd-server'']
     @ (if Server_Insecure cr then [''--insecure''] else [])
     @ [''--staticassets'', ''/shared/app'',
        ''--dex-server'', dexServerAddress b cr,
        ''--repo-server'', repoServerAddress b cr,
        ''--redis'', redisServerAddress b cr]"

definition serverDefaultVolumeMounts :: "VolumeMount list" where
  "serverDefaultVolumeMounts =
     [\<lparr>VolumeMount.Name = ''ssh-known-hosts'', MountPath = ''/app/config/ssh''\<rparr>,
      \<lparr>VolumeMount.Name = ''tls-certs'', MountPath = ''/app/config/tls''\<rparr>,
      \<lparr>VolumeMount.Name = ''argocd-repo-server-tls'', MountPath = ''/app/config/server/tls''\<rparr>]"

text \<open>
  Modelled from the spec: the pod of the server Deployment, with the values that
  \<^verbatim>\<open>TestReconcileArgoCD_reconcileServerDeployment\<close> expects.
\<close>

definition serverPodSpec :: "Environment \<Rightarrow> Builders \<Rightarrow> ArgoCD \<Rightarrow> PodSpec" where
  "serverPodSpec env b cr =
     \<lparr>InitContainers = [],
      Containers =
        [\<lparr>Container.Name = ''argocd-server'',
          Image = getArgoContainerImage b cr,
          Command = getArgoServerCommand b cr,
          Env = proxyEnvVars env [],
          Ports = [\<lparr>ContainerPort.Name = [], ContainerPort = 8080\<rparr>,
                   \<lparr>ContainerPort.Name = [], ContainerPort = 8083\<rparr>],
          VolumeMounts = serverDefaultVolumeMounts,
          ImagePullPolicy = ''Always''\<rparr>],
      ServiceAccountName = generateResourceName server cr\<rparr>"

text \<open>
  Modelled from the spec: the pod of the repo-server Deployment. The plugin containers of
  the custom resource are appended after the default container(s).
\<close>

definition repoPodSpec :: "Builders \<Rightarrow> ArgoCD \<Rightarrow> PodSpec" where
  "repoPodSpec b cr =
     (repoServerDefaultPodSpec b cr)
       \<lparr>Containers := Containers (repoServerDefaultPodSpec b cr) @ Repo_PluginContainers cr\<rparr>"

subsection \<open>Reconciling one Deployment\<close>

text \<open>
  Modelled from the spec: the reconcilers of the Deployments are declared in the missing
  file. Each builds the desired object, applies the hook, looks the existing object up and
  branches on not-found or found: a missing Deployment is created, with its owner
  reference, unless the feature is disabled; an existing one is deleted when the feature is
  disabled, and otherwise its pod is replaced by the desired one and it is updated. A
  lookup error other than not-found is wrapped; the error of a write is returned as it is.
  Only Dex has a feature flag.
\<close>

definition reconcileDeployment ::
  "Environment \<Rightarrow> ArgoCD \<Rightarrow> string \<Rightarrow> bool \<Rightarrow> Deployment \<Rightarrow> World \<Rightarrow> error option \<times> World" where
  "reconcileDeployment env cr name disabled deploy0 w =
     (let (deploy, herr) = hookDeployment env (trace w) cr deploy0;
          w1 = record_event (HookDeployment deploy0) w
      in case herr of
           Some e \<Rightarrow> (Some e, w1)
         | None \<Rightarrow>
            (let (got, w2) = client_Get_Deployment env (Namespace deploy, Name deploy) w1
             in case got of
                  Inl err \<Rightarrow>
                    if \<not> IsNotFound err then (Some (lookupError ''deployment'' name err), w2)
                    else if disabled then (None, w2)
                    else client_Create_Deployment env (setControllerReference env cr deploy) w2
                | Inr existing \<Rightarrow>
                    if disabled then client_Delete_Deployment env existing w2
                    else client_Update_Deployment env (existing\<lparr>Spec := Spec deploy\<rparr>) w2))"

definition reconcileDexDeployment :: "Environment \<Rightarrow> Builders \<Rightarrow> ArgoCD \<Rightarrow> World \<Rightarrow> error option \<times> World" where
  "reconcileDexDeployment env b cr w =
     reconcileDeployment env cr dexServer (isDexDisabled env)
       (newDeploymentWithSuffix env ''dex-server'' (dexPodSpec env b cr) cr) w"

definition reconcileServerDeployment :: "Environment \<Rightarrow> Builders \<Rightarrow> ArgoCD \<Rightarrow> World \<Rightarrow> error option \<times> World" where
  "reconcileServerDeployment env b cr w =
     reconcileDeployment env cr server False
       (newDeploymentWithSuffix env ''server'' (serverPodSpec env b cr) cr) w"

definition reconcileRepoDeployment :: "Environment \<Rightarrow> Builders \<Rightarrow> ArgoCD \<Rightarrow> World \<Rightarrow> error option \<times> World" where
  "reconcileRepoDeployment env b cr w =
     reconcileDeployment env cr ''argocd-repo-server'' False
       (newDeploymentWithSuffix env ''repo-server'' (repoPodSpec b cr) cr) w"


section \<open>The owner-reference utility of controller-runtime\<close>

text \<open>
  \<^verbatim>\<open>controllerutil.SetControllerReference\<close> belongs to the controller-runtime library, not
  to the repository; the reconcilers take it from the environment. This is a model of the
  library function, for the environments that follow it. It refuses a namespaced owner for
  a cluster-scoped object and an owner in another namespace than the object
  (\<^verbatim>\<open>validateOwner\<close>), refuses an object that another controller owns, and otherwise puts
  the controller reference among the owner references, in the place of one to the same
  owner if there is one. When it returns an error it leaves the object as it was.
\<close>

definition controllerReference :: "ArgoCD \<Rightarrow> OwnerReference" where
  "controllerReference cr = \<lparr>ownerKind = ''ArgoCD'', ownerName = Name cr, ownerController = True\<rparr>"

definition referSameObject :: "OwnerReference \<Rightarrow> OwnerReference \<Rightarrow> bool" where
  "referSameObject a b = (ownerKind a = ownerKind b \<and> ownerName a = ownerName b)"

definition validateOwner :: "ArgoCD \<Rightarrow> ObjectMeta \<Rightarrow> error option" where
  "validateOwner owner object =
     (if Namespace owner \<noteq> [] then
        (if Namespace object = [] then
           Some (ErrorString (''cluster-scoped resource must not have a namespace-scoped owner, owner's namespace ''
                              @ Namespace owner))
         else if Namespace owner \<noteq> Namespace object then
           Some (ErrorString (''cross-namespace owner references are disallowed, owner's namespace ''
                              @ Namespace owner @ '', obj's namespace '' @ Namespace object))
         else None)
      else None)"

fun upsertOwnerRef :: "OwnerReference \<Rightarrow> OwnerReference list \<Rightarrow> OwnerReference list" where
  "upsertOwnerRef ref [] = [ref]"
| "upsertOwnerRef ref (r # rs) = (if referSameObject r ref then ref # rs else r # upsertOwnerRef ref rs)"

definition controllerutil_SetControllerReference ::
  "ArgoCD \<Rightarrow> ObjectMeta \<Rightarrow> OwnerReference list \<times> error option" where
  "controllerutil_SetControllerReference owner object =
     (case validateOwner owner object of
        Some e \<Rightarrow> (OwnerReferences object, Some e)
      | None \<Rightarrow>
          if list_ex (\<lambda>r. ownerController r \<and> \<not> referSameObject r (controllerReference owner))
               (OwnerReferences object)
          then (OwnerReferences object,
                Some (ErrorString (''Object '' @ Name object @ '' is already owned by another controller'')))
          else (upsertOwnerRef (controllerReference owner) (OwnerReferences object), None))"

section \<open>A concrete instance\<close>

text \<open>
  The custom resource and the namespace of the tests (both named \<^verbatim>\<open>argocd\<close>), an
  environment with no hook registered and an API server that never fails, and worlds with
  and without the objects being reconciled. \<^verbatim>\<open>SetControllerReference\<close> is the function
  of the library.
\<close>

definition testArgoCD :: ArgoCD where
  "testArgoCD =
     \<lparr>Name = ''argocd'', Namespace = ''argocd'', Labels = [], Annotations = [],
      OwnerReferences = [], Server_Insecure = False, Repo_PluginContainers = []\<rparr>"

definition testNamespaceObject :: NamespaceObject where
  "testNamespaceObject =
     \<lparr>Name = ''argocd'', Namespace = [], Labels = [(''managed-by'', ''argocd'')],
      Annotations = [], OwnerReferences = []\<rparr>"

definition testRules :: "PolicyRule list" where
  "testRules = [\<lparr>Verbs = [''get'', ''list''], APIGroups = [[]], Resources = [''secrets'']\<rparr>]"

definition staleRules :: "PolicyRule list" where
  "staleRules = [\<lparr>Verbs = [''*''], APIGroups = [''*''], Resources = [''*'']\<rparr>]"

definition testEnvironment :: Environment where
  "testEnvironment =
     \<lparr>ArgoCDManagedByLabel = ''managed-by'',
      labelsForCluster = (\<lambda>cr. [(''part-of'', Name cr)]),
      annotationsForCluster = (\<lambda>cr. [(''name'', Name cr), (''namespace'', Namespace cr)]),
      hookRole = (\<lambda>t cr r. (r, None)),
      hookClusterRole = (\<lambda>t cr r. (r, None)),
      hookDeployment = (\<lambda>t cr d. (d, None)),
      Getenv = (\<lambda>k. if k = ''ARGOCD_CLUSTER_CONFIG_NAMESPACES'' then ''argocd'' else []),
      allowedNamespace = (\<lambda>current namespaces. namespaces = current),
      SetControllerReference = controllerutil_SetControllerReference,
      policyRuleForApplicationController = testRules,
      policyRuleForDexServer = testRules,
      policyRuleForServer = testRules,
      policyRuleForRedisHa = (\<lambda>cr. testRules),
      policyRuleForServerClusterRole = testRules,
      fault = (\<lambda>t c. None)\<rparr>"

text \<open>The same environment with \<^verbatim>\<open>DISABLE_DEX=true\<close>, and with no namespace allowed.\<close>

definition dexDisabledEnvironment :: Environment where
  "dexDisabledEnvironment =
     testEnvironment\<lparr>Getenv := (\<lambda>k. if k = ''DISABLE_DEX'' then ''true'' else Getenv testEnvironment k)\<rparr>"

definition notAllowedEnvironment :: Environment where
  "notAllowedEnvironment = testEnvironment\<lparr>Getenv := (\<lambda>k. [])\<rparr>"

text \<open>An API server that answers every call with an internal error, and a hook that fails.\<close>

definition testError :: error where
  "testError = StatusError StatusReasonInternalError ''etcdserver: request timed out''"

definition failingEnvironment :: Environment where
  "failingEnvironment = testEnvironment\<lparr>fault := (\<lambda>t c. Some testError)\<rparr>"

definition failingWritesEnvironment :: Environment where
  "failingWritesEnvironment =
     testEnvironment\<lparr>fault := (\<lambda>t c. case c of
        ListNamespaces _ \<Rightarrow> None | GetRole _ _ \<Rightarrow> None | GetClusterRole _ \<Rightarrow> None
      | GetDeployment _ _ \<Rightarrow> None | _ \<Rightarrow> Some testError)\<rparr>"

definition hookErrorEnvironment :: Environment where
  "hookErrorEnvironment =
     testEnvironment\<lparr>hookRole := (\<lambda>t cr r. (r, Some (ErrorString ''this is a test error''))),
                     hookClusterRole := (\<lambda>t cr r. (r, Some (ErrorString ''this is a test error'')))\<rparr>"

definition emptyWorld :: World where
  "emptyWorld =
     \<lparr>namespaces = [testNamespaceObject], roles = (\<lambda>k. None), clusterRoles = (\<lambda>k. None),
      deployments = (\<lambda>k. None), trace = []\<rparr>"

definition staleRole :: "string \<Rightarrow> Role" where
  "staleRole name =
     \<lparr>Name = ''argocd-'' @ name, Namespace = ''argocd'', Labels = [(''kept'', ''yes'')],
      Annotations = [(''note'', ''by hand'')], OwnerReferences = [], Role.Rules = staleRules\<rparr>"

definition staleClusterRole :: "string \<Rightarrow> ClusterRole" where
  "staleClusterRole name =
     \<lparr>Name = ''argocd-argocd-'' @ name, Namespace = [], Labels = [(''kept'', ''yes'')],
      Annotations = [(''note'', ''by hand'')], OwnerReferences = [], ClusterRole.Rules = staleRules\<rparr>"

text \<open>A world where the Role and the ClusterRole of a component exist, with other rules.\<close>

definition staleWorld :: "string \<Rightarrow> World" where
  "staleWorld name =
     emptyWorld\<lparr>roles := (\<lambda>k. if k = (''argocd'', ''argocd-'' @ name) then Some (staleRole name) else None),
                clusterRoles := (\<lambda>k. if k = ''argocd-argocd-'' @ name then Some (staleClusterRole name) else None)\<rparr>"


text \<open>
  A second managed namespace, an API server that refuses to create Roles in it, and a hook
  that fails once three events have taken place (that is, from the second namespace on).
\<close>

definition otherNamespaceObject :: NamespaceObject where
  "otherNamespaceObject =
     \<lparr>Name = ''other'', Namespace = [], Labels = [(''managed-by'', ''argocd'')],
      Annotations = [], OwnerReferences = []\<rparr>"

definition twoNamespaceWorld :: World where
  "twoNamespaceWorld = emptyWorld\<lparr>namespaces := [testNamespaceObject, otherNamespaceObject]\<rparr>"

definition failOtherEnvironment :: Environment where
  "failOtherEnvironment =
     testEnvironment\<lparr>fault := (\<lambda>t c. case c of
        CreateRole r \<Rightarrow> (if Namespace r = ''other'' then Some testError else None)
      | _ \<Rightarrow> None)\<rparr>"

definition hookFailsLaterEnvironment :: Environment where
  "hookFailsLaterEnvironment =
     testEnvironment\<lparr>hookRole := (\<lambda>t cr r.
        if 3 \<le> length t then (r, Some (ErrorString ''this is a test error'')) else (r, None))\<rparr>"

definition dexDisabledFailingWrites :: Environment where
  "dexDisabledFailingWrites =
     failingWritesEnvironment\<lparr>Getenv := (\<lambda>k. if k = ''DISABLE_DEX'' then ''true'' else [])\<rparr>"

text \<open>
  The process environment of \<^verbatim>\<open>Test_proxyEnvVars\<close>, the builders for the custom resource
  of the tests, and the plugin container of the repo-server tests before and after its
  change.
\<close>

definition proxyEnvironment :: Environment where
  "proxyEnvironment =
     testEnvironment\<lparr>Getenv := (\<lambda>k.
        if k = ''HTTP_PROXY'' then ''example.com:8888''
        else if k = ''HTTPS_PROXY'' then ''example.com:8443''
        else if k = ''no_proxy'' then ''.example.com''
        else [])\<rparr>"

definition testBuilders :: Builders where
  "testBuilders =
     \<lparr>getArgoContainerImage = (\<lambda>cr. ''argoproj/argocd''),
      getDexContainerImage = (\<lambda>cr. ''dexidp/dex''),
      dexServerAddress = (\<lambda>cr. ''http://argocd-dex-server.argocd.svc.cluster.local:5556''),
      repoServerAddress = (\<lambda>cr. ''argocd-repo-server.argocd.svc.cluster.local:8081''),
      redisServerAddress = (\<lambda>cr. ''argocd-redis.argocd.svc.cluster.local:6379''),
      repoServerDefaultPodSpec = (\<lambda>cr.
        \<lparr>InitContainers = [],
         Containers =
           [\<lparr>Container.Name = ''argocd-repo-server'', Image = ''argoproj/argocd'',
             Command = [''argocd-repo-server''], Env = [], Ports = [], VolumeMounts = [],
             ImagePullPolicy = ''Always''\<rparr>],
         ServiceAccountName = []\<rparr>)\<rparr>"

definition pluginContainer :: "string \<Rightarrow> string \<Rightarrow> Container" where
  "pluginContainer name img =
     \<lparr>Container.Name = name, Image = img,
      Command = [''/var/run/argocd/argocd-cmp-server''], Env = [], Ports = [],
      VolumeMounts = [\<lparr>VolumeMount.Name = ''var-files'', MountPath = ''/var/run/argocd''\<rparr>],
      ImagePullPolicy = []\<rparr>"

text \<open>The world after the Dex Deployment was reconciled with Dex enabled.\<close>

definition dexWorld :: World where
  "dexWorld = snd (reconcileDexDeployment testEnvironment testBuilders testArgoCD emptyWorld)"

section \<open>Facts about the client\<close>

lemma trace_record_event: "trace (record_event e w) = trace w @ [e]"
  by (simp add: record_event_def)

lemma stores_record_event:
  "roles (record_event e w) = roles w"
  "clusterRoles (record_event e w) = clusterRoles w"
  "deployments (record_event e w) = deployments w"
  "namespaces (record_event e w) = namespaces w"
  by (simp_all add: record_event_def)

lemma client_Get_Role_world:
  "snd (client_Get_Role env key w) = record_event (Call (GetRole (fst key) (snd key))) w"
  by (simp add: client_Get_Role_def Let_def split: option.splits)

lemma client_Create_Role_trace:
  "trace (snd (client_Create_Role env r w)) = trace w @ [Call (CreateRole r)]"
  by (simp add: client_Create_Role_def Let_def trace_record_event split: option.splits)

lemma client_Update_Role_trace:
  "trace (snd (client_Update_Role env r w)) = trace w @ [Call (UpdateRole r)]"
  by (simp add: client_Update_Role_def Let_def trace_record_event split: option.splits)

lemma client_Delete_Role_trace:
  "trace (snd (client_Delete_Role env r w)) = trace w @ [Call (DeleteRole r)]"
  by (simp add: client_Delete_Role_def Let_def trace_record_event split: option.splits)

section \<open>The branches of the loop body\<close>

lemma body_hook_fail:
  "hookRole env (trace w) cr (newRole env name policyRules cr) = (hooked, Some e) \<Longrightarrow>
   reconcileRole_body env name policyRules cr namespace rs w =
     (Inl e, record_event (HookRole (newRole env name policyRules cr)) w)"
  by (simp add: reconcileRole_body_def Let_def)

lemma body_get_error:
  assumes "hookRole env (trace w) cr (newRole env name policyRules cr) = (hooked, None)"
    and "fst (client_Get_Role env (Name namespace, Name hooked)
           (record_event (HookRole (newRole env name policyRules cr)) w)) = Inl err"
    and "\<not> IsNotFound err"
  shows "reconcileRole_body env name policyRules cr namespace rs w =
     (Inl (lookupError ''role'' name err),
      record_event (Call (GetRole (Name namespace) (Name hooked)))
        (record_event (HookRole (newRole env name policyRules cr)) w))"
  using assms
  by (cases "name = dexServer"; cases "isDexDisabled env";
      simp add: reconcileRole_body_def Let_def case_prod_beta client_Get_Role_world)

lemma body_notfound_skip:
  assumes "hookRole env (trace w) cr (newRole env name policyRules cr) = (hooked, None)"
    and "fst (client_Get_Role env (Name namespace, Name hooked)
           (record_event (HookRole (newRole env name policyRules cr)) w)) = Inl err"
    and "IsNotFound err" and "name = dexServer \<and> isDexDisabled env"
  shows "reconcileRole_body env name policyRules cr namespace rs w =
     (Inr (rs @ [hooked\<lparr>Namespace := Name namespace\<rparr>]),
      record_event (Call (GetRole (Name namespace) (Name hooked)))
        (record_event (HookRole (newRole env name policyRules cr)) w))"
  using assms
  by (cases "name = dexServer"; cases "isDexDisabled env";
      simp add: reconcileRole_body_def Let_def case_prod_beta client_Get_Role_world)

lemma body_notfound_create:
  assumes "hookRole env (trace w) cr (newRole env name policyRules cr) = (hooked, None)"
    and "fst (client_Get_Role env (Name namespace, Name hooked)
           (record_event (HookRole (newRole env name policyRules cr)) w)) = Inl err"
    and "IsNotFound err" and "\<not> (name = dexServer \<and> isDexDisabled env)"
  shows "reconcileRole_body env name policyRules cr namespace rs w =
     (case client_Create_Role env (setControllerReference env cr (hooked\<lparr>Namespace := Name namespace\<rparr>))
             (record_event (Call (GetRole (Name namespace) (Name hooked)))
               (record_event (HookRole (newRole env name policyRules cr)) w)) of
        (Some e, w3) \<Rightarrow> (Inl e, w3)
      | (None, w3) \<Rightarrow>
          (Inr (rs @ [setControllerReference env cr (hooked\<lparr>Namespace := Name namespace\<rparr>)]), w3))"
  using assms
  by (cases "name = dexServer"; cases "isDexDisabled env";
      simp add: reconcileRole_body_def Let_def case_prod_beta client_Get_Role_world split: option.splits)

lemma body_found_delete:
  assumes "hookRole env (trace w) cr (newRole env name policyRules cr) = (hooked, None)"
    and "fst (client_Get_Role env (Name namespace, Name hooked)
           (record_event (HookRole (newRole env name policyRules cr)) w)) = Inr existingRole"
    and "name = dexServer \<and> isDexDisabled env"
  shows "reconcileRole_body env name policyRules cr namespace rs w =
     (case client_Delete_Role env existingRole
             (record_event (Call (GetRole (Name namespace) (Name hooked)))
               (record_event (HookRole (newRole env name policyRules cr)) w)) of
        (Some e, w3) \<Rightarrow> (Inl e, w3)
      | (None, w3) \<Rightarrow> (Inr rs, w3))"
  using assms
  by (cases "name = dexServer"; cases "isDexDisabled env";
      simp add: reconcileRole_body_def Let_def case_prod_beta client_Get_Role_world split: option.splits)

lemma body_found_update:
  assumes "hookRole env (trace w) cr (newRole env name policyRules cr) = (hooked, None)"
    and "fst (client_Get_Role env (Name namespace, Name hooked)
           (record_event (HookRole (newRole env name policyRules cr)) w)) = Inr existingRole"
    and "\<not> (name = dexServer \<and> isDexDisabled env)"
  shows "reconcileRole_body env name policyRules cr namespace rs w =
     (case client_Update_Role env (existingRole\<lparr>Role.Rules := Role.Rules hooked\<rparr>)
             (record_event (Call (GetRole (Name namespace) (Name hooked)))
               (record_event (HookRole (newRole env name policyRules cr)) w)) of
        (Some e, w3) \<Rightarrow> (Inl e, w3)
      | (None, w3) \<Rightarrow> (Inr (rs @ [existingRole\<lparr>Role.Rules := Role.Rules hooked\<rparr>]), w3))"
  using assms
  by (cases "name = dexServer"; cases "isDexDisabled env";
      simp add: reconcileRole_body_def Let_def case_prod_beta client_Get_Role_world split: option.splits)

lemma snd_case_write:
  "snd (case p of (Some e, w3) \<Rightarrow> (Inl e, w3) | (None, w3) \<Rightarrow> (Inr x, w3)) = snd p"
  by (simp split: prod.splits option.splits)

lemmas library_defs =
  controllerutil_SetControllerReference_def validateOwner_def controllerReference_def
  referSameObject_def

lemmas fixture_defs =
  proxyEnvironment_def testBuilders_def pluginContainer_def
  otherNamespaceObject_def twoNamespaceWorld_def failOtherEnvironment_def
  hookFailsLaterEnvironment_def dexDisabledFailingWrites_def testError_def
  testEnvironment_def dexDisabledEnvironment_def notAllowedEnvironment_def failingEnvironment_def
  failingWritesEnvironment_def hookErrorEnvironment_def emptyWorld_def staleWorld_def staleRole_def
  staleClusterRole_def testArgoCD_def testNamespaceObject_def

lemmas name_defs =
  applicationController_def server_def redisHa_def dexServer_def generateResourceName_def
  GenerateUniqueResourceName_def isDexDisabled_def

lemma client_Get_ClusterRole_world:
  "snd (client_Get_ClusterRole env key w) = record_event (Call (GetClusterRole key)) w"
  by (simp add: client_Get_ClusterRole_def Let_def split: option.splits)

lemma client_Create_ClusterRole_trace:
  "trace (snd (client_Create_ClusterRole env r w)) = trace w @ [Call (CreateClusterRole r)]"
  by (simp add: client_Create_ClusterRole_def Let_def trace_record_event split: option.splits)

lemma client_Update_ClusterRole_trace:
  "trace (snd (client_Update_ClusterRole env r w)) = trace w @ [Call (UpdateClusterRole r)]"
  by (simp add: client_Update_ClusterRole_def Let_def trace_record_event split: option.splits)

lemma client_Delete_ClusterRole_trace:
  "trace (snd (client_Delete_ClusterRole env r w)) = trace w @ [Call (DeleteClusterRole r)]"
  by (simp add: client_Delete_ClusterRole_def Let_def trace_record_event split: option.splits)

lemma cluster_hook_fail:
  "hookClusterRole env (trace w) cr (newClusterRole env name policyRules cr) = (hooked, Some e) \<Longrightarrow>
   reconcileClusterRole env name policyRules cr w =
     ((None, Some e), record_event (HookClusterRole (newClusterRole env name policyRules cr)) w)"
  by (simp add: reconcileClusterRole_def Let_def)

lemma cluster_get_error:
  assumes "hookClusterRole env (trace w) cr (newClusterRole env name policyRules cr) = (hooked, None)"
    and "fst (client_Get_ClusterRole env (Name hooked)
           (record_event (HookClusterRole (newClusterRole env name policyRules cr)) w)) = Inl err"
    and "\<not> IsNotFound err"
  shows "reconcileClusterRole env name policyRules cr w =
     ((None, Some (lookupError ''cluster role'' name err)),
      record_event (Call (GetClusterRole (Name hooked)))
        (record_event (HookClusterRole (newClusterRole env name policyRules cr)) w))"
  using assms
  by (simp add: reconcileClusterRole_def Let_def case_prod_beta client_Get_ClusterRole_world)

lemma cluster_notfound_noop:
  assumes "hookClusterRole env (trace w) cr (newClusterRole env name policyRules cr) = (hooked, None)"
    and "fst (client_Get_ClusterRole env (Name hooked)
           (record_event (HookClusterRole (newClusterRole env name policyRules cr)) w)) = Inl err"
    and "IsNotFound err"
    and "\<not> allowedNamespace env (Namespace cr) (Getenv env ''ARGOCD_CLUSTER_CONFIG_NAMESPACES'')"
  shows "reconcileClusterRole env name policyRules cr w =
     ((None, None),
      record_event (Call (GetClusterRole (Name hooked)))
        (record_event (HookClusterRole (newClusterRole env name policyRules cr)) w))"
  using assms
  by (simp add: reconcileClusterRole_def Let_def case_prod_beta client_Get_ClusterRole_world)

lemma cluster_notfound_create:
  assumes "hookClusterRole env (trace w) cr (newClusterRole env name policyRules cr) = (hooked, None)"
    and "fst (client_Get_ClusterRole env (Name hooked)
           (record_event (HookClusterRole (newClusterRole env name policyRules cr)) w)) = Inl err"
    and "IsNotFound err"
    and "allowedNamespace env (Namespace cr) (Getenv env ''ARGOCD_CLUSTER_CONFIG_NAMESPACES'')"
  shows "reconcileClusterRole env name policyRules cr w =
     (case client_Create_ClusterRole env (setControllerReference env cr hooked)
             (record_event (Call (GetClusterRole (Name hooked)))
               (record_event (HookClusterRole (newClusterRole env name policyRules cr)) w)) of
        (cerr, w3) \<Rightarrow> ((Some (setControllerReference env cr hooked), cerr), w3))"
  using assms
  by (simp add: reconcileClusterRole_def Let_def case_prod_beta client_Get_ClusterRole_world)

lemma cluster_found_delete:
  assumes "hookClusterRole env (trace w) cr (newClusterRole env name policyRules cr) = (hooked, None)"
    and "fst (client_Get_ClusterRole env (Name hooked)
           (record_event (HookClusterRole (newClusterRole env name policyRules cr)) w)) = Inr existing"
    and "\<not> allowedNamespace env (Namespace cr) (Getenv env ''ARGOCD_CLUSTER_CONFIG_NAMESPACES'')"
  shows "reconcileClusterRole env name policyRules cr w =
     (case client_Delete_ClusterRole env existing
             (record_event (Call (GetClusterRole (Name hooked)))
               (record_event (HookClusterRole (newClusterRole env name policyRules cr)) w)) of
        (derr, w3) \<Rightarrow> ((None, derr), w3))"
  using assms
  by (simp add: reconcileClusterRole_def Let_def case_prod_beta client_Get_ClusterRole_world)

lemma cluster_found_update:
  assumes "hookClusterRole env (trace w) cr (newClusterRole env name policyRules cr) = (hooked, None)"
    and "fst (client_Get_ClusterRole env (Name hooked)
           (record_event (HookClusterRole (newClusterRole env name policyRules cr)) w)) = Inr existing"
    and "allowedNamespace env (Namespace cr) (Getenv env ''ARGOCD_CLUSTER_CONFIG_NAMESPACES'')"
  shows "reconcileClusterRole env name policyRules cr w =
     (case client_Update_ClusterRole env (existing\<lparr>ClusterRole.Rules := ClusterRole.Rules hooked\<rparr>)
             (record_event (Call (GetClusterRole (Name hooked)))
               (record_event (HookClusterRole (newClusterRole env name policyRules cr)) w)) of
        (uerr, w3) \<Rightarrow> ((Some (existing\<lparr>ClusterRole.Rules := ClusterRole.Rules hooked\<rparr>), uerr), w3))"
  using assms
  by (simp add: reconcileClusterRole_def Let_def case_prod_beta client_Get_ClusterRole_world)

section \<open>Failures and the loop\<close>

lemma client_Create_Role_failed:
  "fst (client_Create_Role env r w) = Some e \<Longrightarrow>
   snd (client_Create_Role env r w) = record_event (Call (CreateRole r)) w"
  by (simp add: client_Create_Role_def Let_def split: option.splits)

lemma client_Update_Role_failed:
  "fst (client_Update_Role env r w) = Some e \<Longrightarrow>
   snd (client_Update_Role env r w) = record_event (Call (UpdateRole r)) w"
  by (simp add: client_Update_Role_def Let_def split: option.splits)

lemma client_Delete_Role_failed:
  "fst (client_Delete_Role env r w) = Some e \<Longrightarrow>
   snd (client_Delete_Role env r w) = record_event (Call (DeleteRole r)) w"
  by (simp add: client_Delete_Role_def Let_def split: option.splits)

lemma write_result_Inl:
  "fst (case p of (Some e, w3) \<Rightarrow> (Inl e, w3) | (None, w3) \<Rightarrow> (Inr x, w3)) = Inl e
     \<longleftrightarrow> fst p = Some e"
  by (simp split: prod.splits option.splits)

lemma stores_unchanged_record_event:
  "roles (record_event a (record_event b (record_event c w))) = roles w"
  "clusterRoles (record_event a (record_event b (record_event c w))) = clusterRoles w"
  "deployments (record_event a (record_event b (record_event c w))) = deployments w"
  by (simp_all add: stores_record_event)

lemma body_abort_stores:
  assumes "fst (reconcileRole_body env name policyRules cr namespace rs w) = Inl e"
  shows "roles (snd (reconcileRole_body env name policyRules cr namespace rs w)) = roles w
       \<and> clusterRoles (snd (reconcileRole_body env name policyRules cr namespace rs w)) = clusterRoles w
       \<and> deployments (snd (reconcileRole_body env name policyRules cr namespace rs w)) = deployments w"
proof -
  let ?new = "newRole env name policyRules cr"
  obtain hooked herr where h: "hookRole env (trace w) cr ?new = (hooked, herr)"
    by (cases "hookRole env (trace w) cr ?new") blast
  let ?w1 = "record_event (HookRole ?new) w"
  let ?got = "fst (client_Get_Role env (Name namespace, Name hooked) ?w1)"
  show ?thesis
  proof (cases herr)
    case (Some e')
    with h show ?thesis by (simp add: body_hook_fail stores_record_event)
  next
    case None
    with h have hook: "hookRole env (trace w) cr ?new = (hooked, None)" by simp
    show ?thesis
    proof (cases ?got)
      case (Inl err)
      show ?thesis
      proof (cases "IsNotFound err")
        case False
        show ?thesis
          unfolding body_get_error [OF hook Inl False] by (simp add: stores_record_event)
      next
        case nf: True
        show ?thesis
        proof (cases "name = dexServer \<and> isDexDisabled env")
          case True
          show ?thesis
            unfolding body_notfound_skip [OF hook Inl nf True] by (simp add: stores_record_event)
        next
          case False
          from assms have "fst (client_Create_Role env
                 (setControllerReference env cr (hooked\<lparr>Namespace := Name namespace\<rparr>))
                 (record_event (Call (GetRole (Name namespace) (Name hooked))) ?w1)) = Some e"
            unfolding body_notfound_create [OF hook Inl nf False] by (simp only: write_result_Inl)
          then show ?thesis
            unfolding body_notfound_create [OF hook Inl nf False]
            by (simp add: snd_case_write client_Create_Role_failed stores_record_event)
        qed
      qed
    next
      case (Inr existingRole)
      show ?thesis
      proof (cases "name = dexServer \<and> isDexDisabled env")
        case True
        from assms have "fst (client_Delete_Role env existingRole
                 (record_event (Call (GetRole (Name namespace) (Name hooked))) ?w1)) = Some e"
          unfolding body_found_delete [OF hook Inr True] by (simp only: write_result_Inl)
        then show ?thesis
          unfolding body_found_delete [OF hook Inr True]
          by (simp add: snd_case_write client_Delete_Role_failed stores_record_event)
      next
        case False
        from assms have "fst (client_Update_Role env (existingRole\<lparr>Role.Rules := Role.Rules hooked\<rparr>)
                 (record_event (Call (GetRole (Name namespace) (Name hooked))) ?w1)) = Some e"
          unfolding body_found_update [OF hook Inr False] by (simp only: write_result_Inl)
        then show ?thesis
          unfolding body_found_update [OF hook Inr False]
          by (simp add: snd_case_write client_Update_Role_failed stores_record_event)
      qed
    qed
  qed
qed

lemma reconcileRole_loop_append:
  "reconcileRole_loop env name policyRules cr (xs @ ys) rs w =
     (case reconcileRole_loop env name policyRules cr xs rs w of
        ((rs', None), w') \<Rightarrow> reconcileRole_loop env name policyRules cr ys rs' w'
      | ((rs', Some e), w') \<Rightarrow> ((rs', Some e), w'))"
  by (induction xs arbitrary: rs w) (simp_all split: prod.splits sum.splits)

lemma reconcileRole_loop_abort:
  assumes "reconcileRole_loop env name policyRules cr pre rs0 w0 = ((rs, None), w)"
    and "fst (reconcileRole_body env name policyRules cr namespace rs w) = Inl e"
  shows "reconcileRole_loop env name policyRules cr (pre @ namespace # post) rs0 w0 =
           (([], Some e), snd (reconcileRole_body env name policyRules cr namespace rs w))"
proof -
  obtain w2 where b: "reconcileRole_body env name policyRules cr namespace rs w = (Inl e, w2)"
    using assms(2) by (cases "reconcileRole_body env name policyRules cr namespace rs w") simp
  show ?thesis
    using assms(1) by (simp add: reconcileRole_loop_append b)
qed

lemma reconcileRole_listed:
  "client_List env [(ArgoCDManagedByLabel env, Namespace cr)] w0 = ((items, None), wl) \<Longrightarrow>
   reconcileRole env name policyRules cr w0 = reconcileRole_loop env name policyRules cr items [] wl"
  by (simp add: reconcileRole_def)


lemmas eval_defs =
  reconcileRole_def reconcileRole_body_def reconcileClusterRole_def
  client_List_def client_Get_Role_def client_Create_Role_def client_Update_Role_def
  client_Delete_Role_def client_Get_ClusterRole_def client_Create_ClusterRole_def
  client_Update_ClusterRole_def client_Delete_ClusterRole_def record_event_def matchesLabels_def
  newRole_def newClusterRole_def setControllerReference_def ObjectMeta.truncate_def
  lookupError_def Let_def

text \<open>
  C7. In \<^verbatim>\<open>reconcileRole\<close>, a Get error other than not-found ends the iteration with the
  error wrapped in the message that names the component, whereas the error of a Create, a
  Delete or an Update is returned as it is. When the iteration for a namespace ends with an
  error, after the namespaces listed before it were processed without one,
  \<^verbatim>\<open>reconcileRole\<close> returns a nil slice and that error, in the world that the failing
  iteration leaves, whose stored objects are those that the earlier iterations left: nothing
  they created or updated is rolled back.
\<close>

theorem reconcileRole_failure_semantics:
  fixes env :: Environment and cr :: ArgoCD and namespace :: NamespaceObject and w :: World
    and name :: string and policyRules :: "PolicyRule list" and rs :: "Role list"
  defines "desired \<equiv> newRole env name policyRules cr"
  defines "out \<equiv> reconcileRole_body env name policyRules cr namespace rs w"
  defines "dexOff \<equiv> (name = dexServer \<and> isDexDisabled env)"
  defines "looked \<equiv> (\<lambda>hooked. record_event (Call (GetRole (Name namespace) (Name hooked)))
                                  (record_event (HookRole desired) w))"
  defines "got \<equiv> (\<lambda>hooked. fst (client_Get_Role env (Name namespace, Name hooked)
                                  (record_event (HookRole desired) w)))"
  shows "(\<forall>hooked err. hookRole env (trace w) cr desired = (hooked, None) \<and> got hooked = Inl err
              \<and> \<not> IsNotFound err \<longrightarrow>
            fst out = Inl (ErrorString
              (''failed to reconcile the role for the service account associated with ''
               @ name @ '' : '' @ Error err)))
       \<and> (\<forall>hooked err e. hookRole env (trace w) cr desired = (hooked, None) \<and> got hooked = Inl err
              \<and> IsNotFound err \<and> \<not> dexOff
              \<and> fst (client_Create_Role env
                       (setControllerReference env cr (hooked\<lparr>Namespace := Name namespace\<rparr>))
                       (looked hooked)) = Some e \<longrightarrow>
            fst out = Inl e)
       \<and> (\<forall>hooked existingRole e. hookRole env (trace w) cr desired = (hooked, None)
              \<and> got hooked = Inr existingRole \<and> dexOff
              \<and> fst (client_Delete_Role env existingRole (looked hooked)) = Some e \<longrightarrow>
            fst out = Inl e)
       \<and> (\<forall>hooked existingRole e. hookRole env (trace w) cr desired = (hooked, None)
              \<and> got hooked = Inr existingRole \<and> \<not> dexOff
              \<and> fst (client_Update_Role env (existingRole\<lparr>Role.Rules := Role.Rules hooked\<rparr>)
                       (looked hooked)) = Some e \<longrightarrow>
            fst out = Inl e)
       \<and> (\<forall>e w0 wl pre post.
              client_List env [(ArgoCDManagedByLabel env, Namespace cr)] w0
                = ((pre @ namespace # post, None), wl)
              \<and> reconcileRole_loop env name policyRules cr pre [] wl = ((rs, None), w)
              \<and> fst out = Inl e \<longrightarrow>
            reconcileRole env name policyRules cr w0 = (([], Some e), snd out)
            \<and> roles (snd out) = roles w \<and> clusterRoles (snd out) = clusterRoles w)"
proof -
  have q1: "fst out = Inl (ErrorString
              (''failed to reconcile the role for the service account associated with ''
               @ name @ '' : '' @ Error err))"
    if a: "hookRole env (trace w) cr desired = (hooked, None) \<and> got hooked = Inl err
              \<and> \<not> IsNotFound err" for hooked err
  proof -
    from a have hook: "hookRole env (trace w) cr (newRole env name policyRules cr) = (hooked, None)"
      and g: "fst (client_Get_Role env (Name namespace, Name hooked)
           (record_event (HookRole (newRole env name policyRules cr)) w)) = Inl err"
      and nf: "\<not> IsNotFound err"
      unfolding got_def desired_def by blast+
    show ?thesis
      unfolding out_def body_get_error [OF hook g nf] by (simp add: lookupError_def)
  qed
  have q2: "fst out = Inl e"
    if a: "hookRole env (trace w) cr desired = (hooked, None) \<and> got hooked = Inl err
              \<and> IsNotFound err \<and> \<not> dexOff
              \<and> fst (client_Create_Role env
                       (setControllerReference env cr (hooked\<lparr>Namespace := Name namespace\<rparr>))
                       (looked hooked)) = Some e" for hooked err e
  proof -
    from a have hook: "hookRole env (trace w) cr (newRole env name policyRules cr) = (hooked, None)"
      and g: "fst (client_Get_Role env (Name namespace, Name hooked)
           (record_event (HookRole (newRole env name policyRules cr)) w)) = Inl err"
      and nf: "IsNotFound err" and d: "\<not> (name = dexServer \<and> isDexDisabled env)"
      and c: "fst (client_Create_Role env
                       (setControllerReference env cr (hooked\<lparr>Namespace := Name namespace\<rparr>))
                       (record_event (Call (GetRole (Name namespace) (Name hooked)))
                         (record_event (HookRole (newRole env name policyRules cr)) w))) = Some e"
      unfolding got_def desired_def dexOff_def looked_def by blast+
    show ?thesis
      unfolding out_def body_notfound_create [OF hook g nf d] using c
      by (simp only: write_result_Inl)
  qed
  have q3: "fst out = Inl e"
    if a: "hookRole env (trace w) cr desired = (hooked, None)
              \<and> got hooked = Inr existingRole \<and> dexOff
              \<and> fst (client_Delete_Role env existingRole (looked hooked)) = Some e"
    for hooked existingRole e
  proof -
    from a have hook: "hookRole env (trace w) cr (newRole env name policyRules cr) = (hooked, None)"
      and g: "fst (client_Get_Role env (Name namespace, Name hooked)
           (record_event (HookRole (newRole env name policyRules cr)) w)) = Inr existingRole"
      and d: "name = dexServer \<and> isDexDisabled env"
      and c: "fst (client_Delete_Role env existingRole
                       (record_event (Call (GetRole (Name namespace) (Name hooked)))
                         (record_event (HookRole (newRole env name policyRules cr)) w))) = Some e"
      unfolding got_def desired_def dexOff_def looked_def by blast+
    show ?thesis
      unfolding out_def body_found_delete [OF hook g d] using c
      by (simp only: write_result_Inl)
  qed
  have q4: "fst out = Inl e"
    if a: "hookRole env (trace w) cr desired = (hooked, None)
              \<and> got hooked = Inr existingRole \<and> \<not> dexOff
              \<and> fst (client_Update_Role env (existingRole\<lparr>Role.Rules := Role.Rules hooked\<rparr>)
                       (looked hooked)) = Some e"
    for hooked existingRole e
  proof -
    from a have hook: "hookRole env (trace w) cr (newRole env name policyRules cr) = (hooked, None)"
      and g: "fst (client_Get_Role env (Name namespace, Name hooked)
           (record_event (HookRole (newRole env name policyRules cr)) w)) = Inr existingRole"
      and d: "\<not> (name = dexServer \<and> isDexDisabled env)"
      and c: "fst (client_Update_Role env (existingRole\<lparr>Role.Rules := Role.Rules hooked\<rparr>)
                       (record_event (Call (GetRole (Name namespace) (Name hooked)))
                         (record_event (HookRole (newRole env name policyRules cr)) w))) = Some e"
      unfolding got_def desired_def dexOff_def looked_def by blast+
    show ?thesis
      unfolding out_def body_found_update [OF hook g d] using c
      by (simp only: write_result_Inl)
  qed
  have q5: "reconcileRole env name policyRules cr w0 = (([], Some e), snd out)
            \<and> roles (snd out) = roles w \<and> clusterRoles (snd out) = clusterRoles w"
    if a: "client_List env [(ArgoCDManagedByLabel env, Namespace cr)] w0
                = ((pre @ namespace # post, None), wl)
              \<and> reconcileRole_loop env name policyRules cr pre [] wl = ((rs, None), w)
              \<and> fst out = Inl e" for e w0 wl pre post
  proof -
    from a have l: "client_List env [(ArgoCDManagedByLabel env, Namespace cr)] w0
                = ((pre @ namespace # post, None), wl)"
      and p: "reconcileRole_loop env name policyRules cr pre [] wl = ((rs, None), w)"
      and f: "fst (reconcileRole_body env name policyRules cr namespace rs w) = Inl e"
      unfolding out_def by blast+
    show ?thesis
      unfolding out_def reconcileRole_listed [OF l] reconcileRole_loop_abort [OF p f]
      using body_abort_stores [OF f] by simp
  qed
  from q1 q2 q3 q4 q5 show ?thesis by blast
qed


theorem reconcileRole_failure_semantics_witness:
  "fst (reconcileRole_body failingEnvironment server testRules testArgoCD testNamespaceObject []
          emptyWorld) =
     Inl (ErrorString
       ''failed to reconcile the role for the service account associated with argocd-server : etcdserver: request timed out'')
   \<and> fst (reconcileRole_body failingWritesEnvironment server testRules testArgoCD
          testNamespaceObject [] emptyWorld) = Inl testError
   \<and> fst (reconcileRole_body dexDisabledFailingWrites dexServer testRules testArgoCD
          testNamespaceObject [] (staleWorld dexServer)) = Inl testError
   \<and> fst (reconcileRole_body failingWritesEnvironment server testRules testArgoCD
          testNamespaceObject [] (staleWorld server)) = Inl testError
   \<and> snd (fst (reconcileRole failOtherEnvironment server testRules testArgoCD twoNamespaceWorld))
       = Some testError
   \<and> roles (snd (reconcileRole failOtherEnvironment server testRules testArgoCD twoNamespaceWorld))
       (''argocd'', ''argocd-argocd-server'')
       = Some (setControllerReference failOtherEnvironment testArgoCD
                 (newRole failOtherEnvironment server testRules testArgoCD))"
proof -
  note T = reconcileRole_failure_semantics
  let ?ns = testNamespaceObject
  have c1: "fst (reconcileRole_body failingEnvironment server testRules testArgoCD ?ns [] emptyWorld) =
     Inl (ErrorString
       ''failed to reconcile the role for the service account associated with argocd-server : etcdserver: request timed out'')"
  proof -
    let ?new = "newRole failingEnvironment server testRules testArgoCD"
    have h: "hookRole failingEnvironment (trace emptyWorld) testArgoCD ?new = (?new, None)"
      by (simp add: fixture_defs)
    have g: "fst (client_Get_Role failingEnvironment (Name ?ns, Name ?new)
               (record_event (HookRole ?new) emptyWorld)) = Inl testError"
      by (simp add: eval_defs name_defs fixture_defs)
    have nf: "\<not> IsNotFound testError" by (simp add: testError_def)
    from T [where env = failingEnvironment and name = server and policyRules = testRules
          and cr = testArgoCD and namespace = ?ns and rs = "[]" and w = emptyWorld,
          THEN conjunct1, rule_format, OF conjI [OF h conjI [OF g nf]]]
    show ?thesis by (simp add: server_def testError_def)
  qed
  have c2: "fst (reconcileRole_body failingWritesEnvironment server testRules testArgoCD ?ns []
              emptyWorld) = Inl testError"
  proof -
    let ?new = "newRole failingWritesEnvironment server testRules testArgoCD"
    let ?nf = "StatusError StatusReasonNotFound ''roles argocd-argocd-server not found''"
    have h: "hookRole failingWritesEnvironment (trace emptyWorld) testArgoCD ?new = (?new, None)"
      by (simp add: fixture_defs)
    have g: "fst (client_Get_Role failingWritesEnvironment (Name ?ns, Name ?new)
               (record_event (HookRole ?new) emptyWorld)) = Inl ?nf"
      by (simp add: eval_defs name_defs fixture_defs)
    have nf: "IsNotFound ?nf" by simp
    have d: "\<not> (server = dexServer \<and> isDexDisabled failingWritesEnvironment)"
      by (simp add: name_defs)
    have c: "fst (client_Create_Role failingWritesEnvironment
               (setControllerReference failingWritesEnvironment testArgoCD (?new\<lparr>Namespace := Name ?ns\<rparr>))
               (record_event (Call (GetRole (Name ?ns) (Name ?new)))
                 (record_event (HookRole ?new) emptyWorld))) = Some testError"
      by (simp add: eval_defs name_defs fixture_defs)
    from T [where env = failingWritesEnvironment and name = server and policyRules = testRules
          and cr = testArgoCD and namespace = ?ns and rs = "[]" and w = emptyWorld,
          THEN conjunct2, THEN conjunct1, rule_format,
          OF conjI [OF h conjI [OF g conjI [OF nf conjI [OF d c]]]]]
    show ?thesis .
  qed
  have c3: "fst (reconcileRole_body dexDisabledFailingWrites dexServer testRules testArgoCD ?ns []
              (staleWorld dexServer)) = Inl testError"
  proof -
    let ?new = "newRole dexDisabledFailingWrites dexServer testRules testArgoCD"
    have h: "hookRole dexDisabledFailingWrites (trace (staleWorld dexServer)) testArgoCD ?new = (?new, None)"
      by (simp add: fixture_defs)
    have g: "fst (client_Get_Role dexDisabledFailingWrites (Name ?ns, Name ?new)
               (record_event (HookRole ?new) (staleWorld dexServer))) = Inr (staleRole dexServer)"
      by (simp add: eval_defs name_defs fixture_defs)
    have d: "dexServer = dexServer \<and> isDexDisabled dexDisabledFailingWrites"
      by (simp add: name_defs fixture_defs)
    have c: "fst (client_Delete_Role dexDisabledFailingWrites (staleRole dexServer)
               (record_event (Call (GetRole (Name ?ns) (Name ?new)))
                 (record_event (HookRole ?new) (staleWorld dexServer)))) = Some testError"
      by (simp add: eval_defs name_defs fixture_defs)
    from T [where env = dexDisabledFailingWrites and name = dexServer and policyRules = testRules
          and cr = testArgoCD and namespace = ?ns and rs = "[]" and w = "staleWorld dexServer",
          THEN conjunct2, THEN conjunct2, THEN conjunct1, rule_format,
          OF conjI [OF h conjI [OF g conjI [OF d c]]]]
    show ?thesis .
  qed
  have c4: "fst (reconcileRole_body failingWritesEnvironment server testRules testArgoCD ?ns []
              (staleWorld server)) = Inl testError"
  proof -
    let ?new = "newRole failingWritesEnvironment server testRules testArgoCD"
    have h: "hookRole failingWritesEnvironment (trace (staleWorld server)) testArgoCD ?new = (?new, None)"
      by (simp add: fixture_defs)
    have g: "fst (client_Get_Role failingWritesEnvironment (Name ?ns, Name ?new)
               (record_event (HookRole ?new) (staleWorld server))) = Inr (staleRole server)"
      by (simp add: eval_defs name_defs fixture_defs)
    have d: "\<not> (server = dexServer \<and> isDexDisabled failingWritesEnvironment)"
      by (simp add: name_defs)
    have c: "fst (client_Update_Role failingWritesEnvironment
               ((staleRole server)\<lparr>Role.Rules := Role.Rules ?new\<rparr>)
               (record_event (Call (GetRole (Name ?ns) (Name ?new)))
                 (record_event (HookRole ?new) (staleWorld server)))) = Some testError"
      by (simp add: eval_defs name_defs fixture_defs)
    from T [where env = failingWritesEnvironment and name = server and policyRules = testRules
          and cr = testArgoCD and namespace = ?ns and rs = "[]" and w = "staleWorld server",
          THEN conjunct2, THEN conjunct2, THEN conjunct2, THEN conjunct1, rule_format,
          OF conjI [OF h conjI [OF g conjI [OF d c]]]]
    show ?thesis .
  qed
  have c5: "snd (fst (reconcileRole failOtherEnvironment server testRules testArgoCD twoNamespaceWorld))
       = Some testError
   \<and> roles (snd (reconcileRole failOtherEnvironment server testRules testArgoCD twoNamespaceWorld))
       (''argocd'', ''argocd-argocd-server'')
       = Some (setControllerReference failOtherEnvironment testArgoCD
                 (newRole failOtherEnvironment server testRules testArgoCD))"
  proof -
    let ?env = failOtherEnvironment
    define wl where "wl = snd (client_List ?env [(ArgoCDManagedByLabel ?env, Namespace testArgoCD)]
                                twoNamespaceWorld)"
    define w where "w = snd (reconcileRole_loop ?env server testRules testArgoCD [?ns] [] wl)"
    define rs where "rs = fst (fst (reconcileRole_loop ?env server testRules testArgoCD [?ns] [] wl))"
    have l: "client_List ?env [(ArgoCDManagedByLabel ?env, Namespace testArgoCD)] twoNamespaceWorld
               = (([?ns] @ otherNamespaceObject # [], None), wl)"
      by (simp add: wl_def eval_defs name_defs fixture_defs)
    have "snd (fst (reconcileRole_loop ?env server testRules testArgoCD [?ns] [] wl)) = None"
      by (simp add: wl_def eval_defs name_defs fixture_defs)
    then have p: "reconcileRole_loop ?env server testRules testArgoCD [?ns] [] wl = ((rs, None), w)"
      unfolding rs_def w_def by (metis prod.collapse)
    have f: "fst (reconcileRole_body ?env server testRules testArgoCD otherNamespaceObject rs w)
               = Inl testError"
      by (simp add: rs_def w_def wl_def eval_defs name_defs fixture_defs)
    have r: "roles w (''argocd'', ''argocd-argocd-server'')
               = Some (setControllerReference ?env testArgoCD (newRole ?env server testRules testArgoCD))"
      by (simp add: w_def wl_def eval_defs name_defs fixture_defs)
    from T [where env = ?env and name = server and policyRules = testRules
          and cr = testArgoCD and namespace = otherNamespaceObject and rs = rs and w = w,
          THEN conjunct2, THEN conjunct2, THEN conjunct2, THEN conjunct2, rule_format,
          OF conjI [OF l conjI [OF p f]]] r
    show ?thesis by simp
  qed
  from c1 c2 c3 c4 c5 show ?thesis by blast
qed

section \<open>The hook comes first\<close>

lemma record_event_world: "record_event e w = w\<lparr>trace := trace w @ [e]\<rparr>"
  by (simp add: record_event_def)

lemma body_trace_starts_with_hook:
  "\<exists>rest. trace (snd (reconcileRole_body env name policyRules cr namespace rs w)) =
            trace w @ HookRole (newRole env name policyRules cr) # rest"
proof -
  let ?new = "newRole env name policyRules cr"
  obtain hooked herr where h: "hookRole env (trace w) cr ?new = (hooked, herr)"
    by (cases "hookRole env (trace w) cr ?new") blast
  let ?w1 = "record_event (HookRole ?new) w"
  let ?got = "fst (client_Get_Role env (Name namespace, Name hooked) ?w1)"
  show ?thesis
  proof (cases herr)
    case (Some e')
    with h show ?thesis by (simp add: body_hook_fail trace_record_event)
  next
    case None
    with h have hook: "hookRole env (trace w) cr ?new = (hooked, None)" by simp
    show ?thesis
    proof (cases ?got)
      case (Inl err)
      show ?thesis
      proof (cases "IsNotFound err")
        case False
        show ?thesis
          unfolding body_get_error [OF hook Inl False] by (simp add: trace_record_event)
      next
        case nf: True
        show ?thesis
        proof (cases "name = dexServer \<and> isDexDisabled env")
          case True
          show ?thesis
            unfolding body_notfound_skip [OF hook Inl nf True] by (simp add: trace_record_event)
        next
          case False
          show ?thesis
            unfolding body_notfound_create [OF hook Inl nf False]
            by (simp add: snd_case_write client_Create_Role_trace trace_record_event)
        qed
      qed
    next
      case (Inr existingRole)
      show ?thesis
      proof (cases "name = dexServer \<and> isDexDisabled env")
        case True
        show ?thesis
          unfolding body_found_delete [OF hook Inr True]
          by (simp add: snd_case_write client_Delete_Role_trace trace_record_event)
      next
        case False
        show ?thesis
          unfolding body_found_update [OF hook Inr False]
          by (simp add: snd_case_write client_Update_Role_trace trace_record_event)
      qed
    qed
  qed
qed

lemma cluster_trace_starts_with_hook:
  "\<exists>rest. trace (snd (reconcileClusterRole env name policyRules cr w)) =
            trace w @ HookClusterRole (newClusterRole env name policyRules cr) # rest"
proof -
  let ?new = "newClusterRole env name policyRules cr"
  obtain hooked herr where h: "hookClusterRole env (trace w) cr ?new = (hooked, herr)"
    by (cases "hookClusterRole env (trace w) cr ?new") blast
  let ?w1 = "record_event (HookClusterRole ?new) w"
  let ?got = "fst (client_Get_ClusterRole env (Name hooked) ?w1)"
  let ?allowed = "allowedNamespace env (Namespace cr) (Getenv env ''ARGOCD_CLUSTER_CONFIG_NAMESPACES'')"
  show ?thesis
  proof (cases herr)
    case (Some e')
    with h show ?thesis by (simp add: cluster_hook_fail trace_record_event)
  next
    case None
    with h have hook: "hookClusterRole env (trace w) cr ?new = (hooked, None)" by simp
    show ?thesis
    proof (cases ?got)
      case (Inl err)
      show ?thesis
      proof (cases "IsNotFound err")
        case False
        show ?thesis
          unfolding cluster_get_error [OF hook Inl False] by (simp add: trace_record_event)
      next
        case nf: True
        show ?thesis
        proof (cases ?allowed)
          case False
          show ?thesis
            unfolding cluster_notfound_noop [OF hook Inl nf False] by (simp add: trace_record_event)
        next
          case True
          show ?thesis
            unfolding cluster_notfound_create [OF hook Inl nf True]
            by (simp add: case_prod_beta client_Create_ClusterRole_trace trace_record_event)
        qed
      qed
    next
      case (Inr existing)
      show ?thesis
      proof (cases ?allowed)
        case False
        show ?thesis
          unfolding cluster_found_delete [OF hook Inr False]
          by (simp add: case_prod_beta client_Delete_ClusterRole_trace trace_record_event)
      next
        case True
        show ?thesis
          unfolding cluster_found_update [OF hook Inr True]
          by (simp add: case_prod_beta client_Update_ClusterRole_trace trace_record_event)
      qed
    qed
  qed
qed

text \<open>
  C8. When the hook returns an error, \<^verbatim>\<open>reconcileClusterRole\<close> returns a nil object and that
  error, and an iteration of \<^verbatim>\<open>reconcileRole\<close> ends with that error, the world being the one
  before with the invocation of the hook added to the trace: no client call at all was
  issued. If the namespaces listed before were processed without error, \<^verbatim>\<open>reconcileRole\<close>
  returns a nil slice and the error of the hook in that world, so no further write is issued
  in the pass. In every case the invocation of the hook is the first event of the iteration
  and of \<^verbatim>\<open>reconcileClusterRole\<close>: it precedes any Create, Update or Delete of the object.
\<close>

theorem hook_failure_aborts_before_any_write:
  fixes env :: Environment and cr :: ArgoCD and namespace :: NamespaceObject and w :: World
    and name :: string and policyRules :: "PolicyRule list" and rs :: "Role list"
  defines "desiredRole \<equiv> newRole env name policyRules cr"
  defines "desiredClusterRole \<equiv> newClusterRole env name policyRules cr"
  shows "(\<forall>hooked e. hookClusterRole env (trace w) cr desiredClusterRole = (hooked, Some e) \<longrightarrow>
            reconcileClusterRole env name policyRules cr w =
              ((None, Some e), w\<lparr>trace := trace w @ [HookClusterRole desiredClusterRole]\<rparr>))
       \<and> (\<forall>hooked e. hookRole env (trace w) cr desiredRole = (hooked, Some e) \<longrightarrow>
            reconcileRole_body env name policyRules cr namespace rs w =
              (Inl e, w\<lparr>trace := trace w @ [HookRole desiredRole]\<rparr>))
       \<and> (\<forall>hooked e w0 wl pre post.
              hookRole env (trace w) cr desiredRole = (hooked, Some e)
              \<and> client_List env [(ArgoCDManagedByLabel env, Namespace cr)] w0
                  = ((pre @ namespace # post, None), wl)
              \<and> reconcileRole_loop env name policyRules cr pre [] wl = ((rs, None), w) \<longrightarrow>
            reconcileRole env name policyRules cr w0 =
              (([], Some e), w\<lparr>trace := trace w @ [HookRole desiredRole]\<rparr>))
       \<and> (\<exists>rest. trace (snd (reconcileRole_body env name policyRules cr namespace rs w)) =
                   trace w @ HookRole desiredRole # rest)
       \<and> (\<exists>rest. trace (snd (reconcileClusterRole env name policyRules cr w)) =
                   trace w @ HookClusterRole desiredClusterRole # rest)"
proof -
  have q1: "reconcileClusterRole env name policyRules cr w =
              ((None, Some e), w\<lparr>trace := trace w @ [HookClusterRole desiredClusterRole]\<rparr>)"
    if "hookClusterRole env (trace w) cr desiredClusterRole = (hooked, Some e)" for hooked e
    using that unfolding desiredClusterRole_def
    by (simp add: cluster_hook_fail record_event_world)
  have q2: "reconcileRole_body env name policyRules cr namespace rs w =
              (Inl e, w\<lparr>trace := trace w @ [HookRole desiredRole]\<rparr>)"
    if "hookRole env (trace w) cr desiredRole = (hooked, Some e)" for hooked e
    using that unfolding desiredRole_def
    by (simp add: body_hook_fail record_event_world)
  have q3: "reconcileRole env name policyRules cr w0 =
              (([], Some e), w\<lparr>trace := trace w @ [HookRole desiredRole]\<rparr>)"
    if a: "hookRole env (trace w) cr desiredRole = (hooked, Some e)
              \<and> client_List env [(ArgoCDManagedByLabel env, Namespace cr)] w0
                  = ((pre @ namespace # post, None), wl)
              \<and> reconcileRole_loop env name policyRules cr pre [] wl = ((rs, None), w)"
    for hooked e w0 wl pre post
  proof -
    from a have h: "hookRole env (trace w) cr desiredRole = (hooked, Some e)"
      and l: "client_List env [(ArgoCDManagedByLabel env, Namespace cr)] w0
                  = ((pre @ namespace # post, None), wl)"
      and p: "reconcileRole_loop env name policyRules cr pre [] wl = ((rs, None), w)"
      by blast+
    have f: "fst (reconcileRole_body env name policyRules cr namespace rs w) = Inl e"
      by (simp add: q2 [OF h])
    show ?thesis
      unfolding reconcileRole_listed [OF l] reconcileRole_loop_abort [OF p f]
      by (simp add: q2 [OF h])
  qed
  have q4: "\<exists>rest. trace (snd (reconcileRole_body env name policyRules cr namespace rs w)) =
                   trace w @ HookRole desiredRole # rest"
    unfolding desiredRole_def by (rule body_trace_starts_with_hook)
  have q5: "\<exists>rest. trace (snd (reconcileClusterRole env name policyRules cr w)) =
                   trace w @ HookClusterRole desiredClusterRole # rest"
    unfolding desiredClusterRole_def by (rule cluster_trace_starts_with_hook)
  from q1 q2 q3 q4 q5 show ?thesis by blast
qed


theorem hook_failure_aborts_before_any_write_witness:
  "reconcileClusterRole hookErrorEnvironment server testRules testArgoCD emptyWorld =
     ((None, Some (ErrorString ''this is a test error'')),
      emptyWorld\<lparr>trace := [HookClusterRole (newClusterRole hookErrorEnvironment server testRules testArgoCD)]\<rparr>)
   \<and> reconcileRole_body hookErrorEnvironment server testRules testArgoCD testNamespaceObject []
        emptyWorld =
     (Inl (ErrorString ''this is a test error''),
      emptyWorld\<lparr>trace := [HookRole (newRole hookErrorEnvironment server testRules testArgoCD)]\<rparr>)
   \<and> fst (reconcileRole hookFailsLaterEnvironment server testRules testArgoCD twoNamespaceWorld) =
     ([], Some (ErrorString ''this is a test error''))
   \<and> trace (snd (reconcileRole hookFailsLaterEnvironment server testRules testArgoCD twoNamespaceWorld)) =
     [Call (ListNamespaces [(''managed-by'', ''argocd'')]),
      HookRole (newRole hookFailsLaterEnvironment server testRules testArgoCD),
      Call (GetRole ''argocd'' ''argocd-argocd-server''),
      Call (CreateRole (setControllerReference hookFailsLaterEnvironment testArgoCD
                          (newRole hookFailsLaterEnvironment server testRules testArgoCD))),
      HookRole (newRole hookFailsLaterEnvironment server testRules testArgoCD)]"
proof -
  note T = hook_failure_aborts_before_any_write
  let ?ns = testNamespaceObject
  let ?err = "ErrorString ''this is a test error''"
  have e: "trace emptyWorld = []" by (simp add: fixture_defs)
  have c1: "reconcileClusterRole hookErrorEnvironment server testRules testArgoCD emptyWorld =
     ((None, Some ?err),
      emptyWorld\<lparr>trace := [HookClusterRole (newClusterRole hookErrorEnvironment server testRules testArgoCD)]\<rparr>)"
  proof -
    let ?new = "newClusterRole hookErrorEnvironment server testRules testArgoCD"
    have h: "hookClusterRole hookErrorEnvironment (trace emptyWorld) testArgoCD ?new = (?new, Some ?err)"
      by (simp add: fixture_defs)
    from T [where env = hookErrorEnvironment and name = server and policyRules = testRules
          and cr = testArgoCD and w = emptyWorld, THEN conjunct1, rule_format, OF h]
    show ?thesis by (simp add: e)
  qed
  have c2: "reconcileRole_body hookErrorEnvironment server testRules testArgoCD ?ns [] emptyWorld =
     (Inl ?err, emptyWorld\<lparr>trace := [HookRole (newRole hookErrorEnvironment server testRules testArgoCD)]\<rparr>)"
  proof -
    let ?new = "newRole hookErrorEnvironment server testRules testArgoCD"
    have h: "hookRole hookErrorEnvironment (trace emptyWorld) testArgoCD ?new = (?new, Some ?err)"
      by (simp add: fixture_defs)
    from T [where env = hookErrorEnvironment and name = server and policyRules = testRules
          and cr = testArgoCD and w = emptyWorld and namespace = ?ns and rs = "[]",
          THEN conjunct2, THEN conjunct1, rule_format, OF h]
    show ?thesis by (simp add: e)
  qed
  have c3: "fst (reconcileRole hookFailsLaterEnvironment server testRules testArgoCD twoNamespaceWorld) =
     ([], Some ?err)
   \<and> trace (snd (reconcileRole hookFailsLaterEnvironment server testRules testArgoCD twoNamespaceWorld)) =
     [Call (ListNamespaces [(''managed-by'', ''argocd'')]),
      HookRole (newRole hookFailsLaterEnvironment server testRules testArgoCD),
      Call (GetRole ''argocd'' ''argocd-argocd-server''),
      Call (CreateRole (setControllerReference hookFailsLaterEnvironment testArgoCD
                          (newRole hookFailsLaterEnvironment server testRules testArgoCD))),
      HookRole (newRole hookFailsLaterEnvironment server testRules testArgoCD)]"
  proof -
    let ?env = hookFailsLaterEnvironment
    let ?new = "newRole ?env server testRules testArgoCD"
    define wl where "wl = snd (client_List ?env [(ArgoCDManagedByLabel ?env, Namespace testArgoCD)]
                                twoNamespaceWorld)"
    define w where "w = snd (reconcileRole_loop ?env server testRules testArgoCD [?ns] [] wl)"
    define rs where "rs = fst (fst (reconcileRole_loop ?env server testRules testArgoCD [?ns] [] wl))"
    have l: "client_List ?env [(ArgoCDManagedByLabel ?env, Namespace testArgoCD)] twoNamespaceWorld
               = (([?ns] @ otherNamespaceObject # [], None), wl)"
      by (simp add: wl_def eval_defs name_defs fixture_defs)
    have "snd (fst (reconcileRole_loop ?env server testRules testArgoCD [?ns] [] wl)) = None"
      by (simp add: wl_def eval_defs name_defs fixture_defs)
    then have p: "reconcileRole_loop ?env server testRules testArgoCD [?ns] [] wl = ((rs, None), w)"
      unfolding rs_def w_def by (metis prod.collapse)
    have t: "trace w = [Call (ListNamespaces [(''managed-by'', ''argocd'')]), HookRole ?new,
                        Call (GetRole ''argocd'' ''argocd-argocd-server''),
                        Call (CreateRole (setControllerReference ?env testArgoCD ?new))]"
      by (simp add: w_def wl_def eval_defs name_defs fixture_defs)
    have h: "hookRole ?env (trace w) testArgoCD ?new = (?new, Some ?err)"
      unfolding t by (simp add: fixture_defs)
    from T [where env = ?env and name = server and policyRules = testRules
          and cr = testArgoCD and namespace = otherNamespaceObject and rs = rs and w = w,
          THEN conjunct2, THEN conjunct2, THEN conjunct1, rule_format,
          OF conjI [OF h conjI [OF l p]]] t
    show ?thesis by simp
  qed
  from c1 c2 c3 show ?thesis by blast
qed

text \<open>
  C9. On the update branch of \<^verbatim>\<open>reconcileRole\<close> and of \<^verbatim>\<open>reconcileClusterRole\<close> (object found,
  component not a disabled Dex, respectively namespace allowed), the object given to Update
  has the rules of the desired object of this pass, whatever the rules of the existing
  object were, and the name, namespace, labels, annotations and owner references of the
  existing object as they were fetched. The desired object is the one built from the policy
  rules and handed to the hook; when the hook returns it as it was built, the rules given to
  Update are the policy rules themselves.
\<close>

theorem update_overwrites_rules_only:
  fixes env :: Environment and cr :: ArgoCD and namespace :: NamespaceObject and w :: World
    and name :: string and policyRules :: "PolicyRule list" and rs :: "Role list"
  defines "desiredRole \<equiv> newRole env name policyRules cr"
  defines "desiredClusterRole \<equiv> newClusterRole env name policyRules cr"
  shows "(\<forall>hooked existingRole.
            hookRole env (trace w) cr desiredRole = (hooked, None)
            \<and> fst (client_Get_Role env (Name namespace, Name hooked)
                     (record_event (HookRole desiredRole) w)) = Inr existingRole
            \<and> \<not> (name = dexServer \<and> isDexDisabled env) \<longrightarrow>
            (\<exists>u. trace (snd (reconcileRole_body env name policyRules cr namespace rs w)) =
                    trace w @ [HookRole desiredRole, Call (GetRole (Name namespace) (Name hooked)),
                               Call (UpdateRole u)]
                \<and> Role.Rules u = Role.Rules hooked
                \<and> (hooked = desiredRole \<longrightarrow> Role.Rules u = policyRules)
                \<and> Name u = Name existingRole \<and> Namespace u = Namespace existingRole
                \<and> Labels u = Labels existingRole \<and> Annotations u = Annotations existingRole
                \<and> OwnerReferences u = OwnerReferences existingRole))
       \<and> (\<forall>hooked existing.
            hookClusterRole env (trace w) cr desiredClusterRole = (hooked, None)
            \<and> fst (client_Get_ClusterRole env (Name hooked)
                     (record_event (HookClusterRole desiredClusterRole) w)) = Inr existing
            \<and> allowedNamespace env (Namespace cr) (Getenv env ''ARGOCD_CLUSTER_CONFIG_NAMESPACES'') \<longrightarrow>
            (\<exists>u. trace (snd (reconcileClusterRole env name policyRules cr w)) =
                    trace w @ [HookClusterRole desiredClusterRole, Call (GetClusterRole (Name hooked)),
                               Call (UpdateClusterRole u)]
                \<and> ClusterRole.Rules u = ClusterRole.Rules hooked
                \<and> (hooked = desiredClusterRole \<longrightarrow> ClusterRole.Rules u = policyRules)
                \<and> Name u = Name existing \<and> Namespace u = Namespace existing
                \<and> Labels u = Labels existing \<and> Annotations u = Annotations existing
                \<and> OwnerReferences u = OwnerReferences existing))"
proof -
  have q1: "\<exists>u. trace (snd (reconcileRole_body env name policyRules cr namespace rs w)) =
                    trace w @ [HookRole desiredRole, Call (GetRole (Name namespace) (Name hooked)),
                               Call (UpdateRole u)]
                \<and> Role.Rules u = Role.Rules hooked
                \<and> (hooked = desiredRole \<longrightarrow> Role.Rules u = policyRules)
                \<and> Name u = Name existingRole \<and> Namespace u = Namespace existingRole
                \<and> Labels u = Labels existingRole \<and> Annotations u = Annotations existingRole
                \<and> OwnerReferences u = OwnerReferences existingRole"
    if a: "hookRole env (trace w) cr desiredRole = (hooked, None)
            \<and> fst (client_Get_Role env (Name namespace, Name hooked)
                     (record_event (HookRole desiredRole) w)) = Inr existingRole
            \<and> \<not> (name = dexServer \<and> isDexDisabled env)" for hooked existingRole
  proof -
    from a have hook: "hookRole env (trace w) cr (newRole env name policyRules cr) = (hooked, None)"
      and g: "fst (client_Get_Role env (Name namespace, Name hooked)
           (record_event (HookRole (newRole env name policyRules cr)) w)) = Inr existingRole"
      and d: "\<not> (name = dexServer \<and> isDexDisabled env)"
      unfolding desiredRole_def by blast+
    let ?u = "existingRole\<lparr>Role.Rules := Role.Rules hooked\<rparr>"
    have t: "trace (snd (reconcileRole_body env name policyRules cr namespace rs w)) =
               trace w @ [HookRole desiredRole, Call (GetRole (Name namespace) (Name hooked)),
                          Call (UpdateRole ?u)]"
      unfolding body_found_update [OF hook g d]
      by (simp add: desiredRole_def snd_case_write client_Update_Role_trace trace_record_event)
    have r: "hooked = desiredRole \<longrightarrow> Role.Rules ?u = policyRules"
      by (simp add: desiredRole_def newRole_def)
    from t r show ?thesis by (intro exI [of _ ?u]) simp
  qed
  have q2: "\<exists>u. trace (snd (reconcileClusterRole env name policyRules cr w)) =
                    trace w @ [HookClusterRole desiredClusterRole, Call (GetClusterRole (Name hooked)),
                               Call (UpdateClusterRole u)]
                \<and> ClusterRole.Rules u = ClusterRole.Rules hooked
                \<and> (hooked = desiredClusterRole \<longrightarrow> ClusterRole.Rules u = policyRules)
                \<and> Name u = Name existing \<and> Namespace u = Namespace existing
                \<and> Labels u = Labels existing \<and> Annotations u = Annotations existing
                \<and> OwnerReferences u = OwnerReferences existing"
    if a: "hookClusterRole env (trace w) cr desiredClusterRole = (hooked, None)
            \<and> fst (client_Get_ClusterRole env (Name hooked)
                     (record_event (HookClusterRole desiredClusterRole) w)) = Inr existing
            \<and> allowedNamespace env (Namespace cr) (Getenv env ''ARGOCD_CLUSTER_CONFIG_NAMESPACES'')"
    for hooked existing
  proof -
    from a have hook: "hookClusterRole env (trace w) cr (newClusterRole env name policyRules cr) = (hooked, None)"
      and g: "fst (client_Get_ClusterRole env (Name hooked)
           (record_event (HookClusterRole (newClusterRole env name policyRules cr)) w)) = Inr existing"
      and d: "allowedNamespace env (Namespace cr) (Getenv env ''ARGOCD_CLUSTER_CONFIG_NAMESPACES'')"
      unfolding desiredClusterRole_def by blast+
    let ?u = "existing\<lparr>ClusterRole.Rules := ClusterRole.Rules hooked\<rparr>"
    have t: "trace (snd (reconcileClusterRole env name policyRules cr w)) =
               trace w @ [HookClusterRole desiredClusterRole, Call (GetClusterRole (Name hooked)),
                          Call (UpdateClusterRole ?u)]"
      unfolding cluster_found_update [OF hook g d]
      by (simp add: desiredClusterRole_def case_prod_beta client_Update_ClusterRole_trace
          trace_record_event)
    have r: "hooked = desiredClusterRole \<longrightarrow> ClusterRole.Rules ?u = policyRules"
      by (simp add: desiredClusterRole_def newClusterRole_def)
    from t r show ?thesis by (intro exI [of _ ?u]) simp
  qed
  from q1 q2 show ?thesis by blast
qed


theorem update_overwrites_rules_only_witness:
  "(\<exists>u. last (trace (snd (reconcileRole_body testEnvironment server testRules testArgoCD
                          testNamespaceObject [] (staleWorld server)))) = Call (UpdateRole u)
        \<and> Role.Rules u = testRules \<and> Name u = ''argocd-argocd-server'' \<and> Namespace u = ''argocd''
        \<and> Labels u = [(''kept'', ''yes'')] \<and> Annotations u = [(''note'', ''by hand'')]
        \<and> OwnerReferences u = [])
   \<and> (\<exists>u. last (trace (snd (reconcileClusterRole testEnvironment server testRules testArgoCD
                          (staleWorld server)))) = Call (UpdateClusterRole u)
        \<and> ClusterRole.Rules u = testRules \<and> Name u = ''argocd-argocd-argocd-server''
        \<and> Labels u = [(''kept'', ''yes'')] \<and> Annotations u = [(''note'', ''by hand'')]
        \<and> OwnerReferences u = [])"
proof -
  note T = update_overwrites_rules_only [where env = testEnvironment and name = server
      and policyRules = testRules and cr = testArgoCD and namespace = testNamespaceObject
      and rs = "[]" and w = "staleWorld server"]
  let ?r = "newRole testEnvironment server testRules testArgoCD"
  let ?c = "newClusterRole testEnvironment server testRules testArgoCD"
  have hr: "hookRole testEnvironment (trace (staleWorld server)) testArgoCD ?r = (?r, None)"
    by (simp add: testEnvironment_def)
  have gr: "fst (client_Get_Role testEnvironment (Name testNamespaceObject, Name ?r)
              (record_event (HookRole ?r) (staleWorld server))) = Inr (staleRole server)"
    by (simp add: eval_defs name_defs fixture_defs)
  have d: "\<not> (server = dexServer \<and> isDexDisabled testEnvironment)"
    by (simp add: name_defs)
  have hc: "hookClusterRole testEnvironment (trace (staleWorld server)) testArgoCD ?c = (?c, None)"
    by (simp add: testEnvironment_def)
  have gc: "fst (client_Get_ClusterRole testEnvironment (Name ?c)
              (record_event (HookClusterRole ?c) (staleWorld server))) = Inr (staleClusterRole server)"
    by (simp add: eval_defs name_defs fixture_defs)
  have al: "allowedNamespace testEnvironment (Namespace testArgoCD)
              (Getenv testEnvironment ''ARGOCD_CLUSTER_CONFIG_NAMESPACES'')"
    by (simp add: fixture_defs)
  have s: "Name (staleRole server) = ''argocd-argocd-server''" "Namespace (staleRole server) = ''argocd''"
    "Labels (staleRole server) = [(''kept'', ''yes'')]"
    "Annotations (staleRole server) = [(''note'', ''by hand'')]"
    "OwnerReferences (staleRole server) = []"
    "Name (staleClusterRole server) = ''argocd-argocd-argocd-server''"
    "Labels (staleClusterRole server) = [(''kept'', ''yes'')]"
    "Annotations (staleClusterRole server) = [(''note'', ''by hand'')]"
    "OwnerReferences (staleClusterRole server) = []"
    by (simp_all add: name_defs fixture_defs)
  from T [THEN conjunct1, rule_format, OF conjI [OF hr conjI [OF gr d]]]
  obtain u where u: "trace (snd (reconcileRole_body testEnvironment server testRules testArgoCD
                          testNamespaceObject [] (staleWorld server))) =
                    trace (staleWorld server) @ [HookRole ?r,
                       Call (GetRole (Name testNamespaceObject) (Name ?r)), Call (UpdateRole u)]"
    "Role.Rules u = testRules" "Name u = Name (staleRole server)"
    "Namespace u = Namespace (staleRole server)" "Labels u = Labels (staleRole server)"
    "Annotations u = Annotations (staleRole server)"
    "OwnerReferences u = OwnerReferences (staleRole server)"
    by blast
  from T [THEN conjunct2, rule_format, OF conjI [OF hc conjI [OF gc al]]]
  obtain v where v: "trace (snd (reconcileClusterRole testEnvironment server testRules testArgoCD
                          (staleWorld server))) =
                    trace (staleWorld server) @ [HookClusterRole ?c,
                       Call (GetClusterRole (Name ?c)), Call (UpdateClusterRole v)]"
    "ClusterRole.Rules v = testRules" "Name v = Name (staleClusterRole server)"
    "Labels v = Labels (staleClusterRole server)"
    "Annotations v = Annotations (staleClusterRole server)"
    "OwnerReferences v = OwnerReferences (staleClusterRole server)"
    by blast
  have a: "\<exists>u. last (trace (snd (reconcileRole_body testEnvironment server testRules testArgoCD
                          testNamespaceObject [] (staleWorld server)))) = Call (UpdateRole u)
        \<and> Role.Rules u = testRules \<and> Name u = ''argocd-argocd-server'' \<and> Namespace u = ''argocd''
        \<and> Labels u = [(''kept'', ''yes'')] \<and> Annotations u = [(''note'', ''by hand'')]
        \<and> OwnerReferences u = []"
    using u by (intro exI [of _ u]) (simp add: s)
  have b: "\<exists>u. last (trace (snd (reconcileClusterRole testEnvironment server testRules testArgoCD
                          (staleWorld server)))) = Call (UpdateClusterRole u)
        \<and> ClusterRole.Rules u = testRules \<and> Name u = ''argocd-argocd-argocd-server''
        \<and> Labels u = [(''kept'', ''yes'')] \<and> Annotations u = [(''note'', ''by hand'')]
        \<and> OwnerReferences u = []"
    using v by (intro exI [of _ v]) (simp add: s)
  from a b show ?thesis by blast
qed

section \<open>The proxy variables\<close>

lemma appendProxyVars_eq:
  "appendProxyVars env vars ps result =
     result @ map (\<lambda>p. \<lparr>EnvVar.Name = p, Value = Getenv env p\<rparr>)
       (filter (\<lambda>p. Getenv env p \<noteq> [] \<and> \<not> (\<exists>v \<in> set vars. ToLower (EnvVar.Name v) = ToLower p)) ps)"
  by (induction ps arbitrary: result) (simp_all add: list_ex_iff)

text \<open>
  C3. For every list of environment variables, \<^verbatim>\<open>proxyEnvVars\<close> returns the list itself,
  unchanged and in its order, followed by an entry for each of \<^verbatim>\<open>HTTP_PROXY\<close>,
  \<^verbatim>\<open>HTTPS_PROXY\<close> and \<^verbatim>\<open>no_proxy\<close>, in that order, whose process value is not empty and
  whose name is not the name of an entry of the list under any case variant; the entry has
  the name as written here and the process value.
\<close>

theorem proxyEnvVars_appends_missing_proxy_variables:
  "proxyEnvVars env vars =
     vars @ map (\<lambda>p. \<lparr>EnvVar.Name = p, Value = Getenv env p\<rparr>)
       (filter (\<lambda>p. Getenv env p \<noteq> [] \<and> \<not> (\<exists>v \<in> set vars. ToLower (EnvVar.Name v) = ToLower p))
          [''HTTP_PROXY'', ''HTTPS_PROXY'', ''no_proxy''])"
  by (simp only: proxyEnvVars_def proxyKeys_def appendProxyVars_eq)

lemma ToLower_proxy_names:
  "ToLower ''HTTP_PROXY'' = ''http_proxy''" "ToLower ''HTTPS_PROXY'' = ''https_proxy''"
  "ToLower ''no_proxy'' = ''no_proxy''" "ToLower ''TEST_VAR'' = ''test_var''"
  "ToLower ''Http_Proxy'' = ''http_proxy''"
  by code_simp+

theorem proxyEnvVars_appends_missing_proxy_variables_witness:
  "proxyEnvVars proxyEnvironment [] =
     [\<lparr>EnvVar.Name = ''HTTP_PROXY'', Value = ''example.com:8888''\<rparr>,
      \<lparr>EnvVar.Name = ''HTTPS_PROXY'', Value = ''example.com:8443''\<rparr>,
      \<lparr>EnvVar.Name = ''no_proxy'', Value = ''.example.com''\<rparr>]
   \<and> proxyEnvVars proxyEnvironment [\<lparr>EnvVar.Name = ''TEST_VAR'', Value = ''testing''\<rparr>] =
     [\<lparr>EnvVar.Name = ''TEST_VAR'', Value = ''testing''\<rparr>,
      \<lparr>EnvVar.Name = ''HTTP_PROXY'', Value = ''example.com:8888''\<rparr>,
      \<lparr>EnvVar.Name = ''HTTPS_PROXY'', Value = ''example.com:8443''\<rparr>,
      \<lparr>EnvVar.Name = ''no_proxy'', Value = ''.example.com''\<rparr>]
   \<and> proxyEnvVars proxyEnvironment [\<lparr>EnvVar.Name = ''Http_Proxy'', Value = ''mine''\<rparr>] =
     [\<lparr>EnvVar.Name = ''Http_Proxy'', Value = ''mine''\<rparr>,
      \<lparr>EnvVar.Name = ''HTTPS_PROXY'', Value = ''example.com:8443''\<rparr>,
      \<lparr>EnvVar.Name = ''no_proxy'', Value = ''.example.com''\<rparr>]
   \<and> proxyEnvVars testEnvironment [\<lparr>EnvVar.Name = ''TEST_VAR'', Value = ''testing''\<rparr>] =
     [\<lparr>EnvVar.Name = ''TEST_VAR'', Value = ''testing''\<rparr>]"
  using proxyEnvVars_appends_missing_proxy_variables [of proxyEnvironment "[]"]
    proxyEnvVars_appends_missing_proxy_variables
      [of proxyEnvironment "[\<lparr>EnvVar.Name = ''TEST_VAR'', Value = ''testing''\<rparr>]"]
    proxyEnvVars_appends_missing_proxy_variables
      [of proxyEnvironment "[\<lparr>EnvVar.Name = ''Http_Proxy'', Value = ''mine''\<rparr>]"]
    proxyEnvVars_appends_missing_proxy_variables
      [of testEnvironment "[\<lparr>EnvVar.Name = ''TEST_VAR'', Value = ''testing''\<rparr>]"]
  by (simp add: ToLower_proxy_names proxyEnvironment_def testEnvironment_def)

section \<open>One Deployment, with a server that does not fail and no hook registered\<close>

lemma reconcileDeployment_enabled:
  assumes nofault: "\<forall>t c. fault env t c = None"
    and hook: "hookDeployment env (trace w) cr d = (d, None)"
    and stored: "\<forall>x. deployments w (Namespace d, Name d) = Some x \<longrightarrow>
                   Namespace x = Namespace d \<and> Name x = Name d"
  shows "reconcileDeployment env cr name False d w =
     (None,
      w\<lparr>trace := trace w @ [HookDeployment d, Call (GetDeployment (Namespace d) (Name d)),
           Call (case deployments w (Namespace d, Name d) of
                   None \<Rightarrow> CreateDeployment (setControllerReference env cr d)
                 | Some x \<Rightarrow> UpdateDeployment (x\<lparr>Spec := Spec d\<rparr>))],
        deployments := (deployments w)((Namespace d, Name d) \<mapsto>
           (case deployments w (Namespace d, Name d) of
              None \<Rightarrow> setControllerReference env cr d
            | Some x \<Rightarrow> x\<lparr>Spec := Spec d\<rparr>))\<rparr>)"
proof (cases "deployments w (Namespace d, Name d)")
  case None
  then show ?thesis
    using nofault hook
    by (simp add: reconcileDeployment_def client_Get_Deployment_def client_Create_Deployment_def
        record_event_def setControllerReference_def Let_def)
next
  case (Some x)
  with stored have "Namespace x = Namespace d" "Name x = Name d" by simp_all
  with Some show ?thesis
    using nofault hook
    by (simp add: reconcileDeployment_def client_Get_Deployment_def client_Update_Deployment_def
        record_event_def Let_def)
qed

lemma reconcileDeployment_disabled:
  assumes nofault: "\<forall>t c. fault env t c = None"
    and hook: "hookDeployment env (trace w) cr d = (d, None)"
    and stored: "\<forall>x. deployments w (Namespace d, Name d) = Some x \<longrightarrow>
                   Namespace x = Namespace d \<and> Name x = Name d"
  shows "reconcileDeployment env cr name True d w =
     (None,
      w\<lparr>trace := trace w @ [HookDeployment d, Call (GetDeployment (Namespace d) (Name d))]
           @ (case deployments w (Namespace d, Name d) of
                None \<Rightarrow> [] | Some x \<Rightarrow> [Call (DeleteDeployment x)]),
        deployments := (deployments w)((Namespace d, Name d) := None)\<rparr>)"
proof (cases "deployments w (Namespace d, Name d)")
  case None
  then have "(deployments w)((Namespace d, Name d) := None) = deployments w"
    by (simp add: fun_upd_idem)
  with None show ?thesis
    using nofault hook
    by (simp add: reconcileDeployment_def client_Get_Deployment_def record_event_def Let_def)
next
  case (Some x)
  with stored have "Namespace x = Namespace d" "Name x = Name d" by simp_all
  with Some show ?thesis
    using nofault hook
    by (simp add: reconcileDeployment_def client_Get_Deployment_def client_Delete_Deployment_def
        record_event_def Let_def)
qed

lemma newDeploymentWithSuffix_key:
  "Namespace (newDeploymentWithSuffix env suffix spec cr) = Namespace cr"
  "Name (newDeploymentWithSuffix env suffix spec cr) = Name cr @ ''-'' @ suffix"
  "Spec (newDeploymentWithSuffix env suffix spec cr) = spec"
  by (simp_all add: newDeploymentWithSuffix_def)

lemma setControllerReference_keeps:
  "Spec (setControllerReference env cr (d :: Deployment)) = Spec d"
  "Name (setControllerReference env cr d) = Name d"
  "Namespace (setControllerReference env cr d) = Namespace d"
  by (simp_all add: setControllerReference_def)


text \<open>
  C4. With \<^verbatim>\<open>DISABLE_DEX\<close> set to \<^verbatim>\<open>true\<close>, an API server that does not fail, no hook
  altering the object and a store that holds the Deployment, if it holds one, under its own
  namespace and name, reconciling the Dex Deployment returns no error and leaves no
  Deployment under its name: a Get after it reports not-found. If one existed, the calls
  issued end with its Delete; if none existed, nothing is issued after the Get. Reconciling
  again with the flag set to another value creates the Deployment, with the pod that the
  builder gives.
\<close>

theorem dex_deployment_follows_DISABLE_DEX:
  fixes env :: Environment and b :: Builders and cr :: ArgoCD and w :: World and v :: string
  defines "key \<equiv> (Namespace cr, Name cr @ ''-dex-server'')"
  defines "desired \<equiv> newDeploymentWithSuffix env ''dex-server'' (dexPodSpec env b cr) cr"
  defines "off \<equiv> reconcileDexDeployment env b cr w"
  defines "env' \<equiv> env\<lparr>Getenv := (Getenv env)(''DISABLE_DEX'' := v)\<rparr>"
  defines "on \<equiv> reconcileDexDeployment env' b cr (snd off)"
  assumes nofault: "\<forall>t c. fault env t c = None"
    and nohook: "\<forall>t d. hookDeployment env t cr d = (d, None)"
    and stored: "\<forall>x. deployments w key = Some x \<longrightarrow> Namespace x = fst key \<and> Name x = snd key"
    and flag: "Getenv env ''DISABLE_DEX'' = ''true''"
    and reenabled: "v \<noteq> ''true''"
  shows "fst off = None
       \<and> deployments (snd off) key = None
       \<and> (\<exists>e. fst (client_Get_Deployment env key (snd off)) = Inl e \<and> IsNotFound e)
       \<and> (\<forall>x. deployments w key = Some x \<longrightarrow>
            trace (snd off) = trace w @ [HookDeployment desired,
              Call (GetDeployment (fst key) (snd key)), Call (DeleteDeployment x)])
       \<and> (deployments w key = None \<longrightarrow>
            trace (snd off) = trace w @ [HookDeployment desired,
              Call (GetDeployment (fst key) (snd key))])
       \<and> fst on = None
       \<and> (\<exists>x. deployments (snd on) key = Some x \<and> Spec x = dexPodSpec env' b cr
              \<and> last (trace (snd on)) = Call (CreateDeployment x))"
proof -
  have k: "Namespace desired = fst key" "Name desired = snd key"
    by (simp_all add: desired_def key_def newDeploymentWithSuffix_key)
  have dis: "isDexDisabled env" by (simp add: isDexDisabled_def flag)
  have h: "hookDeployment env (trace w) cr desired = (desired, None)"
    using nohook by simp
  have st: "\<forall>x. deployments w (Namespace desired, Name desired) = Some x \<longrightarrow>
                   Namespace x = Namespace desired \<and> Name x = Name desired"
    using stored by (simp add: k)
  have off: "off = (None,
      w\<lparr>trace := trace w @ [HookDeployment desired, Call (GetDeployment (fst key) (snd key))]
           @ (case deployments w key of None \<Rightarrow> [] | Some x \<Rightarrow> [Call (DeleteDeployment x)]),
        deployments := (deployments w)(key := None)\<rparr>)"
    unfolding off_def reconcileDexDeployment_def
    using reconcileDeployment_disabled [OF nofault h st, of dexServer] dis
    by (simp add: desired_def [symmetric] k)
  have a1: "fst off = None" and a2: "deployments (snd off) key = None"
    by (simp_all add: off)
  have a3: "\<exists>e. fst (client_Get_Deployment env key (snd off)) = Inl e \<and> IsNotFound e"
    using nofault by (simp add: off client_Get_Deployment_def Let_def)
  have a4: "\<forall>x. deployments w key = Some x \<longrightarrow>
            trace (snd off) = trace w @ [HookDeployment desired,
              Call (GetDeployment (fst key) (snd key)), Call (DeleteDeployment x)]"
    by (simp add: off)
  have a5: "deployments w key = None \<longrightarrow>
            trace (snd off) = trace w @ [HookDeployment desired,
              Call (GetDeployment (fst key) (snd key))]"
    by (simp add: off)
  let ?d = "newDeploymentWithSuffix env' ''dex-server'' (dexPodSpec env' b cr) cr"
  have k': "Namespace ?d = fst key" "Name ?d = snd key"
    by (simp_all add: key_def newDeploymentWithSuffix_key)
  have nofault': "\<forall>t c. fault env' t c = None"
    using nofault by (simp add: env'_def)
  have h': "hookDeployment env' (trace (snd off)) cr ?d = (?d, None)"
    using nohook by (simp add: env'_def)
  have en: "\<not> isDexDisabled env'"
    using reenabled by (simp add: isDexDisabled_def env'_def)
  have st': "\<forall>x. deployments (snd off) (Namespace ?d, Name ?d) = Some x \<longrightarrow>
                   Namespace x = Namespace ?d \<and> Name x = Name ?d"
    using a2 by (simp add: k')
  have on: "on = (None,
      (snd off)\<lparr>trace := trace (snd off) @ [HookDeployment ?d, Call (GetDeployment (fst key) (snd key)),
           Call (CreateDeployment (setControllerReference env' cr ?d))],
        deployments := (deployments (snd off))(key \<mapsto> setControllerReference env' cr ?d)\<rparr>)"
    unfolding on_def reconcileDexDeployment_def
    using reconcileDeployment_enabled [OF nofault' h' st', of dexServer] en a2
    by (simp add: k')
  have a6: "fst on = None" by (simp add: on)
  have a7: "\<exists>x. deployments (snd on) key = Some x \<and> Spec x = dexPodSpec env' b cr
              \<and> last (trace (snd on)) = Call (CreateDeployment x)"
    by (simp add: on setControllerReference_keeps newDeploymentWithSuffix_key)
  from a1 a2 a3 a4 a5 a6 a7 show ?thesis by blast
qed


lemmas deployment_eval_defs =
  reconcileDexDeployment_def reconcileServerDeployment_def reconcileRepoDeployment_def
  reconcileDeployment_def client_Get_Deployment_def client_Create_Deployment_def
  client_Update_Deployment_def client_Delete_Deployment_def newDeploymentWithSuffix_def
  setControllerReference_def ObjectMeta.truncate_def record_event_def Let_def

theorem dex_deployment_follows_DISABLE_DEX_witness:
  "deployments dexWorld (''argocd'', ''argocd-dex-server'') \<noteq> None
   \<and> deployments (snd (reconcileDexDeployment dexDisabledEnvironment testBuilders testArgoCD dexWorld))
        (''argocd'', ''argocd-dex-server'') = None
   \<and> (\<exists>x. last (trace (snd (reconcileDexDeployment dexDisabledEnvironment testBuilders testArgoCD
                                dexWorld))) = Call (DeleteDeployment x))
   \<and> trace (snd (reconcileDexDeployment dexDisabledEnvironment testBuilders testArgoCD emptyWorld)) =
        [HookDeployment (newDeploymentWithSuffix dexDisabledEnvironment ''dex-server''
                           (dexPodSpec dexDisabledEnvironment testBuilders testArgoCD) testArgoCD),
         Call (GetDeployment ''argocd'' ''argocd-dex-server'')]
   \<and> (\<exists>x. deployments
              (snd (reconcileDexDeployment
                      (dexDisabledEnvironment\<lparr>Getenv := (Getenv dexDisabledEnvironment)(''DISABLE_DEX'' := [])\<rparr>)
                      testBuilders testArgoCD
                      (snd (reconcileDexDeployment dexDisabledEnvironment testBuilders testArgoCD dexWorld))))
              (''argocd'', ''argocd-dex-server'') = Some x
          \<and> map Command (Containers (Spec x)) = [[''/shared/argocd-dex'', ''rundex'']])"
proof -
  let ?env = dexDisabledEnvironment
  let ?key = "(''argocd'', ''argocd-dex-server'')"
  have nofault: "\<forall>t c. fault ?env t c = None" by (simp add: fixture_defs)
  have nohook: "\<forall>t d. hookDeployment ?env t testArgoCD d = (d, None)" by (simp add: fixture_defs)
  have flag: "Getenv ?env ''DISABLE_DEX'' = ''true''" by (simp add: fixture_defs)
  have v: "[] \<noteq> ''true''" by simp
  have key: "(Namespace testArgoCD, Name testArgoCD @ ''-dex-server'') = ?key"
    by (simp add: fixture_defs)
  obtain x0 where x0: "deployments dexWorld ?key = Some x0" "Namespace x0 = ''argocd''"
    "Name x0 = ''argocd-dex-server''"
    by (simp add: dexWorld_def deployment_eval_defs name_defs fixture_defs)
  have d0: "deployments emptyWorld ?key = None" by (simp add: fixture_defs)
  have s1: "\<forall>x. deployments dexWorld (Namespace testArgoCD, Name testArgoCD @ ''-dex-server'') = Some x
              \<longrightarrow> Namespace x = fst (Namespace testArgoCD, Name testArgoCD @ ''-dex-server'')
                \<and> Name x = snd (Namespace testArgoCD, Name testArgoCD @ ''-dex-server'')"
    using x0 by (simp add: key)
  have s2: "\<forall>x. deployments emptyWorld (Namespace testArgoCD, Name testArgoCD @ ''-dex-server'') = Some x
              \<longrightarrow> Namespace x = fst (Namespace testArgoCD, Name testArgoCD @ ''-dex-server'')
                \<and> Name x = snd (Namespace testArgoCD, Name testArgoCD @ ''-dex-server'')"
    using d0 by (simp add: key)
  note A = dex_deployment_follows_DISABLE_DEX [OF nofault nohook s1 flag v, of testBuilders,
      unfolded key]
  note B = dex_deployment_follows_DISABLE_DEX [OF nofault nohook s2 flag v, of testBuilders,
      unfolded key]
  have c1: "deployments dexWorld ?key \<noteq> None" using x0 by simp
  have c2: "deployments (snd (reconcileDexDeployment ?env testBuilders testArgoCD dexWorld)) ?key = None"
    using A by blast
  have c3: "\<exists>x. last (trace (snd (reconcileDexDeployment ?env testBuilders testArgoCD dexWorld)))
                  = Call (DeleteDeployment x)"
    using A x0 by auto
  have c4: "trace (snd (reconcileDexDeployment ?env testBuilders testArgoCD emptyWorld)) =
        [HookDeployment (newDeploymentWithSuffix ?env ''dex-server''
                           (dexPodSpec ?env testBuilders testArgoCD) testArgoCD),
         Call (GetDeployment ''argocd'' ''argocd-dex-server'')]"
    using B d0 by (simp add: emptyWorld_def)
  from A obtain x where x: "deployments
              (snd (reconcileDexDeployment
                      (?env\<lparr>Getenv := (Getenv ?env)(''DISABLE_DEX'' := [])\<rparr>)
                      testBuilders testArgoCD
                      (snd (reconcileDexDeployment ?env testBuilders testArgoCD dexWorld))))
              ?key = Some x"
    "Spec x = dexPodSpec (?env\<lparr>Getenv := (Getenv ?env)(''DISABLE_DEX'' := [])\<rparr>) testBuilders testArgoCD"
    by blast
  have c5: "\<exists>x. deployments
              (snd (reconcileDexDeployment
                      (?env\<lparr>Getenv := (Getenv ?env)(''DISABLE_DEX'' := [])\<rparr>)
                      testBuilders testArgoCD
                      (snd (reconcileDexDeployment ?env testBuilders testArgoCD dexWorld))))
              ?key = Some x
          \<and> map Command (Containers (Spec x)) = [[''/shared/argocd-dex'', ''rundex'']]"
    using x by (intro exI [of _ x]) (simp add: dexPodSpec_def)
  from c1 c2 c3 c4 c5 show ?thesis by blast
qed

lemma converged_object:
  fixes d :: Deployment
  assumes "\<forall>x. existing = Some x \<longrightarrow> Namespace x = Namespace d \<and> Name x = Name d"
  shows "Spec (case existing of None \<Rightarrow> setControllerReference env cr d
                              | Some x \<Rightarrow> x\<lparr>Spec := Spec d\<rparr>) = Spec d
       \<and> Namespace (case existing of None \<Rightarrow> setControllerReference env cr d
                                   | Some x \<Rightarrow> x\<lparr>Spec := Spec d\<rparr>) = Namespace d
       \<and> Name (case existing of None \<Rightarrow> setControllerReference env cr d
                              | Some x \<Rightarrow> x\<lparr>Spec := Spec d\<rparr>) = Name d"
proof (cases existing)
  case None
  show ?thesis by (simp add: None setControllerReference_keeps)
next
  case (Some x)
  with assms have x: "Namespace x = Namespace d" "Name x = Name d" by blast+
  show ?thesis by (simp add: Some x)
qed

text \<open>
  C5. With an API server that does not fail, no hook altering the object and a store that
  holds the Deployment, if it holds one, under its own namespace and name, reconciling the
  repo-server Deployment stores a pod whose containers are the default container(s)
  followed by the plugin containers of the custom resource. Reconciling again after the
  plugin containers were replaced by as many others updates the Deployment: every plugin
  slot then holds the new container as it was given, name and image included, whatever the
  slot held before, and the number of containers is the same as before.
\<close>

theorem repo_plugin_containers_replaced:
  fixes env :: Environment and b :: Builders and cr :: ArgoCD and w :: World
    and plugins :: "Container list"
  defines "key \<equiv> (Namespace cr, Name cr @ ''-repo-server'')"
  defines "cr' \<equiv> cr\<lparr>Repo_PluginContainers := plugins\<rparr>"
  defines "defaults \<equiv> Containers (repoServerDefaultPodSpec b cr)"
  defines "first \<equiv> reconcileRepoDeployment env b cr w"
  defines "second \<equiv> reconcileRepoDeployment env b cr' (snd first)"
  assumes nofault: "\<forall>t c. fault env t c = None"
    and nohook: "\<forall>t c d. hookDeployment env t c d = (d, None)"
    and stored: "\<forall>x. deployments w key = Some x \<longrightarrow> Namespace x = fst key \<and> Name x = snd key"
    and same_default: "repoServerDefaultPodSpec b cr' = repoServerDefaultPodSpec b cr"
    and same_length: "length plugins = length (Repo_PluginContainers cr)"
  shows "fst first = None \<and> fst second = None
       \<and> (\<exists>d1 d2. deployments (snd first) key = Some d1 \<and> deployments (snd second) key = Some d2
            \<and> Containers (Spec d1) = defaults @ Repo_PluginContainers cr
            \<and> Containers (Spec d2) = defaults @ plugins
            \<and> length (Containers (Spec d2)) = length (Containers (Spec d1))
            \<and> (\<forall>i<length plugins. Containers (Spec d2) ! (length defaults + i) = plugins ! i)
            \<and> last (trace (snd second)) = Call (UpdateDeployment d2))"
proof -
  let ?d = "newDeploymentWithSuffix env ''repo-server'' (repoPodSpec b cr) cr"
  let ?d' = "newDeploymentWithSuffix env ''repo-server'' (repoPodSpec b cr') cr'"
  have k: "(Namespace ?d, Name ?d) = key" "(Namespace ?d', Name ?d') = key"
    by (simp_all add: key_def cr'_def newDeploymentWithSuffix_key)
  have h: "hookDeployment env (trace w) cr ?d = (?d, None)" using nohook by simp
  have st: "\<forall>x. deployments w (Namespace ?d, Name ?d) = Some x \<longrightarrow>
                   Namespace x = Namespace ?d \<and> Name x = Name ?d"
    unfolding k using stored by (simp add: key_def newDeploymentWithSuffix_key)
  note R = reconcileDeployment_enabled [OF nofault h st, of "''argocd-repo-server''"]
  define d1 where "d1 = (case deployments w (Namespace ?d, Name ?d) of
                           None \<Rightarrow> setControllerReference env cr ?d
                         | Some x \<Rightarrow> x\<lparr>Spec := Spec ?d\<rparr>)"
  have d1: "Spec d1 = Spec ?d" "Namespace d1 = Namespace ?d" "Name d1 = Name ?d"
    unfolding d1_def using converged_object [OF st, of env cr] by blast+
  have f1: "fst first = None"
    unfolding first_def reconcileRepoDeployment_def R by simp
  have s1: "deployments (snd first) key = Some d1"
    unfolding first_def reconcileRepoDeployment_def R d1_def k by simp
  have h': "hookDeployment env (trace (snd first)) cr' ?d' = (?d', None)" using nohook by simp
  have st': "\<forall>x. deployments (snd first) (Namespace ?d', Name ?d') = Some x \<longrightarrow>
                   Namespace x = Namespace ?d' \<and> Name x = Name ?d'"
    unfolding k s1 using d1 by (simp add: newDeploymentWithSuffix_key cr'_def)
  note R' = reconcileDeployment_enabled [OF nofault h' st', of "''argocd-repo-server''"]
  let ?d2 = "d1\<lparr>Spec := Spec ?d'\<rparr>"
  have f2: "fst second = None"
    unfolding second_def reconcileRepoDeployment_def R' by simp
  have s2: "deployments (snd second) key = Some ?d2"
    unfolding second_def reconcileRepoDeployment_def R' k s1 by simp
  have c5: "last (trace (snd second)) = Call (UpdateDeployment ?d2)"
    unfolding second_def reconcileRepoDeployment_def R' k s1 by simp
  have c1: "Containers (Spec d1) = defaults @ Repo_PluginContainers cr"
    by (simp add: d1 newDeploymentWithSuffix_key repoPodSpec_def defaults_def)
  have c2: "Containers (Spec ?d2) = defaults @ plugins"
    using same_default
    by (simp add: newDeploymentWithSuffix_key repoPodSpec_def defaults_def cr'_def)
  have c3: "length (Containers (Spec ?d2)) = length (Containers (Spec d1))"
    using same_length by (simp only: c1 c2 length_append)
  have c4: "\<forall>i<length plugins. Containers (Spec ?d2) ! (length defaults + i) = plugins ! i"
    by (simp only: c2 nth_append_length_plus) simp
  have e: "\<exists>d1 d2. deployments (snd first) key = Some d1 \<and> deployments (snd second) key = Some d2
            \<and> Containers (Spec d1) = defaults @ Repo_PluginContainers cr
            \<and> Containers (Spec d2) = defaults @ plugins
            \<and> length (Containers (Spec d2)) = length (Containers (Spec d1))
            \<and> (\<forall>i<length plugins. Containers (Spec d2) ! (length defaults + i) = plugins ! i)
            \<and> last (trace (snd second)) = Call (UpdateDeployment d2)"
    by (intro exI [of _ d1] exI [of _ ?d2] conjI) (fact s1 s2 c1 c2 c3 c4 c5)+
  show ?thesis by (intro conjI) (fact f1 f2 e)+
qed


theorem repo_plugin_containers_replaced_witness:
  "\<exists>d2. deployments
           (snd (reconcileRepoDeployment testEnvironment testBuilders
                   (testArgoCD\<lparr>Repo_PluginContainers := [pluginContainer ''newname'' ''newimage:latest'']\<rparr>)
                   (snd (reconcileRepoDeployment testEnvironment testBuilders
                           (testArgoCD\<lparr>Repo_PluginContainers :=
                              [pluginContainer ''cdk8s'' ''docker.ui/cdk8s/cdk8s:latest'']\<rparr>)
                           emptyWorld))))
           (''argocd'', ''argocd-repo-server'') = Some d2
       \<and> length (Containers (Spec d2)) = 2
       \<and> Containers (Spec d2) ! 1 = pluginContainer ''newname'' ''newimage:latest''"
proof -
  let ?old = "testArgoCD\<lparr>Repo_PluginContainers := [pluginContainer ''cdk8s'' ''docker.ui/cdk8s/cdk8s:latest'']\<rparr>"
  let ?new = "[pluginContainer ''newname'' ''newimage:latest'']"
  have nofault: "\<forall>t c. fault testEnvironment t c = None" by (simp add: fixture_defs)
  have nohook: "\<forall>t c d. hookDeployment testEnvironment t c d = (d, None)" by (simp add: fixture_defs)
  have key: "(Namespace ?old, Name ?old @ ''-repo-server'') = (''argocd'', ''argocd-repo-server'')"
    by (simp add: fixture_defs)
  have stored: "\<forall>x. deployments emptyWorld (Namespace ?old, Name ?old @ ''-repo-server'') = Some x
              \<longrightarrow> Namespace x = fst (Namespace ?old, Name ?old @ ''-repo-server'')
                \<and> Name x = snd (Namespace ?old, Name ?old @ ''-repo-server'')"
    by (simp add: emptyWorld_def)
  have same: "repoServerDefaultPodSpec testBuilders (?old\<lparr>Repo_PluginContainers := ?new\<rparr>)
                = repoServerDefaultPodSpec testBuilders ?old"
    by (simp add: testBuilders_def)
  have len: "length ?new = length (Repo_PluginContainers ?old)" by simp
  have upd: "?old\<lparr>Repo_PluginContainers := ?new\<rparr> = testArgoCD\<lparr>Repo_PluginContainers := ?new\<rparr>"
    by simp
  have defaults: "length (Containers (repoServerDefaultPodSpec testBuilders ?old)) = 1"
    by (simp add: testBuilders_def)
  note T = repo_plugin_containers_replaced [OF nofault nohook stored same len, unfolded key upd]
  from T [THEN conjunct2, THEN conjunct2] show ?thesis
  proof (elim exE conjE)
    fix d1 d2
    assume s2: "deployments
           (snd (reconcileRepoDeployment testEnvironment testBuilders
                   (testArgoCD\<lparr>Repo_PluginContainers := ?new\<rparr>)
                   (snd (reconcileRepoDeployment testEnvironment testBuilders ?old emptyWorld))))
           (''argocd'', ''argocd-repo-server'') = Some d2"
      and c2: "Containers (Spec d2) = Containers (repoServerDefaultPodSpec testBuilders ?old) @ ?new"
    from c2 have "length (Containers (Spec d2)) = 2"
      "Containers (Spec d2) ! 1 = pluginContainer ''newname'' ''newimage:latest''"
      by (simp_all add: testBuilders_def)
    with s2 show ?thesis by blast
  qed
qed

text \<open>
  C6. With an API server that does not fail, no hook altering the object and a store that
  holds the Deployment, if it holds one, under its own namespace and name, reconciling the
  server Deployment with \<^verbatim>\<open>Spec.Server.Insecure\<close> false, then true, then false again stores
  after each step the command of the custom resource of that step: the commands after the
  third step are those after the first, and the commands after the second step are those of
  a Deployment first reconciled in the insecure state. In the insecure state
  \<^verbatim>\<open>--insecure\<close> comes right before \<^verbatim>\<open>--staticassets\<close>; in the other state it is not
  inserted.
\<close>

theorem server_insecure_toggle_roundtrip:
  fixes env :: Environment and b :: Builders and cr :: ArgoCD and w :: World
  defines "key \<equiv> (Namespace cr, Name cr @ ''-server'')"
  defines "secure \<equiv> cr\<lparr>Server_Insecure := False\<rparr>"
  defines "insecure \<equiv> cr\<lparr>Server_Insecure := True\<rparr>"
  defines "commands \<equiv> (\<lambda>w'. map_option (\<lambda>d. map Command (Containers (Spec d))) (deployments w' key))"
  defines "w1 \<equiv> snd (reconcileServerDeployment env b secure w)"
  defines "w2 \<equiv> snd (reconcileServerDeployment env b insecure w1)"
  defines "w3 \<equiv> snd (reconcileServerDeployment env b secure w2)"
  defines "wi \<equiv> snd (reconcileServerDeployment env b insecure w)"
  assumes nofault: "\<forall>t c. fault env t c = None"
    and nohook: "\<forall>t c d. hookDeployment env t c d = (d, None)"
    and stored: "\<forall>x. deployments w key = Some x \<longrightarrow> Namespace x = fst key \<and> Name x = snd key"
  shows "commands w1 = Some [getArgoServerCommand b secure]
       \<and> commands w2 = Some [getArgoServerCommand b insecure]
       \<and> commands w3 = commands w1
       \<and> commands w2 = commands wi
       \<and> (\<exists>rest. getArgoServerCommand b insecure =
                    ''argocd-server'' # ''--insecure'' # ''--staticassets'' # rest)
       \<and> (\<exists>rest. getArgoServerCommand b secure = ''argocd-server'' # ''--staticassets'' # rest)"
proof -
  have step: "map_option (\<lambda>d. map Command (Containers (Spec d)))
                 (deployments (snd (reconcileServerDeployment env b c u)) key)
                 = Some [getArgoServerCommand b c]
              \<and> (\<forall>x. deployments (snd (reconcileServerDeployment env b c u)) key = Some x
                     \<longrightarrow> Namespace x = fst key \<and> Name x = snd key)"
    if c: "Namespace c = Namespace cr" "Name c = Name cr"
      and u: "\<forall>x. deployments u key = Some x \<longrightarrow> Namespace x = fst key \<and> Name x = snd key"
    for c :: ArgoCD and u :: World
  proof -
    let ?d = "newDeploymentWithSuffix env ''server'' (serverPodSpec env b c) c"
    have k: "(Namespace ?d, Name ?d) = key" "Namespace ?d = fst key" "Name ?d = snd key"
      by (simp_all add: key_def c newDeploymentWithSuffix_key)
    have h: "hookDeployment env (trace u) c ?d = (?d, None)" using nohook by simp
    have st: "\<forall>x. deployments u (Namespace ?d, Name ?d) = Some x \<longrightarrow>
                   Namespace x = Namespace ?d \<and> Name x = Name ?d"
      using u by (simp add: k)
    note R = reconcileDeployment_enabled [OF nofault h st, of server]
    define x where "x = (case deployments u (Namespace ?d, Name ?d) of
                           None \<Rightarrow> setControllerReference env c ?d
                         | Some y \<Rightarrow> y\<lparr>Spec := Spec ?d\<rparr>)"
    have x: "Spec x = Spec ?d" "Namespace x = Namespace ?d" "Name x = Name ?d"
      unfolding x_def using converged_object [OF st, of env c] by blast+
    have s: "deployments (snd (reconcileServerDeployment env b c u)) key = Some x"
      unfolding reconcileServerDeployment_def R x_def k(1) by simp
    have m: "map Command (Containers (Spec x)) = [getArgoServerCommand b c]"
      by (simp add: x newDeploymentWithSuffix_key serverPodSpec_def)
    show ?thesis unfolding s using m x(2,3) by (simp add: k)
  qed
  have cs: "Namespace secure = Namespace cr" "Name secure = Name cr"
    and ci: "Namespace insecure = Namespace cr" "Name insecure = Name cr"
    by (simp_all add: secure_def insecure_def)
  note s1 = step [OF cs stored, folded w1_def]
  note s2 = step [OF ci s1 [THEN conjunct2], folded w2_def]
  note s3 = step [OF cs s2 [THEN conjunct2], folded w3_def]
  note si = step [OF ci stored, folded wi_def]
  have a1: "commands w1 = Some [getArgoServerCommand b secure]"
    unfolding commands_def by (rule s1 [THEN conjunct1])
  have a2: "commands w2 = Some [getArgoServerCommand b insecure]"
    unfolding commands_def by (rule s2 [THEN conjunct1])
  have a3: "commands w3 = commands w1"
    unfolding commands_def by (simp only: s1 [THEN conjunct1] s3 [THEN conjunct1])
  have a4: "commands w2 = commands wi"
    unfolding commands_def by (simp only: s2 [THEN conjunct1] si [THEN conjunct1])
  have a5: "\<exists>rest. getArgoServerCommand b insecure =
                    ''argocd-server'' # ''--insecure'' # ''--staticassets'' # rest"
    by (simp add: getArgoServerCommand_def insecure_def)
  have a6: "\<exists>rest. getArgoServerCommand b secure = ''argocd-server'' # ''--staticassets'' # rest"
    by (simp add: getArgoServerCommand_def secure_def)
  show ?thesis by (intro conjI) (fact a1 a2 a3 a4 a5 a6)+
qed


theorem server_insecure_toggle_roundtrip_witness:
  "map_option (\<lambda>d. map Command (Containers (Spec d)))
     (deployments
        (snd (reconcileServerDeployment testEnvironment testBuilders
                (testArgoCD\<lparr>Server_Insecure := True\<rparr>)
                (snd (reconcileServerDeployment testEnvironment testBuilders
                        (testArgoCD\<lparr>Server_Insecure := False\<rparr>) emptyWorld))))
        (''argocd'', ''argocd-server''))
     = Some [[''argocd-server'', ''--insecure'', ''--staticassets'', ''/shared/app'',
              ''--dex-server'', ''http://argocd-dex-server.argocd.svc.cluster.local:5556'',
              ''--repo-server'', ''argocd-repo-server.argocd.svc.cluster.local:8081'',
              ''--redis'', ''argocd-redis.argocd.svc.cluster.local:6379'']]
   \<and> map_option (\<lambda>d. map Command (Containers (Spec d)))
     (deployments
        (snd (reconcileServerDeployment testEnvironment testBuilders
                (testArgoCD\<lparr>Server_Insecure := False\<rparr>)
                (snd (reconcileServerDeployment testEnvironment testBuilders
                        (testArgoCD\<lparr>Server_Insecure := True\<rparr>)
                        (snd (reconcileServerDeployment testEnvironment testBuilders
                                (testArgoCD\<lparr>Server_Insecure := False\<rparr>) emptyWorld))))))
        (''argocd'', ''argocd-server''))
     = Some [[''argocd-server'', ''--staticassets'', ''/shared/app'',
              ''--dex-server'', ''http://argocd-dex-server.argocd.svc.cluster.local:5556'',
              ''--repo-server'', ''argocd-repo-server.argocd.svc.cluster.local:8081'',
              ''--redis'', ''argocd-redis.argocd.svc.cluster.local:6379'']]"
proof -
  have nofault: "\<forall>t c. fault testEnvironment t c = None" by (simp add: fixture_defs)
  have nohook: "\<forall>t c d. hookDeployment testEnvironment t c d = (d, None)" by (simp add: fixture_defs)
  have key: "(Namespace testArgoCD, Name testArgoCD @ ''-server'') = (''argocd'', ''argocd-server'')"
    by (simp add: fixture_defs)
  have stored: "\<forall>x. deployments emptyWorld (Namespace testArgoCD, Name testArgoCD @ ''-server'') = Some x
              \<longrightarrow> Namespace x = fst (Namespace testArgoCD, Name testArgoCD @ ''-server'')
                \<and> Name x = snd (Namespace testArgoCD, Name testArgoCD @ ''-server'')"
    by (simp add: emptyWorld_def)
  have ci: "getArgoServerCommand testBuilders (testArgoCD\<lparr>Server_Insecure := True\<rparr>) =
       [''argocd-server'', ''--insecure'', ''--staticassets'', ''/shared/app'',
        ''--dex-server'', ''http://argocd-dex-server.argocd.svc.cluster.local:5556'',
        ''--repo-server'', ''argocd-repo-server.argocd.svc.cluster.local:8081'',
        ''--redis'', ''argocd-redis.argocd.svc.cluster.local:6379'']"
    by (simp add: getArgoServerCommand_def testBuilders_def)
  have cs: "getArgoServerCommand testBuilders (testArgoCD\<lparr>Server_Insecure := False\<rparr>) =
       [''argocd-server'', ''--staticassets'', ''/shared/app'',
        ''--dex-server'', ''http://argocd-dex-server.argocd.svc.cluster.local:5556'',
        ''--repo-server'', ''argocd-repo-server.argocd.svc.cluster.local:8081'',
        ''--redis'', ''argocd-redis.argocd.svc.cluster.local:6379'']"
    by (simp add: getArgoServerCommand_def testBuilders_def)
  note T = server_insecure_toggle_roundtrip [OF nofault nohook stored, of testBuilders,
      unfolded key ci cs]
  from T [THEN conjunct2, THEN conjunct1] T [THEN conjunct2, THEN conjunct2, THEN conjunct1]
    T [THEN conjunct1]
  show ?thesis by simp
qed

section \<open>The four quadrants\<close>

lemma reconcileRole_loop_trace:
  "\<exists>rest. trace (snd (reconcileRole_loop env name policyRules cr items rs w)) = trace w @ rest"
proof (induction items arbitrary: rs w)
  case Nil
  show ?case by simp
next
  case (Cons namespace items)
  obtain x w' where b: "reconcileRole_body env name policyRules cr namespace rs w = (x, w')"
    by (cases "reconcileRole_body env name policyRules cr namespace rs w") blast
  from body_trace_starts_with_hook [of env name policyRules cr namespace rs w] b
  obtain r1 where r1: "trace w' = trace w @ HookRole (newRole env name policyRules cr) # r1"
    by auto
  show ?case
  proof (cases x)
    case (Inl e)
    with b r1 show ?thesis by simp
  next
    case (Inr rs')
    from Cons.IH [of rs' w'] obtain r2
      where "trace (snd (reconcileRole_loop env name policyRules cr items rs' w')) = trace w' @ r2"
      by blast
    with b r1 Inr show ?thesis by simp
  qed
qed

lemma reconcileRole_continues:
  assumes l: "client_List env [(ArgoCDManagedByLabel env, Namespace cr)] w0
                = ((pre @ namespace # post, None), wl)"
    and p: "reconcileRole_loop env name policyRules cr pre [] wl = ((rs, None), w)"
  shows "\<exists>rest. trace (snd (reconcileRole env name policyRules cr w0)) =
                  trace (snd (reconcileRole_body env name policyRules cr namespace rs w)) @ rest"
    and "fst (reconcileRole_body env name policyRules cr namespace rs w) = Inr rs' \<Longrightarrow>
         reconcileRole env name policyRules cr w0 =
           reconcileRole_loop env name policyRules cr post rs'
             (snd (reconcileRole_body env name policyRules cr namespace rs w))"
proof -
  obtain x w' where b: "reconcileRole_body env name policyRules cr namespace rs w = (x, w')"
    by (cases "reconcileRole_body env name policyRules cr namespace rs w") blast
  have r: "reconcileRole env name policyRules cr w0 =
             (case x of Inl e \<Rightarrow> (([], Some e), w')
                      | Inr rs' \<Rightarrow> reconcileRole_loop env name policyRules cr post rs' w')"
    unfolding reconcileRole_listed [OF l]
    by (simp add: reconcileRole_loop_append p b split: sum.splits)
  show "\<exists>rest. trace (snd (reconcileRole env name policyRules cr w0)) =
                  trace (snd (reconcileRole_body env name policyRules cr namespace rs w)) @ rest"
  proof (cases x)
    case (Inl e)
    then show ?thesis by (simp add: r b)
  next
    case (Inr rs')
    with reconcileRole_loop_trace [of env name policyRules cr post rs' w']
    show ?thesis by (simp add: r b)
  qed
  show "reconcileRole env name policyRules cr w0 =
           reconcileRole_loop env name policyRules cr post rs'
             (snd (reconcileRole_body env name policyRules cr namespace rs w))"
    if "fst (reconcileRole_body env name policyRules cr namespace rs w) = Inr rs'"
    using that by (simp add: r b)
qed

lemma upsert_into_empty:
  "fst (controllerutil_SetControllerReference cr
          \<lparr>Name = n, Namespace = ns, Labels = l, Annotations = a, OwnerReferences = []\<rparr>) =
     (if Namespace cr = [] \<or> ns = Namespace cr then [controllerReference cr] else [])"
  by (simp add: controllerutil_SetControllerReference_def validateOwner_def)


text \<open>
  C1, as stated, fails where it says that an owner reference is set. \<^verbatim>\<open>reconcileRole\<close> calls
  \<^verbatim>\<open>SetControllerReference\<close> and discards its error. With two managed namespaces, the one of
  the custom resource and another one, the pass succeeds and the Role of the other
  namespace is created and stored with no owner reference: the library refuses an owner in
  another namespace.
\<close>

theorem reconcileRole_creates_without_owner_reference:
  "snd (fst (reconcileRole testEnvironment server testRules testArgoCD twoNamespaceWorld)) = None
   \<and> last (trace (snd (reconcileRole testEnvironment server testRules testArgoCD twoNamespaceWorld))) =
       Call (CreateRole
         \<lparr>Name = ''argocd-argocd-server'', Namespace = ''other'', Labels = [(''part-of'', ''argocd'')],
          Annotations = [], OwnerReferences = [], Role.Rules = testRules\<rparr>)
   \<and> roles (snd (reconcileRole testEnvironment server testRules testArgoCD twoNamespaceWorld))
        (''other'', ''argocd-argocd-server'') =
       Some \<lparr>Name = ''argocd-argocd-server'', Namespace = ''other'', Labels = [(''part-of'', ''argocd'')],
             Annotations = [], OwnerReferences = [], Role.Rules = testRules\<rparr>"
  by (simp add: eval_defs name_defs fixture_defs library_defs)

text \<open>
  C1, amended. For a managed namespace processed by \<^verbatim>\<open>reconcileRole\<close> (the hook having
  returned no error, so that the Role is looked up), the calls issued for that namespace are
  the hook, the Get, and then: when the Role is not found and the component is not a disabled
  Dex, a Create of the Role as the hook left it, in that namespace, with the owner references
  that \<^verbatim>\<open>SetControllerReference\<close> computed, its error being discarded; when it is not found and
  the component is \<^verbatim>\<open>dexServer\<close> with Dex disabled, nothing more, the loop going on with the
  Role appended to its slice; when it is found and the component is \<^verbatim>\<open>dexServer\<close> with Dex
  disabled, a Delete of the existing Role; when it is found otherwise, an Update of the
  existing Role with its rules overwritten. With the function of the library, a custom
  resource that has a namespace and a Role that the hook left without owner, the created Role
  has the controller reference to the custom resource as its only owner reference when the
  namespace is the one of the custom resource, and no owner reference when it is another.
  When the namespaces were listed and those before this one processed without error, the
  events of \<^verbatim>\<open>reconcileRole\<close> go on from those of this iteration, and if the iteration does not
  return, \<^verbatim>\<open>reconcileRole\<close> is the loop over the namespaces that follow.
\<close>

theorem reconcileRole_four_quadrants:
  fixes env :: Environment and cr :: ArgoCD and namespace :: NamespaceObject and w :: World
    and name :: string and policyRules :: "PolicyRule list" and rs :: "Role list" and hooked :: Role
  assumes hook: "hookRole env (trace w) cr (newRole env name policyRules cr) = (hooked, None)"
  defines "desired \<equiv> newRole env name policyRules cr"
  defines "role \<equiv> hooked\<lparr>Namespace := Name namespace\<rparr>"
  defines "got \<equiv> fst (client_Get_Role env (Name namespace, Name hooked) (record_event (HookRole desired) w))"
  defines "out \<equiv> reconcileRole_body env name policyRules cr namespace rs w"
  defines "lookup \<equiv> [HookRole desired, Call (GetRole (Name namespace) (Name hooked))]"
  defines "created \<equiv>
     \<lparr>Name = Name hooked, Namespace = Name namespace, Labels = Labels hooked,
      Annotations = Annotations hooked,
      OwnerReferences = fst (SetControllerReference env cr
         \<lparr>Name = Name hooked, Namespace = Name namespace, Labels = Labels hooked,
          Annotations = Annotations hooked, OwnerReferences = OwnerReferences hooked\<rparr>),
      Role.Rules = Role.Rules hooked\<rparr>"
  shows "(\<forall>e. got = Inl e \<and> IsNotFound e \<and> \<not> (name = dexServer \<and> isDexDisabled env) \<longrightarrow>
            trace (snd out) = trace w @ lookup @ [Call (CreateRole created)])
       \<and> (SetControllerReference env = controllerutil_SetControllerReference
            \<and> Namespace cr \<noteq> [] \<and> OwnerReferences hooked = [] \<longrightarrow>
            OwnerReferences created =
              (if Name namespace = Namespace cr then [controllerReference cr] else []))
       \<and> (\<forall>e. got = Inl e \<and> IsNotFound e \<and> name = dexServer \<and> isDexDisabled env \<longrightarrow>
            trace (snd out) = trace w @ lookup \<and> fst out = Inr (rs @ [role]))
       \<and> (\<forall>existingRole. got = Inr existingRole \<and> name = dexServer \<and> isDexDisabled env \<longrightarrow>
            trace (snd out) = trace w @ lookup @ [Call (DeleteRole existingRole)])
       \<and> (\<forall>existingRole. got = Inr existingRole \<and> \<not> (name = dexServer \<and> isDexDisabled env) \<longrightarrow>
            trace (snd out) = trace w @ lookup
              @ [Call (UpdateRole (existingRole\<lparr>Role.Rules := Role.Rules role\<rparr>))])
       \<and> (\<forall>w0 wl pre post.
              client_List env [(ArgoCDManagedByLabel env, Namespace cr)] w0
                = ((pre @ namespace # post, None), wl)
              \<and> reconcileRole_loop env name policyRules cr pre [] wl = ((rs, None), w) \<longrightarrow>
            (\<exists>rest. trace (snd (reconcileRole env name policyRules cr w0)) = trace (snd out) @ rest)
            \<and> (\<forall>rs'. fst out = Inr rs' \<longrightarrow>
                  reconcileRole env name policyRules cr w0 =
                    reconcileRole_loop env name policyRules cr post rs' (snd out)))"
proof -
  have c: "setControllerReference env cr (hooked\<lparr>Namespace := Name namespace\<rparr>) = created"
    by (simp add: created_def setControllerReference_def ObjectMeta.truncate_def)
  have q1: "trace (snd out) = trace w @ lookup @ [Call (CreateRole created)]"
    if a: "got = Inl e \<and> IsNotFound e \<and> \<not> (name = dexServer \<and> isDexDisabled env)" for e
  proof -
    from a have g: "fst (client_Get_Role env (Name namespace, Name hooked)
           (record_event (HookRole (newRole env name policyRules cr)) w)) = Inl e"
      and nf: "IsNotFound e" and d: "\<not> (name = dexServer \<and> isDexDisabled env)"
      unfolding got_def desired_def by blast+
    show ?thesis
      unfolding out_def body_notfound_create [OF hook g nf d] c
      by (simp add: desired_def lookup_def snd_case_write client_Create_Role_trace
          trace_record_event)
  qed
  have q2: "OwnerReferences created =
              (if Name namespace = Namespace cr then [controllerReference cr] else [])"
    if a: "SetControllerReference env = controllerutil_SetControllerReference
            \<and> Namespace cr \<noteq> [] \<and> OwnerReferences hooked = []"
    using a by (simp add: created_def upsert_into_empty)
  have q3: "trace (snd out) = trace w @ lookup \<and> fst out = Inr (rs @ [role])"
    if a: "got = Inl e \<and> IsNotFound e \<and> name = dexServer \<and> isDexDisabled env" for e
  proof -
    from a have g: "fst (client_Get_Role env (Name namespace, Name hooked)
           (record_event (HookRole (newRole env name policyRules cr)) w)) = Inl e"
      and nf: "IsNotFound e" and d: "name = dexServer \<and> isDexDisabled env"
      unfolding got_def desired_def by blast+
    show ?thesis
      unfolding out_def body_notfound_skip [OF hook g nf d]
      by (simp add: desired_def role_def lookup_def trace_record_event)
  qed
  have q4: "trace (snd out) = trace w @ lookup @ [Call (DeleteRole existingRole)]"
    if a: "got = Inr existingRole \<and> name = dexServer \<and> isDexDisabled env" for existingRole
  proof -
    from a have g: "fst (client_Get_Role env (Name namespace, Name hooked)
           (record_event (HookRole (newRole env name policyRules cr)) w)) = Inr existingRole"
      and d: "name = dexServer \<and> isDexDisabled env"
      unfolding got_def desired_def by blast+
    show ?thesis
      unfolding out_def body_found_delete [OF hook g d]
      by (simp add: desired_def lookup_def snd_case_write client_Delete_Role_trace
          trace_record_event)
  qed
  have q5: "trace (snd out) = trace w @ lookup
              @ [Call (UpdateRole (existingRole\<lparr>Role.Rules := Role.Rules role\<rparr>))]"
    if a: "got = Inr existingRole \<and> \<not> (name = dexServer \<and> isDexDisabled env)" for existingRole
  proof -
    from a have g: "fst (client_Get_Role env (Name namespace, Name hooked)
           (record_event (HookRole (newRole env name policyRules cr)) w)) = Inr existingRole"
      and d: "\<not> (name = dexServer \<and> isDexDisabled env)"
      unfolding got_def desired_def by blast+
    show ?thesis
      unfolding out_def body_found_update [OF hook g d]
      by (simp add: desired_def role_def lookup_def snd_case_write client_Update_Role_trace
          trace_record_event)
  qed
  have q6: "(\<exists>rest. trace (snd (reconcileRole env name policyRules cr w0)) = trace (snd out) @ rest)
            \<and> (\<forall>rs'. fst out = Inr rs' \<longrightarrow>
                  reconcileRole env name policyRules cr w0 =
                    reconcileRole_loop env name policyRules cr post rs' (snd out))"
    if a: "client_List env [(ArgoCDManagedByLabel env, Namespace cr)] w0
                = ((pre @ namespace # post, None), wl)
              \<and> reconcileRole_loop env name policyRules cr pre [] wl = ((rs, None), w)"
    for w0 wl pre post
  proof -
    from a have l: "client_List env [(ArgoCDManagedByLabel env, Namespace cr)] w0
                = ((pre @ namespace # post, None), wl)"
      and p: "reconcileRole_loop env name policyRules cr pre [] wl = ((rs, None), w)"
      by blast+
    show ?thesis
      unfolding out_def
      using reconcileRole_continues(1) [OF l p] reconcileRole_continues(2) [OF l p]
      by (intro conjI allI impI)
  qed
  show ?thesis
    by (intro conjI allI impI) (use q1 q2 q3 q4 q5 q6 in \<open>blast+\<close>)
qed


theorem reconcileRole_four_quadrants_witness:
  "trace (snd (reconcileRole_body testEnvironment server testRules testArgoCD testNamespaceObject []
          emptyWorld)) =
     [HookRole (newRole testEnvironment server testRules testArgoCD),
      Call (GetRole ''argocd'' ''argocd-argocd-server''),
      Call (CreateRole
        \<lparr>Name = ''argocd-argocd-server'', Namespace = ''argocd'', Labels = [(''part-of'', ''argocd'')],
         Annotations = [],
         OwnerReferences = [\<lparr>ownerKind = ''ArgoCD'', ownerName = ''argocd'', ownerController = True\<rparr>],
         Role.Rules = testRules\<rparr>)]
   \<and> trace (snd (reconcileRole_body testEnvironment server testRules testArgoCD otherNamespaceObject []
          emptyWorld)) =
     [HookRole (newRole testEnvironment server testRules testArgoCD),
      Call (GetRole ''other'' ''argocd-argocd-server''),
      Call (CreateRole
        \<lparr>Name = ''argocd-argocd-server'', Namespace = ''other'', Labels = [(''part-of'', ''argocd'')],
         Annotations = [], OwnerReferences = [], Role.Rules = testRules\<rparr>)]
   \<and> trace (snd (reconcileRole_body dexDisabledEnvironment dexServer testRules testArgoCD
          testNamespaceObject [] emptyWorld)) =
     [HookRole (newRole dexDisabledEnvironment dexServer testRules testArgoCD),
      Call (GetRole ''argocd'' ''argocd-argocd-dex-server'')]
   \<and> trace (snd (reconcileRole_body dexDisabledEnvironment dexServer testRules testArgoCD
          testNamespaceObject [] (staleWorld dexServer))) =
     [HookRole (newRole dexDisabledEnvironment dexServer testRules testArgoCD),
      Call (GetRole ''argocd'' ''argocd-argocd-dex-server''),
      Call (DeleteRole (staleRole dexServer))]
   \<and> trace (snd (reconcileRole_body testEnvironment server testRules testArgoCD testNamespaceObject []
          (staleWorld server))) =
     [HookRole (newRole testEnvironment server testRules testArgoCD),
      Call (GetRole ''argocd'' ''argocd-argocd-server''),
      Call (UpdateRole ((staleRole server)\<lparr>Role.Rules := testRules\<rparr>))]
   \<and> reconcileRole testEnvironment server testRules testArgoCD twoNamespaceWorld =
       reconcileRole_loop testEnvironment server testRules testArgoCD [otherNamespaceObject]
         [\<lparr>Name = ''argocd-argocd-server'', Namespace = ''argocd'', Labels = [(''part-of'', ''argocd'')],
           Annotations = [],
           OwnerReferences = [\<lparr>ownerKind = ''ArgoCD'', ownerName = ''argocd'', ownerController = True\<rparr>],
           Role.Rules = testRules\<rparr>]
         (snd (reconcileRole_body testEnvironment server testRules testArgoCD testNamespaceObject []
                 (record_event (Call (ListNamespaces [(''managed-by'', ''argocd'')])) twoNamespaceWorld)))"
proof -
  note T = reconcileRole_four_quadrants
  let ?s = "newRole testEnvironment server testRules testArgoCD"
  let ?d = "newRole dexDisabledEnvironment dexServer testRules testArgoCD"
  let ?nf = "StatusError StatusReasonNotFound ''roles argocd-argocd-server not found''"
  let ?nfd = "StatusError StatusReasonNotFound ''roles argocd-argocd-dex-server not found''"
  have hs: "hookRole testEnvironment (trace w) testArgoCD ?s = (?s, None)" for w
    by (simp add: testEnvironment_def)
  have hd: "hookRole dexDisabledEnvironment (trace w) testArgoCD ?d = (?d, None)" for w
    by (simp add: testEnvironment_def dexDisabledEnvironment_def)
  have ds: "\<not> (server = dexServer \<and> isDexDisabled testEnvironment)"
    by (simp add: name_defs)
  have dd: "dexServer = dexServer \<and> isDexDisabled dexDisabledEnvironment"
    by (simp add: name_defs fixture_defs)
  have lib: "SetControllerReference testEnvironment = controllerutil_SetControllerReference
             \<and> Namespace testArgoCD \<noteq> [] \<and> OwnerReferences ?s = []"
    by (simp add: newRole_def fixture_defs)
  have n: "Name testNamespaceObject = ''argocd''" "Name otherNamespaceObject = ''other''"
    "Name ?s = ''argocd-argocd-server''" "Name ?d = ''argocd-argocd-dex-server''"
    "Role.Rules ?s = testRules" "Labels ?s = [(''part-of'', ''argocd'')]" "Annotations ?s = []"
    "?s\<lparr>Namespace := ''argocd''\<rparr> = ?s" "Namespace testArgoCD = ''argocd''"
    "controllerReference testArgoCD =
       \<lparr>ownerKind = ''ArgoCD'', ownerName = ''argocd'', ownerController = True\<rparr>"
    by (simp_all add: newRole_def name_defs fixture_defs library_defs)
  have e: "trace emptyWorld = []" "trace (staleWorld x) = []" for x
    by (simp_all add: fixture_defs)
  have c1: "trace (snd (reconcileRole_body testEnvironment server testRules testArgoCD
                testNamespaceObject [] emptyWorld)) =
     [HookRole ?s, Call (GetRole ''argocd'' ''argocd-argocd-server''),
      Call (CreateRole
        \<lparr>Name = ''argocd-argocd-server'', Namespace = ''argocd'', Labels = [(''part-of'', ''argocd'')],
         Annotations = [],
         OwnerReferences = [\<lparr>ownerKind = ''ArgoCD'', ownerName = ''argocd'', ownerController = True\<rparr>],
         Role.Rules = testRules\<rparr>)]"
  proof -
    have g: "fst (client_Get_Role testEnvironment (Name testNamespaceObject, Name ?s)
              (record_event (HookRole ?s) emptyWorld)) = Inl ?nf"
      by (simp add: client_Get_Role_def record_event_def newRole_def name_defs fixture_defs)
    note A = T [where w = emptyWorld and namespace = testNamespaceObject and rs = "[]", OF hs]
    from A [THEN conjunct1, rule_format, of ?nf] g ds
      A [THEN conjunct2, THEN conjunct1, rule_format, OF lib]
    show ?thesis by (simp add: n e)
  qed
  have c2: "trace (snd (reconcileRole_body testEnvironment server testRules testArgoCD
                otherNamespaceObject [] emptyWorld)) =
     [HookRole ?s, Call (GetRole ''other'' ''argocd-argocd-server''),
      Call (CreateRole
        \<lparr>Name = ''argocd-argocd-server'', Namespace = ''other'', Labels = [(''part-of'', ''argocd'')],
         Annotations = [], OwnerReferences = [], Role.Rules = testRules\<rparr>)]"
  proof -
    have g: "fst (client_Get_Role testEnvironment (Name otherNamespaceObject, Name ?s)
              (record_event (HookRole ?s) emptyWorld)) = Inl ?nf"
      by (simp add: client_Get_Role_def record_event_def newRole_def name_defs fixture_defs)
    note A = T [where w = emptyWorld and namespace = otherNamespaceObject and rs = "[]", OF hs]
    from A [THEN conjunct1, rule_format, of ?nf] g ds
      A [THEN conjunct2, THEN conjunct1, rule_format, OF lib]
    show ?thesis by (simp add: n e)
  qed
  have c3: "trace (snd (reconcileRole_body dexDisabledEnvironment dexServer testRules testArgoCD
          testNamespaceObject [] emptyWorld)) =
     [HookRole ?d, Call (GetRole ''argocd'' ''argocd-argocd-dex-server'')]"
  proof -
    have g: "fst (client_Get_Role dexDisabledEnvironment (Name testNamespaceObject, Name ?d)
              (record_event (HookRole ?d) emptyWorld)) = Inl ?nfd"
      by (simp add: client_Get_Role_def record_event_def newRole_def name_defs fixture_defs)
    note A = T [where w = emptyWorld and namespace = testNamespaceObject and rs = "[]", OF hd]
    from A [THEN conjunct2, THEN conjunct2, THEN conjunct1, rule_format, of ?nfd] g dd
    show ?thesis by (simp add: n e)
  qed
  have c4: "trace (snd (reconcileRole_body dexDisabledEnvironment dexServer testRules testArgoCD
          testNamespaceObject [] (staleWorld dexServer))) =
     [HookRole ?d, Call (GetRole ''argocd'' ''argocd-argocd-dex-server''),
      Call (DeleteRole (staleRole dexServer))]"
  proof -
    have g: "fst (client_Get_Role dexDisabledEnvironment (Name testNamespaceObject, Name ?d)
              (record_event (HookRole ?d) (staleWorld dexServer))) = Inr (staleRole dexServer)"
      by (simp add: client_Get_Role_def record_event_def newRole_def name_defs fixture_defs)
    note A = T [where w = "staleWorld dexServer" and namespace = testNamespaceObject and rs = "[]",
        OF hd]
    from A [THEN conjunct2, THEN conjunct2, THEN conjunct2, THEN conjunct1, rule_format,
        of "staleRole dexServer"] g dd
    show ?thesis by (simp add: n e)
  qed
  have c5: "trace (snd (reconcileRole_body testEnvironment server testRules testArgoCD
          testNamespaceObject [] (staleWorld server))) =
     [HookRole ?s, Call (GetRole ''argocd'' ''argocd-argocd-server''),
      Call (UpdateRole ((staleRole server)\<lparr>Role.Rules := testRules\<rparr>))]"
  proof -
    have g: "fst (client_Get_Role testEnvironment (Name testNamespaceObject, Name ?s)
              (record_event (HookRole ?s) (staleWorld server))) = Inr (staleRole server)"
      by (simp add: client_Get_Role_def record_event_def newRole_def name_defs fixture_defs)
    note A = T [where w = "staleWorld server" and namespace = testNamespaceObject and rs = "[]",
        OF hs]
    from A [THEN conjunct2, THEN conjunct2, THEN conjunct2, THEN conjunct2, THEN conjunct1,
        rule_format, of "staleRole server"] g ds
    show ?thesis by (simp add: n e)
  qed
  have c6: "reconcileRole testEnvironment server testRules testArgoCD twoNamespaceWorld =
       reconcileRole_loop testEnvironment server testRules testArgoCD [otherNamespaceObject]
         [\<lparr>Name = ''argocd-argocd-server'', Namespace = ''argocd'', Labels = [(''part-of'', ''argocd'')],
           Annotations = [],
           OwnerReferences = [\<lparr>ownerKind = ''ArgoCD'', ownerName = ''argocd'', ownerController = True\<rparr>],
           Role.Rules = testRules\<rparr>]
         (snd (reconcileRole_body testEnvironment server testRules testArgoCD testNamespaceObject []
                 (record_event (Call (ListNamespaces [(''managed-by'', ''argocd'')])) twoNamespaceWorld)))"
  proof -
    let ?wl = "record_event (Call (ListNamespaces [(''managed-by'', ''argocd'')])) twoNamespaceWorld"
    have l: "client_List testEnvironment [(ArgoCDManagedByLabel testEnvironment, Namespace testArgoCD)]
               twoNamespaceWorld = (([] @ testNamespaceObject # [otherNamespaceObject], None), ?wl)"
      by (simp add: eval_defs name_defs fixture_defs)
    have p: "reconcileRole_loop testEnvironment server testRules testArgoCD [] [] ?wl = (([], None), ?wl)"
      by simp
    have f: "fst (reconcileRole_body testEnvironment server testRules testArgoCD testNamespaceObject []
                    ?wl) =
             Inr [\<lparr>Name = ''argocd-argocd-server'', Namespace = ''argocd'',
                    Labels = [(''part-of'', ''argocd'')], Annotations = [],
                    OwnerReferences = [\<lparr>ownerKind = ''ArgoCD'', ownerName = ''argocd'', ownerController = True\<rparr>],
                    Role.Rules = testRules\<rparr>]"
      by (simp add: eval_defs name_defs fixture_defs library_defs)
    note A = T [where w = ?wl and namespace = testNamespaceObject and rs = "[]", OF hs]
    from A [THEN conjunct2, THEN conjunct2, THEN conjunct2, THEN conjunct2, THEN conjunct2,
        rule_format, OF conjI [OF l p], THEN conjunct2, rule_format, OF f]
    show ?thesis .
  qed
  show ?thesis by (intro conjI) (fact c1 c2 c3 c4 c5 c6)+
qed

lemma refused_for_cluster_scoped:
  "Namespace cr \<noteq> [] \<Longrightarrow>
   fst (controllerutil_SetControllerReference cr
          \<lparr>Name = n, Namespace = [], Labels = l, Annotations = a, OwnerReferences = refs\<rparr>) = refs"
  by (simp add: controllerutil_SetControllerReference_def validateOwner_def)

text \<open>
  C2, as stated, fails where it says that an owner reference is set. \<^verbatim>\<open>reconcileClusterRole\<close>
  calls \<^verbatim>\<open>SetControllerReference\<close> and discards its error. With the namespace of the custom
  resource allowed and no ClusterRole yet, it returns no error and the ClusterRole is
  created, returned and stored with no owner reference: the library refuses a namespaced
  owner for a cluster-scoped object.
\<close>

theorem reconcileClusterRole_creates_without_owner_reference:
  "fst (reconcileClusterRole testEnvironment server testRules testArgoCD emptyWorld) =
     (Some \<lparr>Name = ''argocd-argocd-argocd-server'', Namespace = [],
            Labels = [(''part-of'', ''argocd'')],
            Annotations = [(''name'', ''argocd''), (''namespace'', ''argocd'')],
            OwnerReferences = [], ClusterRole.Rules = testRules\<rparr>, None)
   \<and> last (trace (snd (reconcileClusterRole testEnvironment server testRules testArgoCD emptyWorld))) =
       Call (CreateClusterRole
         \<lparr>Name = ''argocd-argocd-argocd-server'', Namespace = [],
          Labels = [(''part-of'', ''argocd'')],
          Annotations = [(''name'', ''argocd''), (''namespace'', ''argocd'')],
          OwnerReferences = [], ClusterRole.Rules = testRules\<rparr>)
   \<and> clusterRoles (snd (reconcileClusterRole testEnvironment server testRules testArgoCD emptyWorld))
        ''argocd-argocd-argocd-server'' =
       Some \<lparr>Name = ''argocd-argocd-argocd-server'', Namespace = [],
             Labels = [(''part-of'', ''argocd'')],
             Annotations = [(''name'', ''argocd''), (''namespace'', ''argocd'')],
             OwnerReferences = [], ClusterRole.Rules = testRules\<rparr>"
  by (simp add: eval_defs name_defs fixture_defs library_defs)

text \<open>
  C2, amended. \<^verbatim>\<open>reconcileClusterRole\<close> (the hook having returned no error) is gated on whether
  the namespace of the custom resource is allowed by \<^verbatim>\<open>ARGOCD_CLUSTER_CONFIG_NAMESPACES\<close>.
  ClusterRole not found and namespace not allowed: it returns a nil object and a nil error,
  and the world is the one before but for the hook and the Get in the trace, so no write was
  issued. Not found and allowed: it creates and returns the ClusterRole as the hook left it,
  with the owner references that \<^verbatim>\<open>SetControllerReference\<close> computed, its error being
  discarded, and returns the error of the Create. Found and not allowed: the existing
  ClusterRole is deleted. Found and allowed: its rules are overwritten and it is updated.
  With the function of the library, a custom resource that has a namespace and a ClusterRole
  that the hook left without namespace, the created ClusterRole has the owner references
  that the hook left, and no reference to the custom resource is added.
\<close>

theorem reconcileClusterRole_four_quadrants:
  fixes env :: Environment and cr :: ArgoCD and w :: World
    and name :: string and policyRules :: "PolicyRule list" and hooked :: ClusterRole
  assumes hook: "hookClusterRole env (trace w) cr (newClusterRole env name policyRules cr) = (hooked, None)"
  defines "desired \<equiv> newClusterRole env name policyRules cr"
  defines "allowed \<equiv> allowedNamespace env (Namespace cr) (Getenv env ''ARGOCD_CLUSTER_CONFIG_NAMESPACES'')"
  defines "got \<equiv> fst (client_Get_ClusterRole env (Name hooked) (record_event (HookClusterRole desired) w))"
  defines "out \<equiv> reconcileClusterRole env name policyRules cr w"
  defines "lookup \<equiv> [HookClusterRole desired, Call (GetClusterRole (Name hooked))]"
  defines "created \<equiv>
     \<lparr>Name = Name hooked, Namespace = Namespace hooked, Labels = Labels hooked,
      Annotations = Annotations hooked,
      OwnerReferences = fst (SetControllerReference env cr
         \<lparr>Name = Name hooked, Namespace = Namespace hooked, Labels = Labels hooked,
          Annotations = Annotations hooked, OwnerReferences = OwnerReferences hooked\<rparr>),
      ClusterRole.Rules = ClusterRole.Rules hooked\<rparr>"
  shows "(\<forall>e. got = Inl e \<and> IsNotFound e \<and> \<not> allowed \<longrightarrow>
            out = ((None, None), w\<lparr>trace := trace w @ lookup\<rparr>))
       \<and> (\<forall>e. got = Inl e \<and> IsNotFound e \<and> allowed \<longrightarrow>
            trace (snd out) = trace w @ lookup @ [Call (CreateClusterRole created)]
            \<and> fst (fst out) = Some created
            \<and> snd (fst out) = fst (client_Create_ClusterRole env created
                                      (w\<lparr>trace := trace w @ lookup\<rparr>)))
       \<and> (SetControllerReference env = controllerutil_SetControllerReference
            \<and> Namespace cr \<noteq> [] \<and> Namespace hooked = [] \<longrightarrow>
            OwnerReferences created = OwnerReferences hooked)
       \<and> (\<forall>existing. got = Inr existing \<and> \<not> allowed \<longrightarrow>
            trace (snd out) = trace w @ lookup @ [Call (DeleteClusterRole existing)]
            \<and> fst (fst out) = None)
       \<and> (\<forall>existing. got = Inr existing \<and> allowed \<longrightarrow>
            trace (snd out) = trace w @ lookup
              @ [Call (UpdateClusterRole (existing\<lparr>ClusterRole.Rules := ClusterRole.Rules hooked\<rparr>))]
            \<and> fst (fst out) = Some (existing\<lparr>ClusterRole.Rules := ClusterRole.Rules hooked\<rparr>))"
proof -
  have c: "setControllerReference env cr hooked = created"
    by (simp add: created_def setControllerReference_def ObjectMeta.truncate_def)
  have q1: "out = ((None, None), w\<lparr>trace := trace w @ lookup\<rparr>)"
    if a: "got = Inl e \<and> IsNotFound e \<and> \<not> allowed" for e
  proof -
    from a have g: "fst (client_Get_ClusterRole env (Name hooked)
           (record_event (HookClusterRole (newClusterRole env name policyRules cr)) w)) = Inl e"
      and nf: "IsNotFound e"
      and d: "\<not> allowedNamespace env (Namespace cr) (Getenv env ''ARGOCD_CLUSTER_CONFIG_NAMESPACES'')"
      unfolding got_def desired_def allowed_def by blast+
    show ?thesis
      unfolding out_def cluster_notfound_noop [OF hook g nf d]
      by (simp add: desired_def lookup_def record_event_def)
  qed
  have q2: "trace (snd out) = trace w @ lookup @ [Call (CreateClusterRole created)]
            \<and> fst (fst out) = Some created
            \<and> snd (fst out) = fst (client_Create_ClusterRole env created
                                      (w\<lparr>trace := trace w @ lookup\<rparr>))"
    if a: "got = Inl e \<and> IsNotFound e \<and> allowed" for e
  proof -
    from a have g: "fst (client_Get_ClusterRole env (Name hooked)
           (record_event (HookClusterRole (newClusterRole env name policyRules cr)) w)) = Inl e"
      and nf: "IsNotFound e"
      and d: "allowedNamespace env (Namespace cr) (Getenv env ''ARGOCD_CLUSTER_CONFIG_NAMESPACES'')"
      unfolding got_def desired_def allowed_def by blast+
    show ?thesis
      unfolding out_def cluster_notfound_create [OF hook g nf d] c
      by (simp add: desired_def lookup_def case_prod_beta client_Create_ClusterRole_trace
          trace_record_event record_event_def)
  qed
  have q3: "OwnerReferences created = OwnerReferences hooked"
    if a: "SetControllerReference env = controllerutil_SetControllerReference
            \<and> Namespace cr \<noteq> [] \<and> Namespace hooked = []"
    using a by (simp add: created_def refused_for_cluster_scoped)
  have q4: "trace (snd out) = trace w @ lookup @ [Call (DeleteClusterRole existing)]
            \<and> fst (fst out) = None"
    if a: "got = Inr existing \<and> \<not> allowed" for existing
  proof -
    from a have g: "fst (client_Get_ClusterRole env (Name hooked)
           (record_event (HookClusterRole (newClusterRole env name policyRules cr)) w)) = Inr existing"
      and d: "\<not> allowedNamespace env (Namespace cr) (Getenv env ''ARGOCD_CLUSTER_CONFIG_NAMESPACES'')"
      unfolding got_def desired_def allowed_def by blast+
    show ?thesis
      unfolding out_def cluster_found_delete [OF hook g d]
      by (simp add: desired_def lookup_def case_prod_beta client_Delete_ClusterRole_trace
          trace_record_event)
  qed
  have q5: "trace (snd out) = trace w @ lookup
              @ [Call (UpdateClusterRole (existing\<lparr>ClusterRole.Rules := ClusterRole.Rules hooked\<rparr>))]
            \<and> fst (fst out) = Some (existing\<lparr>ClusterRole.Rules := ClusterRole.Rules hooked\<rparr>)"
    if a: "got = Inr existing \<and> allowed" for existing
  proof -
    from a have g: "fst (client_Get_ClusterRole env (Name hooked)
           (record_event (HookClusterRole (newClusterRole env name policyRules cr)) w)) = Inr existing"
      and d: "allowedNamespace env (Namespace cr) (Getenv env ''ARGOCD_CLUSTER_CONFIG_NAMESPACES'')"
      unfolding got_def desired_def allowed_def by blast+
    show ?thesis
      unfolding out_def cluster_found_update [OF hook g d]
      by (simp add: desired_def lookup_def case_prod_beta client_Update_ClusterRole_trace
          trace_record_event)
  qed
  have p1: "\<forall>e. got = Inl e \<and> IsNotFound e \<and> \<not> allowed \<longrightarrow>
            out = ((None, None), w\<lparr>trace := trace w @ lookup\<rparr>)"
    using q1 by blast
  have p2: "\<forall>e. got = Inl e \<and> IsNotFound e \<and> allowed \<longrightarrow>
            trace (snd out) = trace w @ lookup @ [Call (CreateClusterRole created)]
            \<and> fst (fst out) = Some created
            \<and> snd (fst out) = fst (client_Create_ClusterRole env created
                                      (w\<lparr>trace := trace w @ lookup\<rparr>))"
    using q2 by blast
  have p3: "SetControllerReference env = controllerutil_SetControllerReference
            \<and> Namespace cr \<noteq> [] \<and> Namespace hooked = [] \<longrightarrow>
            OwnerReferences created = OwnerReferences hooked"
    using q3 by blast
  have p4: "\<forall>existing. got = Inr existing \<and> \<not> allowed \<longrightarrow>
            trace (snd out) = trace w @ lookup @ [Call (DeleteClusterRole existing)]
            \<and> fst (fst out) = None"
    using q4 by blast
  have p5: "\<forall>existing. got = Inr existing \<and> allowed \<longrightarrow>
            trace (snd out) = trace w @ lookup
              @ [Call (UpdateClusterRole (existing\<lparr>ClusterRole.Rules := ClusterRole.Rules hooked\<rparr>))]
            \<and> fst (fst out) = Some (existing\<lparr>ClusterRole.Rules := ClusterRole.Rules hooked\<rparr>)"
    using q5 by blast
  show ?thesis by (intro conjI) (fact p1 p2 p3 p4 p5)+
qed


theorem reconcileClusterRole_four_quadrants_witness:
  "reconcileClusterRole notAllowedEnvironment server testRules testArgoCD emptyWorld =
     ((None, None),
      emptyWorld\<lparr>trace := [HookClusterRole (newClusterRole notAllowedEnvironment server testRules testArgoCD),
                           Call (GetClusterRole ''argocd-argocd-argocd-server'')]\<rparr>)
   \<and> trace (snd (reconcileClusterRole testEnvironment server testRules testArgoCD emptyWorld)) =
     [HookClusterRole (newClusterRole testEnvironment server testRules testArgoCD),
      Call (GetClusterRole ''argocd-argocd-argocd-server''),
      Call (CreateClusterRole
        \<lparr>Name = ''argocd-argocd-argocd-server'', Namespace = [],
         Labels = [(''part-of'', ''argocd'')],
         Annotations = [(''name'', ''argocd''), (''namespace'', ''argocd'')],
         OwnerReferences = [], ClusterRole.Rules = testRules\<rparr>)]
   \<and> trace (snd (reconcileClusterRole notAllowedEnvironment server testRules testArgoCD (staleWorld server))) =
     [HookClusterRole (newClusterRole notAllowedEnvironment server testRules testArgoCD),
      Call (GetClusterRole ''argocd-argocd-argocd-server''),
      Call (DeleteClusterRole (staleClusterRole server))]
   \<and> trace (snd (reconcileClusterRole testEnvironment server testRules testArgoCD (staleWorld server))) =
     [HookClusterRole (newClusterRole testEnvironment server testRules testArgoCD),
      Call (GetClusterRole ''argocd-argocd-argocd-server''),
      Call (UpdateClusterRole ((staleClusterRole server)\<lparr>ClusterRole.Rules := testRules\<rparr>))]"
proof -
  note T = reconcileClusterRole_four_quadrants
  let ?a = "newClusterRole testEnvironment server testRules testArgoCD"
  let ?n = "newClusterRole notAllowedEnvironment server testRules testArgoCD"
  let ?nf = "StatusError StatusReasonNotFound ''clusterroles argocd-argocd-argocd-server not found''"
  have ha: "hookClusterRole testEnvironment (trace w) testArgoCD ?a = (?a, None)" for w
    by (simp add: testEnvironment_def)
  have hn: "hookClusterRole notAllowedEnvironment (trace w) testArgoCD ?n = (?n, None)" for w
    by (simp add: testEnvironment_def notAllowedEnvironment_def)
  have al: "allowedNamespace testEnvironment (Namespace testArgoCD)
              (Getenv testEnvironment ''ARGOCD_CLUSTER_CONFIG_NAMESPACES'')"
    by (simp add: fixture_defs)
  have na: "\<not> allowedNamespace notAllowedEnvironment (Namespace testArgoCD)
              (Getenv notAllowedEnvironment ''ARGOCD_CLUSTER_CONFIG_NAMESPACES'')"
    by (simp add: fixture_defs)
  have lib: "SetControllerReference testEnvironment = controllerutil_SetControllerReference
             \<and> Namespace testArgoCD \<noteq> [] \<and> Namespace ?a = []"
    by (simp add: newClusterRole_def fixture_defs)
  have g1: "fst (client_Get_ClusterRole notAllowedEnvironment (Name ?n)
              (record_event (HookClusterRole ?n) emptyWorld)) = Inl ?nf"
    by (simp add: client_Get_ClusterRole_def record_event_def newClusterRole_def name_defs fixture_defs)
  have g2: "fst (client_Get_ClusterRole testEnvironment (Name ?a)
              (record_event (HookClusterRole ?a) emptyWorld)) = Inl ?nf"
    by (simp add: client_Get_ClusterRole_def record_event_def newClusterRole_def name_defs fixture_defs)
  have g3: "fst (client_Get_ClusterRole notAllowedEnvironment (Name ?n)
              (record_event (HookClusterRole ?n) (staleWorld server)))
            = Inr (staleClusterRole server)"
    by (simp add: client_Get_ClusterRole_def record_event_def newClusterRole_def name_defs fixture_defs)
  have g4: "fst (client_Get_ClusterRole testEnvironment (Name ?a)
              (record_event (HookClusterRole ?a) (staleWorld server)))
            = Inr (staleClusterRole server)"
    by (simp add: client_Get_ClusterRole_def record_event_def newClusterRole_def name_defs fixture_defs)
  have n: "Name ?a = ''argocd-argocd-argocd-server''" "Name ?n = ''argocd-argocd-argocd-server''"
    "ClusterRole.Rules ?a = testRules" "Namespace ?a = []" "Labels ?a = [(''part-of'', ''argocd'')]"
    "Annotations ?a = [(''name'', ''argocd''), (''namespace'', ''argocd'')]" "OwnerReferences ?a = []"
    by (simp_all add: newClusterRole_def name_defs fixture_defs)
  have e: "trace emptyWorld = []" "trace (staleWorld x) = []" for x
    by (simp_all add: fixture_defs)
  from T [where w = emptyWorld, OF hn, THEN conjunct1, rule_format, of ?nf] g1 na
  have c1: "reconcileClusterRole notAllowedEnvironment server testRules testArgoCD emptyWorld =
     ((None, None), emptyWorld\<lparr>trace := [HookClusterRole ?n, Call (GetClusterRole ''argocd-argocd-argocd-server'')]\<rparr>)"
    by (simp add: n e)
  note A = T [where w = emptyWorld, OF ha]
  from A [THEN conjunct2, THEN conjunct1, rule_format, of ?nf, THEN conjunct1] g2 al
    A [THEN conjunct2, THEN conjunct2, THEN conjunct1, rule_format, OF lib]
  have c2: "trace (snd (reconcileClusterRole testEnvironment server testRules testArgoCD emptyWorld)) =
     [HookClusterRole ?a, Call (GetClusterRole ''argocd-argocd-argocd-server''),
      Call (CreateClusterRole
        \<lparr>Name = ''argocd-argocd-argocd-server'', Namespace = [],
         Labels = [(''part-of'', ''argocd'')],
         Annotations = [(''name'', ''argocd''), (''namespace'', ''argocd'')],
         OwnerReferences = [], ClusterRole.Rules = testRules\<rparr>)]"
    by (simp add: n e)
  from T [where w = "staleWorld server", OF hn, THEN conjunct2, THEN conjunct2, THEN conjunct2,
      THEN conjunct1, rule_format, of "staleClusterRole server", THEN conjunct1] g3 na
  have c3: "trace (snd (reconcileClusterRole notAllowedEnvironment server testRules testArgoCD (staleWorld server))) =
     [HookClusterRole ?n, Call (GetClusterRole ''argocd-argocd-argocd-server''),
      Call (DeleteClusterRole (staleClusterRole server))]"
    by (simp add: n e)
  from T [where w = "staleWorld server", OF ha, THEN conjunct2, THEN conjunct2, THEN conjunct2,
      THEN conjunct2, rule_format, of "staleClusterRole server", THEN conjunct1] g4 al
  have c4: "trace (snd (reconcileClusterRole testEnvironment server testRules testArgoCD (staleWorld server))) =
     [HookClusterRole ?a, Call (GetClusterRole ''argocd-argocd-argocd-server''),
      Call (UpdateClusterRole ((staleClusterRole server)\<lparr>ClusterRole.Rules := testRules\<rparr>))]"
    by (simp add: n e)
  show ?thesis by (intro conjI) (fact c1 c2 c3 c4)+
qed

text \<open>
  C10, as stated, fails: on a pass where every step succeeds and the Roles are created,
  \<^verbatim>\<open>reconcileRoles\<close> returns a nil Role together with the nil error.
\<close>

theorem reconcileRoles_successful_pass_returns_nil:
  "snd (fst (reconcileRoles testEnvironment testArgoCD emptyWorld)) = None
   \<and> fst (fst (reconcileRoles testEnvironment testArgoCD emptyWorld)) = None
   \<and> roles (snd (reconcileRoles testEnvironment testArgoCD emptyWorld))
        (''argocd'', ''argocd-argocd-server'') \<noteq> None"
  by (simp add: reconcileRoles_def eval_defs name_defs fixture_defs library_defs)

text \<open>
  C10, amended. \<^verbatim>\<open>reconcileRoles\<close> returns no object: its first result is nil on every path,
  the named result \<^verbatim>\<open>role\<close> never being assigned. It runs \<^verbatim>\<open>reconcileRole\<close> for the application
  controller, Dex, the server and Redis, then \<^verbatim>\<open>reconcileClusterRole\<close> for the application
  controller and the server, each in the world that the one before left. When all six return
  a nil error it returns a nil Role and a nil error, in the world that the last one left;
  otherwise it returns a nil Role and the error of the first that failed, in the world that
  this one left.
\<close>

theorem reconcileRoles_never_returns_a_role:
  fixes env :: Environment and cr :: ArgoCD and w :: World
  defines "r1 \<equiv> reconcileRole env applicationController (policyRuleForApplicationController env) cr w"
  defines "r2 \<equiv> reconcileRole env dexServer (policyRuleForDexServer env) cr (snd r1)"
  defines "r3 \<equiv> reconcileRole env server (policyRuleForServer env) cr (snd r2)"
  defines "r4 \<equiv> reconcileRole env redisHa (policyRuleForRedisHa env cr) cr (snd r3)"
  defines "r5 \<equiv> reconcileClusterRole env applicationController
                   (policyRuleForApplicationController env) cr (snd r4)"
  defines "r6 \<equiv> reconcileClusterRole env server (policyRuleForServerClusterRole env) cr (snd r5)"
  shows "fst (fst (reconcileRoles env cr w)) = None
       \<and> (snd (fst r1) = None \<and> snd (fst r2) = None \<and> snd (fst r3) = None \<and> snd (fst r4) = None
            \<and> snd (fst r5) = None \<and> snd (fst r6) = None \<longrightarrow>
          reconcileRoles env cr w = ((None, None), snd r6))
       \<and> (\<forall>e. snd (fst r1) = Some e \<longrightarrow> reconcileRoles env cr w = ((None, Some e), snd r1))
       \<and> (\<forall>e. snd (fst r1) = None \<and> snd (fst r2) = Some e \<longrightarrow>
            reconcileRoles env cr w = ((None, Some e), snd r2))
       \<and> (\<forall>e. snd (fst r1) = None \<and> snd (fst r2) = None \<and> snd (fst r3) = Some e \<longrightarrow>
            reconcileRoles env cr w = ((None, Some e), snd r3))
       \<and> (\<forall>e. snd (fst r1) = None \<and> snd (fst r2) = None \<and> snd (fst r3) = None
              \<and> snd (fst r4) = Some e \<longrightarrow>
            reconcileRoles env cr w = ((None, Some e), snd r4))
       \<and> (\<forall>e. snd (fst r1) = None \<and> snd (fst r2) = None \<and> snd (fst r3) = None
              \<and> snd (fst r4) = None \<and> snd (fst r5) = Some e \<longrightarrow>
            reconcileRoles env cr w = ((None, Some e), snd r5))
       \<and> (\<forall>e. snd (fst r1) = None \<and> snd (fst r2) = None \<and> snd (fst r3) = None
              \<and> snd (fst r4) = None \<and> snd (fst r5) = None \<and> snd (fst r6) = Some e \<longrightarrow>
            reconcileRoles env cr w = ((None, Some e), snd r6))"
proof -
  have R: "reconcileRoles env cr w =
     (case snd (fst r1) of Some e \<Rightarrow> ((None, Some e), snd r1) | None \<Rightarrow>
      case snd (fst r2) of Some e \<Rightarrow> ((None, Some e), snd r2) | None \<Rightarrow>
      case snd (fst r3) of Some e \<Rightarrow> ((None, Some e), snd r3) | None \<Rightarrow>
      case snd (fst r4) of Some e \<Rightarrow> ((None, Some e), snd r4) | None \<Rightarrow>
      case snd (fst r5) of Some e \<Rightarrow> ((None, Some e), snd r5) | None \<Rightarrow>
      case snd (fst r6) of Some e \<Rightarrow> ((None, Some e), snd r6) | None \<Rightarrow> ((None, None), snd r6))"
    unfolding reconcileRoles_def r1_def r2_def r3_def r4_def r5_def r6_def
    by (simp add: Let_def case_prod_beta split: option.splits)
  have p0: "fst (fst (reconcileRoles env cr w)) = None"
    unfolding R by (simp split: option.splits)
  show ?thesis
    unfolding R
    by (intro conjI allI impI) (simp_all split: option.splits)
qed


theorem reconcileRoles_never_returns_a_role_witness:
  "fst (reconcileRoles testEnvironment testArgoCD twoNamespaceWorld) = (None, None)
   \<and> reconcileRoles failingEnvironment testArgoCD emptyWorld =
       ((None, Some testError),
        emptyWorld\<lparr>trace := [Call (ListNamespaces [(''managed-by'', ''argocd'')])]\<rparr>)"
proof -
  note T = reconcileRoles_never_returns_a_role
  let ?env = testEnvironment
  let ?w = twoNamespaceWorld
  let ?r1 = "reconcileRole ?env applicationController (policyRuleForApplicationController ?env)
               testArgoCD ?w"
  let ?r2 = "reconcileRole ?env dexServer (policyRuleForDexServer ?env) testArgoCD (snd ?r1)"
  let ?r3 = "reconcileRole ?env server (policyRuleForServer ?env) testArgoCD (snd ?r2)"
  let ?r4 = "reconcileRole ?env redisHa (policyRuleForRedisHa ?env testArgoCD) testArgoCD (snd ?r3)"
  let ?r5 = "reconcileClusterRole ?env applicationController
               (policyRuleForApplicationController ?env) testArgoCD (snd ?r4)"
  let ?r6 = "reconcileClusterRole ?env server (policyRuleForServerClusterRole ?env) testArgoCD
               (snd ?r5)"
  have ok: "snd (fst ?r1) = None \<and> snd (fst ?r2) = None \<and> snd (fst ?r3) = None
            \<and> snd (fst ?r4) = None \<and> snd (fst ?r5) = None \<and> snd (fst ?r6) = None"
    by (simp add: eval_defs name_defs fixture_defs library_defs)
  from T [of ?env testArgoCD ?w, THEN conjunct2, THEN conjunct1, rule_format, OF ok]
  have c1: "fst (reconcileRoles ?env testArgoCD ?w) = (None, None)"
    by simp
  have bad: "snd (fst (reconcileRole failingEnvironment applicationController
                         (policyRuleForApplicationController failingEnvironment) testArgoCD emptyWorld))
             = Some testError"
    by (simp add: eval_defs name_defs fixture_defs)
  have w1: "snd (reconcileRole failingEnvironment applicationController
                   (policyRuleForApplicationController failingEnvironment) testArgoCD emptyWorld)
            = emptyWorld\<lparr>trace := [Call (ListNamespaces [(''managed-by'', ''argocd'')])]\<rparr>"
    by (simp add: eval_defs name_defs fixture_defs)
  from T [of failingEnvironment testArgoCD emptyWorld, THEN conjunct2, THEN conjunct2, THEN conjunct1,
      rule_format, OF bad]
  have c2: "reconcileRoles failingEnvironment testArgoCD emptyWorld =
       ((None, Some testError),
        emptyWorld\<lparr>trace := [Call (ListNamespaces [(''managed-by'', ''argocd'')])]\<rparr>)"
    by (simp only: w1)
  show ?thesis by (intro conjI) (fact c1 c2)+
qed

end
